theory Spec2Isabelle
  imports Main "HOL-Library.Word" "HOL-Library.Multiset"
begin

unbundle bit_operations_syntax

section \<open>Shared backend vocabulary\<close>

type_synonym byte = "8 word"

text \<open>Result codes of the Vulkan device table, as signed integers (\<open>VkResult\<close>).\<close>

type_synonym VkResult = int

definition VK_SUCCESS :: VkResult where
  "VK_SUCCESS = 0"

definition VK_ERROR_UNKNOWN :: VkResult where
  "VK_ERROR_UNKNOWN = - 13"

text \<open>
  Every way an operation of the model can stop early. \<open>Fatal\<close> carries the message of
  the failed assertion; \<open>OutOfBounds\<close> is a copy that leaves the memory it was given.
\<close>

datatype error = Fatal string | OutOfBounds

text \<open>
  Modelled from the spec: the macro \<open>XENON_VK_ASSERT\<close> is declared in VulkanMacros.hpp,
  which is not part of the sources. The spec's error taxonomy makes a failed backend
  call fatal: it is logged and the operation does not continue.
\<close>

definition XENON_VK_ASSERT :: "VkResult \<Rightarrow> string \<Rightarrow> error + unit" where
  "XENON_VK_ASSERT result msg = (if result = VK_SUCCESS then Inr () else Inl (Fatal msg))"

section \<open>VulkanCommandSubmitter\<close>

text \<open>
  A command recorder is represented by its current command buffer, the only part
  \<open>submit\<close> reads: the buffer handle, its signal semaphore and its stage flags.
  Handles are natural numbers.
\<close>

record VulkanCommandBuffer =
  m_CommandBuffer :: nat
  m_SignalSemaphore :: nat
  m_StageFlags :: "32 word"

record VulkanSwapchain =
  isRenderable :: bool
  getInFlightSemaphore :: nat
  getRenderFinishedSemaphore :: nat

text \<open>
  \<open>VkSubmitInfo\<close>: each pointer/count pair of the C structure is the list it points to.
  A value-initialised structure has count 0 everywhere.
\<close>

record VkSubmitInfo =
  pWaitSemaphores :: "nat list"
  pWaitDstStageMask :: "32 word list"
  pCommandBuffers :: "nat list"
  pSignalSemaphores :: "nat list"

definition VK_PIPELINE_STAGE_COLOR_ATTACHMENT_OUTPUT_BIT :: "32 word" where
  "VK_PIPELINE_STAGE_COLOR_ATTACHMENT_OUTPUT_BIT = 0x400"

definition emptySubmitInfo :: VkSubmitInfo where
  "emptySubmitInfo =
     \<lparr>pWaitSemaphores = [], pWaitDstStageMask = [], pCommandBuffers = [], pSignalSemaphores = []\<rparr>"

text \<open>The five local vectors of \<open>submit\<close> (lines 46-50).\<close>

record submit_vectors =
  submitInfos :: "VkSubmitInfo list"
  commandBuffers :: "nat list list"
  waitStageFlags :: "32 word list list"
  waitSemaphores :: "nat list list"
  signalSemaphores :: "nat list list"

text \<open>What one iteration of the outer loop builds for its batch (lines 70-79).\<close>

record batch_locals =
  batchCommandBuffers :: "nat list"
  batchSignalSemaphores :: "nat list"
  waitFlags :: "32 word list"
  submitInfo :: VkSubmitInfo

text \<open>
  Lines 81-97, the body of the inner loop over the recorders of one batch. The wait
  fields of the descriptor are assigned here, once per recorder, from the last entry
  of the wait vectors.
\<close>

definition recorder_step :: "submit_vectors \<Rightarrow> batch_locals \<Rightarrow> VulkanCommandBuffer \<Rightarrow> batch_locals" where
  "recorder_step v b pVkCommandBuffer =
     (let b1 = b\<lparr>batchCommandBuffers := batchCommandBuffers b @ [m_CommandBuffer pVkCommandBuffer],
                 batchSignalSemaphores := batchSignalSemaphores b @ [m_SignalSemaphore pVkCommandBuffer],
                 waitFlags := waitFlags b @ [m_StageFlags pVkCommandBuffer]\<rparr>
      in if waitSemaphores v \<noteq> []
         then b1\<lparr>submitInfo := (submitInfo b1)\<lparr>pWaitSemaphores := last (waitSemaphores v),
                                                pWaitDstStageMask := last (waitStageFlags v)\<rparr>\<rparr>
         else b1)"

text \<open>Lines 68-106, one iteration of the outer loop.\<close>

definition batch_step :: "submit_vectors \<Rightarrow> VulkanCommandBuffer list \<Rightarrow> submit_vectors" where
  "batch_step v pCommandRecorderBatch =
     (let b0 = \<lparr>batchCommandBuffers = [], batchSignalSemaphores = [], waitFlags = [],
                submitInfo = emptySubmitInfo\<rparr>;
          b = foldl (recorder_step v) b0 pCommandRecorderBatch;
          info = (submitInfo b)\<lparr>pCommandBuffers := batchCommandBuffers b,
                                pSignalSemaphores := batchSignalSemaphores b\<rparr>
      in v\<lparr>submitInfos := submitInfos v @ [info],
           commandBuffers := commandBuffers v @ [batchCommandBuffers b],
           waitStageFlags := waitStageFlags v @ [waitFlags b],
           waitSemaphores := waitSemaphores v @ [batchSignalSemaphores b],
           signalSemaphores := signalSemaphores v @ [batchSignalSemaphores b]\<rparr>)"

text \<open>Lines 59-63: the wait vectors start with the swapchain's in-flight semaphore.\<close>

definition initial_vectors :: "VulkanSwapchain option \<Rightarrow> submit_vectors" where
  "initial_vectors pVkSwapchain =
     (case pVkSwapchain of
        None \<Rightarrow> \<lparr>submitInfos = [], commandBuffers = [], waitStageFlags = [],
                 waitSemaphores = [], signalSemaphores = []\<rparr>
      | Some sc \<Rightarrow>
          if isRenderable sc
          then \<lparr>submitInfos = [], commandBuffers = [],
                waitStageFlags = [ [VK_PIPELINE_STAGE_COLOR_ATTACHMENT_OUTPUT_BIT]],
                waitSemaphores = [ [getInFlightSemaphore sc]], signalSemaphores = []\<rparr>
          else \<lparr>submitInfos = [], commandBuffers = [], waitStageFlags = [],
                waitSemaphores = [], signalSemaphores = []\<rparr>)"

text \<open>Lines 108-114: the last descriptor signals the render-finished semaphore alone.\<close>

definition signal_swapchain :: "VulkanSwapchain option \<Rightarrow> VkSubmitInfo list \<Rightarrow> VkSubmitInfo list" where
  "signal_swapchain pVkSwapchain infos =
     (case pVkSwapchain of
        None \<Rightarrow> infos
      | Some sc \<Rightarrow>
          if infos \<noteq> [] \<and> isRenderable sc
          then butlast infos @ [(last infos)\<lparr>pSignalSemaphores := [getRenderFinishedSemaphore sc]\<rparr>]
          else infos)"

text \<open>
  The submission descriptors \<open>submit\<close> hands to the queue, as a function of the
  swapchain pointer after the cast of line 58 and of the batches (lines 59-114).
\<close>

definition buildSubmitInfos ::
  "VulkanSwapchain option \<Rightarrow> VulkanCommandBuffer list list \<Rightarrow> VkSubmitInfo list" where
  "buildSubmitInfos pVkSwapchain pCommandRecorders =
     signal_swapchain pVkSwapchain
       (submitInfos (foldl batch_step (initial_vectors pVkSwapchain) pCommandRecorders))"

datatype submitter_event =
    QueueSubmit "VkSubmitInfo list"
  | WaitForFences int
  | ResetFences

text \<open>
  The submitter object: the flag \<open>m_bIsWaiting\<close>, and the device-table calls it has made
  so far on its fence and queue. The result code of the n-th call is given by the
  device, a function \<open>nat \<Rightarrow> VkResult\<close>.
\<close>

record VulkanCommandSubmitter =
  m_bIsWaiting :: bool
  submitter_calls :: nat
  submitter_trace :: "submitter_event list"

definition submitter_call ::
  "(nat \<Rightarrow> VkResult) \<Rightarrow> submitter_event \<Rightarrow> VulkanCommandSubmitter \<Rightarrow> VkResult \<times> VulkanCommandSubmitter" where
  "submitter_call vk ev s =
     (vk (submitter_calls s),
      s\<lparr>submitter_calls := Suc (submitter_calls s), submitter_trace := submitter_trace s @ [ev]\<rparr>)"

text \<open>
  Modelled from the spec: the member template \<open>as\<close>, called on \<open>pSwapchain\<close> at line 58,
  is declared outside the sources. The spec makes the swapchain optional
  (\<open>submit(batches, swapchain?)\<close>), the parameter defaults to the null pointer, and the
  code tests the converted pointer against null at lines 59 and 109: the conversion keeps
  the pointer, a null pointer stays null, and nothing is read through it.
\<close>

definition as_VulkanSwapchain :: "VulkanSwapchain option \<Rightarrow> VulkanSwapchain option" where
  "as_VulkanSwapchain pSwapchain = pSwapchain"

text \<open>\<open>submit\<close>, lines 42-122.\<close>

definition submit ::
  "(nat \<Rightarrow> VkResult) \<Rightarrow> VulkanCommandBuffer list list \<Rightarrow> VulkanSwapchain option \<Rightarrow>
   VulkanCommandSubmitter \<Rightarrow> (error + unit) \<times> VulkanCommandSubmitter" where
  "submit vk pCommandRecorders pSwapchain s =
     (let pVkSwapchain = as_VulkanSwapchain pSwapchain;
          s1 = s\<lparr>m_bIsWaiting := (pCommandRecorders \<noteq> [])\<rparr>;
          infos = buildSubmitInfos pVkSwapchain pCommandRecorders;
          (result, s2) = submitter_call vk (QueueSubmit infos) s1
      in (XENON_VK_ASSERT result ''Failed to submit the queue!'', s2))"

text \<open>\<open>wait\<close>, lines 124-134.\<close>

definition wait ::
  "(nat \<Rightarrow> VkResult) \<Rightarrow> int \<Rightarrow> VulkanCommandSubmitter \<Rightarrow> (error + unit) \<times> VulkanCommandSubmitter" where
  "wait vk timeout s =
     (if m_bIsWaiting s
      then (let (r1, s1) = submitter_call vk (WaitForFences timeout) s
            in case XENON_VK_ASSERT r1 ''Failed to wait for the fence!'' of
                 Inl e \<Rightarrow> (Inl e, s1)
               | Inr _ \<Rightarrow>
                   (let (r2, s2) = submitter_call vk ResetFences s1
                    in case XENON_VK_ASSERT r2 ''Failed to reset fence!'' of
                         Inl e \<Rightarrow> (Inl e, s2)
                       | Inr _ \<Rightarrow> (Inr (), s2\<lparr>m_bIsWaiting := False\<rparr>)))
      else (Inr (), s))"

text \<open>The blocking fence operations recorded in a trace.\<close>

definition blocking_waits :: "submitter_event list \<Rightarrow> nat" where
  "blocking_waits evs = length (filter (\<lambda>e. case e of WaitForFences _ \<Rightarrow> True | _ \<Rightarrow> False) evs)"

text \<open>Sample values used to exercise the submitter.\<close>

definition always_success :: "nat \<Rightarrow> VkResult" where
  "always_success n = VK_SUCCESS"

definition recorder_a :: VulkanCommandBuffer where
  "recorder_a = \<lparr>m_CommandBuffer = 1, m_SignalSemaphore = 11, m_StageFlags = 1\<rparr>"

definition recorder_b :: VulkanCommandBuffer where
  "recorder_b = \<lparr>m_CommandBuffer = 2, m_SignalSemaphore = 12, m_StageFlags = 2\<rparr>"

definition swapchain_a :: VulkanSwapchain where
  "swapchain_a = \<lparr>isRenderable = True, getInFlightSemaphore = 30, getRenderFinishedSemaphore = 31\<rparr>"

definition idle_submitter :: VulkanCommandSubmitter where
  "idle_submitter = \<lparr>m_bIsWaiting = False, submitter_calls = 0, submitter_trace = []\<rparr>"

definition hidden_swapchain :: VulkanSwapchain where
  "hidden_swapchain = \<lparr>isRenderable = False, getInFlightSemaphore = 40, getRenderFinishedSemaphore = 41\<rparr>"

section \<open>Shader reflection data and descriptor bindings\<close>

text \<open>
  The descriptor sets are the four the constructor asks layouts for (lines 857-860).
  The enumerations \<open>ResourceType\<close>, \<open>ResouceOperation\<close> and \<open>AttributeDataType\<close> are
  declared outside the sources; they are kept as their integer values.
\<close>

datatype DescriptorType = UserDefined | Material | PerGeometry | Scene

type_synonym ResourceType = "8 word"

text \<open>
  Modelled from the spec: the enumeration \<open>ShaderType\<close> is declared outside the
  sources. The spec makes the stage types the bits of a stage-applicability mask, which
  the code combines with \<open>|=\<close> and tests with \<open>&\<close>; the vertex and the fragment stage are
  taken to be bit 0 and bit 1.
\<close>

type_synonym ShaderType = "32 word"

definition ShaderType_Vertex :: ShaderType where
  "ShaderType_Vertex = 1"

definition ShaderType_Fragment :: ShaderType where
  "ShaderType_Fragment = 2"

record ShaderAttribute =
  m_Location :: "32 word"
  m_DataType :: "8 word"

record ShaderResource =
  m_Binding :: "32 word"
  m_Set :: DescriptorType
  m_Type :: ResourceType
  m_Operations :: "8 word"

text \<open>
  \<open>DescriptorBindingInfo\<close>: the resource type (the member \<open>m_Type\<close>, here
  \<open>m_BindingType\<close> to keep it apart from the resource's) and the stage mask.
\<close>

record DescriptorBindingInfo =
  m_BindingType :: ResourceType
  m_ApplicableShaders :: ShaderType

record Shader =
  isValid :: bool
  getInputAttributes :: "ShaderAttribute list"
  getResources :: "ShaderResource list"

type_synonym BindingMap = "DescriptorType \<Rightarrow> (32 word \<Rightarrow> DescriptorBindingInfo option) option"

text \<open>
  Lines 45-56, the body of the loop over the resources of one shader.
  \<open>bindingMap[set]\<close> creates an empty inner map when the set has none yet.
\<close>

definition merge_resource :: "ShaderType \<Rightarrow> BindingMap \<Rightarrow> ShaderResource \<Rightarrow> BindingMap" where
  "merge_resource type bindingMap resource =
     (let bindings = (case bindingMap (m_Set resource) of None \<Rightarrow> Map.empty | Some b \<Rightarrow> b)
      in case bindings (m_Binding resource) of
           Some info \<Rightarrow>
             bindingMap(m_Set resource \<mapsto>
               bindings(m_Binding resource \<mapsto>
                 info\<lparr>m_ApplicableShaders := m_ApplicableShaders info OR type\<rparr>))
         | None \<Rightarrow>
             bindingMap(m_Set resource \<mapsto>
               bindings(m_Binding resource \<mapsto>
                 \<lparr>m_BindingType = m_Type resource, m_ApplicableShaders = type\<rparr>)))"

text \<open>The entry of a (set, binding) pair in a binding map, if there is one.\<close>

definition lookup_binding :: "BindingMap \<Rightarrow> DescriptorType \<Rightarrow> 32 word \<Rightarrow> DescriptorBindingInfo option" where
  "lookup_binding bindingMap dset b =
     (case bindingMap dset of None \<Rightarrow> None | Some bindings \<Rightarrow> bindings b)"

subsection \<open>Vertex input descriptions\<close>

datatype VkFormat =
    VK_FORMAT_UNDEFINED
  | VK_FORMAT_R8_UINT | VK_FORMAT_R16_UINT | VK_FORMAT_R32_UINT | VK_FORMAT_R64_UINT
  | VK_FORMAT_R8_SINT | VK_FORMAT_R16_SINT | VK_FORMAT_R32_SINT | VK_FORMAT_R64_SINT
  | VK_FORMAT_R32_SFLOAT
  | VK_FORMAT_R8G8_UINT | VK_FORMAT_R16G16_UINT | VK_FORMAT_R32G32_UINT | VK_FORMAT_R64G64_UINT
  | VK_FORMAT_R8G8_SINT | VK_FORMAT_R16G16_SINT | VK_FORMAT_R32G32_SINT | VK_FORMAT_R64G64_SINT
  | VK_FORMAT_R32G32_SFLOAT
  | VK_FORMAT_R8G8B8_UINT | VK_FORMAT_R16G16B16_UINT | VK_FORMAT_R32G32B32_UINT
  | VK_FORMAT_R64G64B64_UINT
  | VK_FORMAT_R8G8B8_SINT | VK_FORMAT_R16G16B16_SINT | VK_FORMAT_R32G32B32_SINT
  | VK_FORMAT_R64G64B64_SINT
  | VK_FORMAT_R32G32B32_SFLOAT
  | VK_FORMAT_R8G8B8A8_UNORM | VK_FORMAT_R16G16B16A16_UINT | VK_FORMAT_R32G32B32A32_UINT
  | VK_FORMAT_R64G64B64A64_UINT
  | VK_FORMAT_R8G8B8A8_SNORM | VK_FORMAT_R16G16B16A16_SINT | VK_FORMAT_R32G32B32A32_SINT
  | VK_FORMAT_R64G64B64A64_SINT
  | VK_FORMAT_R32G32B32A32_SFLOAT

datatype VkVertexInputRate = VK_VERTEX_INPUT_RATE_VERTEX | VK_VERTEX_INPUT_RATE_INSTANCE

record VkVertexInputAttributeDescription =
  location :: "32 word"
  binding :: "32 word"
  format :: VkFormat
  offset :: "32 word"

text \<open>\<open>VkVertexInputBindingDescription\<close>; its member \<open>binding\<close> is \<open>input_binding\<close> here.\<close>

record VkVertexInputBindingDescription =
  input_binding :: "32 word"
  stride :: "32 word"
  inputRate :: VkVertexInputRate

text \<open>
  The enumeration \<open>InputElement\<close>, the predicate \<open>IsVertexElement\<close> and the structure
  \<open>InstanceEntry\<close> are declared outside the sources. An input element is identified
  with the location it is cast from; the predicate, the four instance enumerators named
  in the switch of lines 81-105, the member offsets and the size of the instance record
  are parameters of the model.
\<close>

type_synonym InputElement = "32 word"

record InputConventions =
  IsVertexElement :: "InputElement \<Rightarrow> bool"
  InstancePosition :: InputElement
  InstanceRotation :: InputElement
  InstanceScale :: InputElement
  InstanceID :: InputElement
  offsetof_m_Position :: "32 word"
  offsetof_m_Rotation :: "32 word"
  offsetof_m_Scale :: "32 word"
  offsetof_m_InstanceID :: "32 word"
  sizeof_InstanceEntry :: "32 word"

text \<open>
  Lines 74-105: the attribute description of one declared input. A value-initialised
  description has format \<open>VK_FORMAT_UNDEFINED\<close> and offset 0; the switch fills both for the
  four instance elements only.
\<close>

definition input_attribute :: "InputConventions \<Rightarrow> ShaderAttribute \<Rightarrow> VkVertexInputAttributeDescription" where
  "input_attribute cv input =
     (let element = m_Location input;
          attribute = \<lparr>location = m_Location input,
                       binding = (if IsVertexElement cv element then 0 else 1),
                       format = VK_FORMAT_UNDEFINED, offset = 0\<rparr>
      in if element = InstancePosition cv
         then attribute\<lparr>format := VK_FORMAT_R32G32B32_SFLOAT, offset := offsetof_m_Position cv\<rparr>
         else if element = InstanceRotation cv
         then attribute\<lparr>format := VK_FORMAT_R32G32B32_SFLOAT, offset := offsetof_m_Rotation cv\<rparr>
         else if element = InstanceScale cv
         then attribute\<lparr>format := VK_FORMAT_R32G32B32_SFLOAT, offset := offsetof_m_Scale cv\<rparr>
         else if element = InstanceID cv
         then attribute\<lparr>format := VK_FORMAT_R32_UINT, offset := offsetof_m_InstanceID cv\<rparr>
         else attribute)"

text \<open>Lines 72-106: one iteration appends the description and accumulates the flag.\<close>

definition input_step ::
  "InputConventions \<Rightarrow> VkVertexInputAttributeDescription list \<times> bool \<Rightarrow> ShaderAttribute \<Rightarrow>
   VkVertexInputAttributeDescription list \<times> bool" where
  "input_step cv acc input =
     (case acc of (inputAttributeDescriptions, hasInstanceInputs) \<Rightarrow>
        (let attribute = input_attribute cv input
         in (inputAttributeDescriptions @ [attribute], hasInstanceInputs \<or> binding attribute = 1)))"

text \<open>
  \<open>GetShaderBindings\<close>, lines 34-117. The push-constant vector is not touched (the
  loop that filled it is commented out) and is left out. The result is the three
  vectors the function updates through its reference parameters.
\<close>

definition GetShaderBindings ::
  "InputConventions \<Rightarrow> Shader \<Rightarrow> BindingMap \<Rightarrow> VkVertexInputBindingDescription list \<Rightarrow>
   VkVertexInputAttributeDescription list \<Rightarrow> ShaderType \<Rightarrow>
   BindingMap \<times> VkVertexInputBindingDescription list \<times> VkVertexInputAttributeDescription list" where
  "GetShaderBindings cv shader bindingMap inputBindingDescriptions inputAttributeDescriptions type =
     (let bindingMap' = foldl (merge_resource type) bindingMap (getResources shader)
      in if type AND ShaderType_Vertex \<noteq> 0
         then (case foldl (input_step cv) (inputAttributeDescriptions, False) (getInputAttributes shader) of
                 (attributes, hasInstanceInputs) \<Rightarrow>
                   (bindingMap',
                    (if hasInstanceInputs
                     then inputBindingDescriptions @
                            [\<lparr>input_binding = 1, stride = sizeof_InstanceEntry cv,
                              inputRate = VK_VERTEX_INPUT_RATE_INSTANCE\<rparr>]
                     else inputBindingDescriptions),
                    attributes))
         else (bindingMap', inputBindingDescriptions, inputAttributeDescriptions))"

text \<open>
  Lines 811-813 and 833-835 of the constructor: the reflection data of the vertex
  shader and then of the fragment shader, each only when its SPIR-V is valid, go
  into the pipeline's binding map and input vectors (all empty before).
\<close>

definition reflect_shaders ::
  "InputConventions \<Rightarrow> Shader \<Rightarrow> Shader \<Rightarrow>
   BindingMap \<times> VkVertexInputBindingDescription list \<times> VkVertexInputAttributeDescription list" where
  "reflect_shaders cv m_VertexShader m_FragmentShader =
     (let r0 = (Map.empty, [], []);
          r1 = (if isValid m_VertexShader
                then (case r0 of (m, bs, as) \<Rightarrow> GetShaderBindings cv m_VertexShader m bs as ShaderType_Vertex)
                else r0)
      in if isValid m_FragmentShader
         then (case r1 of (m, bs, as) \<Rightarrow> GetShaderBindings cv m_FragmentShader m bs as ShaderType_Fragment)
         else r1)"

text \<open>
  A sequence of stages merged into one binding map, as successive calls of
  \<open>GetShaderBindings\<close> on the same map do: every resource of every stage, in order,
  paired with the type of its stage.
\<close>

definition declarations :: "(ShaderType \<times> Shader) list \<Rightarrow> (ShaderType \<times> ShaderResource) list" where
  "declarations stages = concat (map (\<lambda>(type, shader). map (Pair type) (getResources shader)) stages)"

definition merge_stages ::
  "InputConventions \<Rightarrow> BindingMap \<Rightarrow> (ShaderType \<times> Shader) list \<Rightarrow> BindingMap" where
  "merge_stages cv bindingMap stages =
     foldl (\<lambda>m (type, shader). fst (GetShaderBindings cv shader m [] [] type)) bindingMap stages"

text \<open>The stage mask accumulated by \<open>|=\<close> over a sequence of stage types.\<close>

definition or_mask :: "ShaderType list \<Rightarrow> ShaderType" where
  "or_mask types = foldl (OR) 0 types"

section \<open>VulkanRasterizingPipeline\<close>

definition g_MagicNumber :: "64 word" where
  "g_MagicNumber = 0x7CE6B3A48BF7E2B1"

text \<open>
  \<open>ComponentDataType\<close> is declared outside the sources; these are the enumerators
  \<open>GetElementFormat\<close> names, and one constructor for every other value.
\<close>

datatype ComponentDataType =
    Uint8 | Uint16 | Uint32 | Uint64 | Int8 | Int16 | Int32 | Int64 | Float
  | OtherComponentDataType nat

text \<open>
  \<open>GetElementFormat\<close>, lines 650-796. The fall-through case also logs an error; the
  model returns the format only.
\<close>

definition GetElementFormat :: "8 word \<Rightarrow> ComponentDataType \<Rightarrow> VkFormat" where
  "GetElementFormat componentCount dataType =
     (if componentCount = 1 then
        (case dataType of
           Uint8 \<Rightarrow> VK_FORMAT_R8_UINT | Uint16 \<Rightarrow> VK_FORMAT_R16_UINT
         | Uint32 \<Rightarrow> VK_FORMAT_R32_UINT | Uint64 \<Rightarrow> VK_FORMAT_R64_UINT
         | Int8 \<Rightarrow> VK_FORMAT_R8_SINT | Int16 \<Rightarrow> VK_FORMAT_R16_SINT
         | Int32 \<Rightarrow> VK_FORMAT_R32_SINT | Int64 \<Rightarrow> VK_FORMAT_R64_SINT
         | Float \<Rightarrow> VK_FORMAT_R32_SFLOAT
         | OtherComponentDataType _ \<Rightarrow> VK_FORMAT_UNDEFINED)
      else if componentCount = 2 then
        (case dataType of
           Uint8 \<Rightarrow> VK_FORMAT_R8G8_UINT | Uint16 \<Rightarrow> VK_FORMAT_R16G16_UINT
         | Uint32 \<Rightarrow> VK_FORMAT_R32G32_UINT | Uint64 \<Rightarrow> VK_FORMAT_R64G64_UINT
         | Int8 \<Rightarrow> VK_FORMAT_R8G8_SINT | Int16 \<Rightarrow> VK_FORMAT_R16G16_SINT
         | Int32 \<Rightarrow> VK_FORMAT_R32G32_SINT | Int64 \<Rightarrow> VK_FORMAT_R64G64_SINT
         | Float \<Rightarrow> VK_FORMAT_R32G32_SFLOAT
         | OtherComponentDataType _ \<Rightarrow> VK_FORMAT_UNDEFINED)
      else if componentCount = 3 then
        (case dataType of
           Uint8 \<Rightarrow> VK_FORMAT_R8G8B8_UINT | Uint16 \<Rightarrow> VK_FORMAT_R16G16B16_UINT
         | Uint32 \<Rightarrow> VK_FORMAT_R32G32B32_UINT | Uint64 \<Rightarrow> VK_FORMAT_R64G64B64_UINT
         | Int8 \<Rightarrow> VK_FORMAT_R8G8B8_SINT | Int16 \<Rightarrow> VK_FORMAT_R16G16B16_SINT
         | Int32 \<Rightarrow> VK_FORMAT_R32G32B32_SINT | Int64 \<Rightarrow> VK_FORMAT_R64G64B64_SINT
         | Float \<Rightarrow> VK_FORMAT_R32G32B32_SFLOAT
         | OtherComponentDataType _ \<Rightarrow> VK_FORMAT_UNDEFINED)
      else if componentCount = 4 then
        (case dataType of
           Uint8 \<Rightarrow> VK_FORMAT_R8G8B8A8_UNORM | Uint16 \<Rightarrow> VK_FORMAT_R16G16B16A16_UINT
         | Uint32 \<Rightarrow> VK_FORMAT_R32G32B32A32_UINT | Uint64 \<Rightarrow> VK_FORMAT_R64G64B64A64_UINT
         | Int8 \<Rightarrow> VK_FORMAT_R8G8B8A8_SNORM | Int16 \<Rightarrow> VK_FORMAT_R16G16B16A16_SINT
         | Int32 \<Rightarrow> VK_FORMAT_R32G32B32A32_SINT | Int64 \<Rightarrow> VK_FORMAT_R64G64B64A64_SINT
         | Float \<Rightarrow> VK_FORMAT_R32G32B32A32_SFLOAT
         | OtherComponentDataType _ \<Rightarrow> VK_FORMAT_UNDEFINED)
      else VK_FORMAT_UNDEFINED)"

text \<open>
  \<open>VertexSpecification\<close> is declared outside the sources. It is the record of what
  \<open>getPipeline\<close> asks of it; \<open>getElementComponentCount\<close> stands for
  \<open>GetAttributeDataTypeComponentCount(getElementAttributeDataType(element))\<close>.
\<close>

record VertexSpecification =
  generateHash :: "64 word"
  isAvailable :: "InputElement \<Rightarrow> bool"
  offsetOf :: "InputElement \<Rightarrow> 32 word"
  getElementComponentCount :: "InputElement \<Rightarrow> 8 word"
  getElementComponentDataType :: "InputElement \<Rightarrow> ComponentDataType"
  getSize :: "32 word"

text \<open>\<open>PipelineStorage\<close>: one compiled variant. Handles are numbers, 0 the null handle.\<close>

record PipelineStorage =
  m_InputBindingDescriptions :: "VkVertexInputBindingDescription list"
  m_InputAttributeDescriptions :: "VkVertexInputAttributeDescription list"
  m_PipelineCache :: nat
  m_Pipeline :: nat

definition VK_NULL_HANDLE :: nat where
  "VK_NULL_HANDLE = 0"

definition emptyPipelineStorage :: PipelineStorage where
  "emptyPipelineStorage =
     \<lparr>m_InputBindingDescriptions = [], m_InputAttributeDescriptions = [],
      m_PipelineCache = VK_NULL_HANDLE, m_Pipeline = VK_NULL_HANDLE\<rparr>"

text \<open>What the pipeline object does to the outside: log lines, cache-handler calls, device calls.\<close>

datatype pipeline_event =
    LogInformation string
  | LogError string
  | CacheLoad "64 word"
  | CacheStore "64 word" "byte list"
  | CreatePipelineCache "byte list"
  | GetPipelineCacheData nat
  | DestroyPipeline nat
  | CreateGraphicsPipelines nat "VkVertexInputBindingDescription list"
      "VkVertexInputAttributeDescription list"

text \<open>
  What the pipeline object does not decide. The device: the result code of its n-th
  device-table call, and the blob \<open>vkGetPipelineCacheData\<close> yields for a cache handle. The
  library: the sort of line 929 is not stable, so the order it leaves among attributes of
  equal offset is its own choice; \<open>sort_ties\<close> gives, for the list being sorted, the rank
  of each position of the list in that choice (any ranks are possible).
\<close>

record VulkanDevice =
  vkResult :: "nat \<Rightarrow> VkResult"
  vkPipelineCacheData :: "nat \<Rightarrow> byte list"
  sort_ties :: "VkVertexInputAttributeDescription list \<Rightarrow> nat \<Rightarrow> nat"

text \<open>
  The pipeline object. The cache handler is the content it serves: \<open>load\<close> reads it at
  a key, \<open>store\<close> replaces it at a key. \<open>m_Pipelines\<close> is the variant map.
\<close>

record VulkanRasterizingPipeline =
  m_pCacheHandler :: "(64 word \<Rightarrow> byte list) option"
  m_VertexInputBindings :: "VkVertexInputBindingDescription list"
  m_VertexInputAttributes :: "VkVertexInputAttributeDescription list"
  m_Pipelines :: "64 word \<Rightarrow> PipelineStorage option"
  device_calls :: nat
  events :: "pipeline_event list"

definition log_event :: "pipeline_event \<Rightarrow> VulkanRasterizingPipeline \<Rightarrow> VulkanRasterizingPipeline" where
  "log_event ev s = s\<lparr>events := events s @ [ev]\<rparr>"

definition device_call ::
  "VulkanDevice \<Rightarrow> pipeline_event \<Rightarrow> VulkanRasterizingPipeline \<Rightarrow> VkResult \<times> VulkanRasterizingPipeline" where
  "device_call dev ev s =
     (vkResult dev (device_calls s),
      s\<lparr>device_calls := Suc (device_calls s), events := events s @ [ev]\<rparr>)"

text \<open>
  The functions below receive \<open>PipelineStorage& pipeline\<close>, always the entry of
  \<open>m_Pipelines\<close> at the hash passed with it; the model reads and writes that entry.
\<close>

definition the_pipeline :: "VulkanRasterizingPipeline \<Rightarrow> 64 word \<Rightarrow> PipelineStorage" where
  "the_pipeline s hash = (case m_Pipelines s hash of None \<Rightarrow> emptyPipelineStorage | Some p \<Rightarrow> p)"

definition set_pipeline ::
  "64 word \<Rightarrow> PipelineStorage \<Rightarrow> VulkanRasterizingPipeline \<Rightarrow> VulkanRasterizingPipeline" where
  "set_pipeline hash p s = s\<lparr>m_Pipelines := (m_Pipelines s)(hash \<mapsto> p)\<rparr>"

text \<open>
  \<open>vkCreatePipelineCache\<close> with the given initial data; on success the new handle
  (the number of the call, plus one) is written to the entry's \<open>m_PipelineCache\<close>.
\<close>

definition vkCreatePipelineCache ::
  "VulkanDevice \<Rightarrow> byte list \<Rightarrow> 64 word \<Rightarrow> VulkanRasterizingPipeline \<Rightarrow>
   VkResult \<times> VulkanRasterizingPipeline" where
  "vkCreatePipelineCache dev initialData hash s =
     (case device_call dev (CreatePipelineCache initialData) s of
        (result, s1) \<Rightarrow>
          (result,
           if result = VK_SUCCESS
           then set_pipeline hash ((the_pipeline s1 hash)\<lparr>m_PipelineCache := Suc (device_calls s)\<rparr>) s1
           else s1))"

text \<open>\<open>loadPipelineCache\<close>, lines 977-1011.\<close>

definition loadPipelineCache ::
  "VulkanDevice \<Rightarrow> 64 word \<Rightarrow> VulkanRasterizingPipeline \<Rightarrow>
   (error + unit) \<times> VulkanRasterizingPipeline" where
  "loadPipelineCache dev hash s =
     (case (case m_pCacheHandler s of
              Some handler \<Rightarrow>
                (handler (hash XOR g_MagicNumber), log_event (CacheLoad (hash XOR g_MagicNumber)) s)
            | None \<Rightarrow>
                ([], log_event (LogInformation
                       ''A pipeline cache handler was not set to load the pipeline cache.'') s)) of
        (cacheData, s1) \<Rightarrow>
          (case vkCreatePipelineCache dev cacheData hash s1 of
             (result, s2) \<Rightarrow>
               if result = VK_ERROR_UNKNOWN
               then (case vkCreatePipelineCache dev [] hash
                            (log_event (LogError
                               ''Unknown Vulkan error caught while creating the pipeline cache object! Trying without the cache data.'')
                               s2) of
                       (result2, s3) \<Rightarrow>
                         (XENON_VK_ASSERT result2 ''Failed to load the pipeline cache!'', s3))
               else (XENON_VK_ASSERT result ''Failed to load the pipeline cache!'', s2)))"

text \<open>\<open>savePipelineCache\<close>, lines 1013-1031.\<close>

definition savePipelineCache ::
  "VulkanDevice \<Rightarrow> 64 word \<Rightarrow> VulkanRasterizingPipeline \<Rightarrow>
   (error + unit) \<times> VulkanRasterizingPipeline" where
  "savePipelineCache dev hash s =
     (case m_pCacheHandler s of
        Some handler \<Rightarrow>
          (let cache = m_PipelineCache (the_pipeline s hash)
           in case device_call dev (GetPipelineCacheData cache) s of
                (r1, s1) \<Rightarrow>
                  (case XENON_VK_ASSERT r1 ''Failed to get the pipeline cache size!'' of
                     Inl e \<Rightarrow> (Inl e, s1)
                   | Inr _ \<Rightarrow>
                       (case device_call dev (GetPipelineCacheData cache) s1 of
                          (r2, s2) \<Rightarrow>
                            (case XENON_VK_ASSERT r2 ''Failed to get the pipeline cache data!'' of
                               Inl e \<Rightarrow> (Inl e, s2)
                             | Inr _ \<Rightarrow>
                                 (let cacheData = vkPipelineCacheData dev cache;
                                      key = hash XOR g_MagicNumber
                                  in (Inr (),
                                      (log_event (CacheStore key cacheData) s2)
                                        \<lparr>m_pCacheHandler := Some (handler(key := cacheData))\<rparr>))))))
      | None \<Rightarrow>
          (Inr (), log_event (LogInformation
                     ''A pipeline cache handler was not set to save the pipeline cache.'') s))"

text \<open>
  \<open>createPipeline\<close>, lines 1143-1182: the device receives the entry's cache handle and
  its input bindings and attributes; on success the entry holds the new pipeline handle.
\<close>

definition createPipeline ::
  "VulkanDevice \<Rightarrow> 64 word \<Rightarrow> VulkanRasterizingPipeline \<Rightarrow>
   (error + unit) \<times> VulkanRasterizingPipeline" where
  "createPipeline dev hash s =
     (let pipeline = the_pipeline s hash;
          s1 = (if m_Pipeline pipeline \<noteq> VK_NULL_HANDLE
                then log_event (DestroyPipeline (m_Pipeline pipeline)) s else s)
      in case device_call dev
                (CreateGraphicsPipelines (m_PipelineCache pipeline)
                   (m_InputBindingDescriptions pipeline) (m_InputAttributeDescriptions pipeline)) s1 of
           (result, s2) \<Rightarrow>
             (XENON_VK_ASSERT result ''Failed to create the pipeline!'',
              if result = VK_SUCCESS
              then set_pipeline hash (pipeline\<lparr>m_Pipeline := Suc (device_calls s1)\<rparr>) s2
              else s2))"

text \<open>Lines 909-926, the body of the loop over the attributes of the new variant.\<close>

definition resolve_attribute ::
  "VertexSpecification \<Rightarrow> VkVertexInputAttributeDescription list \<times> bool \<Rightarrow>
   VkVertexInputAttributeDescription \<Rightarrow> VkVertexInputAttributeDescription list \<times> bool" where
  "resolve_attribute vertexSpecification acc attribute =
     (case acc of (resolved, hasVertexData) \<Rightarrow>
        if binding attribute = 1 then (resolved @ [attribute], hasVertexData)
        else (let element = location attribute
              in if isAvailable vertexSpecification element
                 then (resolved @ [attribute\<lparr>offset := offsetOf vertexSpecification element,
                                         format := GetElementFormat
                                           (getElementComponentCount vertexSpecification element)
                                           (getElementComponentDataType vertexSpecification element)\<rparr>],
                       True)
                 else (resolved @ [attribute], hasVertexData)))"

text \<open>
  Line 929: the attributes sorted with the comparison \<open>lhs.offset < rhs.offset\<close>, by a
  sort that is not stable. The positions of the list are first put in the order of the
  ranks the library chooses and then ordered by offset, keeping that order among equal
  offsets: the result is ordered by offset, and among equal offsets in any order.
\<close>

definition sort_by_offset ::
  "(VkVertexInputAttributeDescription list \<Rightarrow> nat \<Rightarrow> nat) \<Rightarrow>
   VkVertexInputAttributeDescription list \<Rightarrow> VkVertexInputAttributeDescription list" where
  "sort_by_offset ties attributes =
     map snd (sort_key (\<lambda>(i, attribute). offset attribute)
                (sort_key (\<lambda>(i, attribute). ties attributes i) (enumerate 0 attributes)))"

text \<open>Lines 905-938: the inputs of the new variant.\<close>

definition setup_inputs ::
  "VulkanDevice \<Rightarrow> VertexSpecification \<Rightarrow> VulkanRasterizingPipeline \<Rightarrow> PipelineStorage \<Rightarrow>
   PipelineStorage" where
  "setup_inputs dev vertexSpecification s pipeline =
     (case foldl (resolve_attribute vertexSpecification) ([], False) (m_VertexInputAttributes s) of
        (attributes, hasVertexData) \<Rightarrow>
          pipeline\<lparr>m_InputAttributeDescriptions := sort_by_offset (sort_ties dev) attributes,
                   m_InputBindingDescriptions :=
                     (if hasVertexData
                      then m_VertexInputBindings s @
                             [\<lparr>input_binding = 0, stride = getSize vertexSpecification,
                               inputRate = VK_VERTEX_INPUT_RATE_VERTEX\<rparr>]
                      else m_VertexInputBindings s)\<rparr>)"

text \<open>\<open>getPipeline\<close>, lines 890-948.\<close>

definition getPipeline ::
  "VulkanDevice \<Rightarrow> VertexSpecification \<Rightarrow> VulkanRasterizingPipeline \<Rightarrow>
   (error + PipelineStorage) \<times> VulkanRasterizingPipeline" where
  "getPipeline dev vertexSpecification s =
     (let hash = generateHash vertexSpecification
      in case m_Pipelines s hash of
           Some stored \<Rightarrow> (Inr stored, s)
         | None \<Rightarrow>
             (case loadPipelineCache dev hash (set_pipeline hash emptyPipelineStorage s) of
                (Inl e, s1) \<Rightarrow> (Inl e, s1)
              | (Inr _, s1) \<Rightarrow>
                  (case createPipeline dev hash
                          (set_pipeline hash (setup_inputs dev vertexSpecification s1 (the_pipeline s1 hash)) s1) of
                     (Inl e, s2) \<Rightarrow> (Inl e, s2)
                   | (Inr _, s2) \<Rightarrow>
                       (case savePipelineCache dev hash s2 of
                          (Inl e, s3) \<Rightarrow> (Inl e, s3)
                        | (Inr _, s3) \<Rightarrow> (Inr (the_pipeline s3 hash), s3)))))"

text \<open>A sequence of requests on one pipeline object; it ends at the first fatal error.\<close>

fun getPipelines ::
  "VulkanDevice \<Rightarrow> VertexSpecification list \<Rightarrow> VulkanRasterizingPipeline \<Rightarrow>
   (error + PipelineStorage list) \<times> VulkanRasterizingPipeline" where
  "getPipelines dev [] s = (Inr [], s)"
| "getPipelines dev (v # vs) s =
     (case getPipeline dev v s of
        (Inl e, s1) \<Rightarrow> (Inl e, s1)
      | (Inr p, s1) \<Rightarrow>
          (case getPipelines dev vs s1 of
             (Inl e, s2) \<Rightarrow> (Inl e, s2)
           | (Inr ps, s2) \<Rightarrow> (Inr (p # ps), s2)))"

text \<open>Readings of an event list: the pipelines compiled, the cache objects created.\<close>

definition compilations :: "pipeline_event list \<Rightarrow> nat" where
  "compilations evs =
     length (filter (\<lambda>e. case e of CreateGraphicsPipelines _ _ _ \<Rightarrow> True | _ \<Rightarrow> False) evs)"

definition cache_creations :: "pipeline_event list \<Rightarrow> byte list list" where
  "cache_creations evs =
     concat (map (\<lambda>e. case e of CreatePipelineCache initialData \<Rightarrow> [initialData] | _ \<Rightarrow> []) evs)"

definition new_events :: "VulkanRasterizingPipeline \<Rightarrow> VulkanRasterizingPipeline \<Rightarrow> pipeline_event list" where
  "new_events s s' = drop (length (events s)) (events s')"

text \<open>Sample values used to exercise the pipeline object.\<close>

definition cache_blob :: "nat \<Rightarrow> byte list" where
  "cache_blob cache = [1, 2]"

definition unknown_then_success :: "nat \<Rightarrow> VkResult" where
  "unknown_then_success n = (if n = 0 then VK_ERROR_UNKNOWN else VK_SUCCESS)"

definition first_come :: "VkVertexInputAttributeDescription list \<Rightarrow> nat \<Rightarrow> nat" where
  "first_come attributes i = i"

definition last_come :: "VkVertexInputAttributeDescription list \<Rightarrow> nat \<Rightarrow> nat" where
  "last_come attributes i = length attributes - i"

definition device_ok :: VulkanDevice where
  "device_ok =
     \<lparr>vkResult = always_success, vkPipelineCacheData = cache_blob, sort_ties = first_come\<rparr>"

definition device_retry :: VulkanDevice where
  "device_retry =
     \<lparr>vkResult = unknown_then_success, vkPipelineCacheData = cache_blob, sort_ties = first_come\<rparr>"

definition device_other_ties :: VulkanDevice where
  "device_other_ties =
     \<lparr>vkResult = always_success, vkPipelineCacheData = cache_blob, sort_ties = last_come\<rparr>"

definition position_only :: VertexSpecification where
  "position_only =
     \<lparr>generateHash = 7, isAvailable = (\<lambda>element. element = 0), offsetOf = (\<lambda>element. 0),
      getElementComponentCount = (\<lambda>element. 3),
      getElementComponentDataType = (\<lambda>element. Float), getSize = 12\<rparr>"

definition position_attribute :: VkVertexInputAttributeDescription where
  "position_attribute = \<lparr>location = 0, binding = 0, format = VK_FORMAT_UNDEFINED, offset = 0\<rparr>"

definition plain_pipeline :: VulkanRasterizingPipeline where
  "plain_pipeline =
     \<lparr>m_pCacheHandler = None, m_VertexInputBindings = [],
      m_VertexInputAttributes = [position_attribute],
      m_Pipelines = Map.empty, device_calls = 0, events = []\<rparr>"

definition position_variant :: PipelineStorage where
  "position_variant =
     \<lparr>m_InputBindingDescriptions =
        [\<lparr>input_binding = 0, stride = 12, inputRate = VK_VERTEX_INPUT_RATE_VERTEX\<rparr>],
      m_InputAttributeDescriptions =
        [\<lparr>location = 0, binding = 0, format = VK_FORMAT_R32G32B32_SFLOAT, offset = 0\<rparr>],
      m_PipelineCache = 1, m_Pipeline = 2\<rparr>"

definition compiled_pipeline :: VulkanRasterizingPipeline where
  "compiled_pipeline =
     \<lparr>m_pCacheHandler = None, m_VertexInputBindings = [],
      m_VertexInputAttributes = [position_attribute],
      m_Pipelines = [7 \<mapsto> position_variant], device_calls = 2,
      events =
        [LogInformation ''A pipeline cache handler was not set to load the pipeline cache.'',
         CreatePipelineCache [],
         CreateGraphicsPipelines 1
           [\<lparr>input_binding = 0, stride = 12, inputRate = VK_VERTEX_INPUT_RATE_VERTEX\<rparr>]
           [\<lparr>location = 0, binding = 0, format = VK_FORMAT_R32G32B32_SFLOAT, offset = 0\<rparr>],
         LogInformation ''A pipeline cache handler was not set to save the pipeline cache.'']\<rparr>"

definition stored_blobs :: "64 word \<Rightarrow> byte list" where
  "stored_blobs key = [9, 9]"

definition cached_pipeline :: VulkanRasterizingPipeline where
  "cached_pipeline =
     \<lparr>m_pCacheHandler = Some stored_blobs, m_VertexInputBindings = [],
      m_VertexInputAttributes = [position_attribute],
      m_Pipelines = [7 \<mapsto> emptyPipelineStorage], device_calls = 0, events = []\<rparr>"

text \<open>
  Readings used to state what the loops compute. The declarations of one (set, binding)
  pair, in order; whether the loop of lines 909-926 fills an attribute from the vertex
  layout, and the attribute as the loop leaves it.
\<close>

definition declaring ::
  "DescriptorType \<Rightarrow> 32 word \<Rightarrow> (ShaderType \<times> Shader) list \<Rightarrow> (ShaderType \<times> ShaderResource) list" where
  "declaring dset b stages =
     filter (\<lambda>(type, resource). m_Set resource = dset \<and> m_Binding resource = b) (declarations stages)"

definition populated :: "VertexSpecification \<Rightarrow> VkVertexInputAttributeDescription \<Rightarrow> bool" where
  "populated vertexSpecification attribute =
     (binding attribute \<noteq> 1 \<and> isAvailable vertexSpecification (location attribute))"

definition resolved_attribute ::
  "VertexSpecification \<Rightarrow> VkVertexInputAttributeDescription \<Rightarrow> VkVertexInputAttributeDescription" where
  "resolved_attribute vertexSpecification attribute =
     (if populated vertexSpecification attribute
      then attribute\<lparr>offset := offsetOf vertexSpecification (location attribute),
                      format := GetElementFormat
                        (getElementComponentCount vertexSpecification (location attribute))
                        (getElementComponentDataType vertexSpecification (location attribute))\<rparr>
      else attribute)"

text \<open>Sample shaders and conventions used to exercise the reflection functions.\<close>

definition scene_vertex_shader :: Shader where
  "scene_vertex_shader =
     \<lparr>isValid = True,
      getInputAttributes = [\<lparr>m_Location = 0, m_DataType = 3\<rparr>, \<lparr>m_Location = 28, m_DataType = 3\<rparr>],
      getResources = [\<lparr>m_Binding = 0, m_Set = Scene, m_Type = 3, m_Operations = 1\<rparr>]\<rparr>"

definition scene_fragment_shader :: Shader where
  "scene_fragment_shader =
     \<lparr>isValid = True, getInputAttributes = [],
      getResources = [\<lparr>m_Binding = 0, m_Set = Scene, m_Type = 5, m_Operations = 1\<rparr>,
                      \<lparr>m_Binding = 1, m_Set = Material, m_Type = 2, m_Operations = 1\<rparr>]\<rparr>"

definition sample_conventions :: InputConventions where
  "sample_conventions =
     \<lparr>IsVertexElement = (\<lambda>element. element < 28),
      InstancePosition = 28, InstanceRotation = 29, InstanceScale = 30, InstanceID = 31,
      offsetof_m_Position = 0, offsetof_m_Rotation = 12, offsetof_m_Scale = 24,
      offsetof_m_InstanceID = 36, sizeof_InstanceEntry = 40\<rparr>"

definition instanced_pipeline :: VulkanRasterizingPipeline where
  "instanced_pipeline =
     \<lparr>m_pCacheHandler = None,
      m_VertexInputBindings =
        [\<lparr>input_binding = 1, stride = 40, inputRate = VK_VERTEX_INPUT_RATE_INSTANCE\<rparr>],
      m_VertexInputAttributes =
        [\<lparr>location = 28, binding = 1, format = VK_FORMAT_R32G32B32_SFLOAT, offset = 0\<rparr>,
         \<lparr>location = 1, binding = 0, format = VK_FORMAT_UNDEFINED, offset = 0\<rparr>,
         \<lparr>location = 0, binding = 0, format = VK_FORMAT_UNDEFINED, offset = 0\<rparr>],
      m_Pipelines = Map.empty, device_calls = 0, events = []\<rparr>"

definition position_color :: VertexSpecification where
  "position_color =
     \<lparr>generateHash = 9, isAvailable = (\<lambda>element. element < 2),
      offsetOf = (\<lambda>element. if element = 0 then 0 else 12),
      getElementComponentCount = (\<lambda>element. if element = 0 then 3 else 4),
      getElementComponentDataType = (\<lambda>element. if element = 0 then Float else Uint8),
      getSize = 16\<rparr>"

definition instanced_variant :: PipelineStorage where
  "instanced_variant =
     \<lparr>m_InputBindingDescriptions =
        [\<lparr>input_binding = 1, stride = 40, inputRate = VK_VERTEX_INPUT_RATE_INSTANCE\<rparr>,
         \<lparr>input_binding = 0, stride = 16, inputRate = VK_VERTEX_INPUT_RATE_VERTEX\<rparr>],
      m_InputAttributeDescriptions =
        [\<lparr>location = 28, binding = 1, format = VK_FORMAT_R32G32B32_SFLOAT, offset = 0\<rparr>,
         \<lparr>location = 0, binding = 0, format = VK_FORMAT_R32G32B32_SFLOAT, offset = 0\<rparr>,
         \<lparr>location = 1, binding = 0, format = VK_FORMAT_R8G8B8A8_UNORM, offset = 12\<rparr>],
      m_PipelineCache = 1, m_Pipeline = 2\<rparr>"

definition reordered_variant :: PipelineStorage where
  "reordered_variant =
     \<lparr>m_InputBindingDescriptions =
        [\<lparr>input_binding = 1, stride = 40, inputRate = VK_VERTEX_INPUT_RATE_INSTANCE\<rparr>,
         \<lparr>input_binding = 0, stride = 16, inputRate = VK_VERTEX_INPUT_RATE_VERTEX\<rparr>],
      m_InputAttributeDescriptions =
        [\<lparr>location = 0, binding = 0, format = VK_FORMAT_R32G32B32_SFLOAT, offset = 0\<rparr>,
         \<lparr>location = 28, binding = 1, format = VK_FORMAT_R32G32B32_SFLOAT, offset = 0\<rparr>,
         \<lparr>location = 1, binding = 0, format = VK_FORMAT_R8G8B8A8_UNORM, offset = 12\<rparr>],
      m_PipelineCache = 1, m_Pipeline = 2\<rparr>"

definition color_variant :: PipelineStorage where
  "color_variant =
     \<lparr>m_InputBindingDescriptions =
        [\<lparr>input_binding = 0, stride = 16, inputRate = VK_VERTEX_INPUT_RATE_VERTEX\<rparr>],
      m_InputAttributeDescriptions =
        [\<lparr>location = 0, binding = 0, format = VK_FORMAT_R32G32B32_SFLOAT, offset = 0\<rparr>],
      m_PipelineCache = 3, m_Pipeline = 4\<rparr>"

section \<open>DX12Buffer\<close>

datatype D3D12_HEAP_TYPE =
    D3D12_HEAP_TYPE_DEFAULT
  | D3D12_HEAP_TYPE_UPLOAD
  | D3D12_HEAP_TYPE_READBACK
  | D3D12_HEAP_TYPE_CUSTOM

type_synonym D3D12_RESOURCE_STATES = "32 word"

definition D3D12_RESOURCE_STATE_COMMON :: D3D12_RESOURCE_STATES where
  "D3D12_RESOURCE_STATE_COMMON = 0"

definition D3D12_RESOURCE_STATE_COPY_DEST :: D3D12_RESOURCE_STATES where
  "D3D12_RESOURCE_STATE_COPY_DEST = 0x400"

definition D3D12_RESOURCE_STATE_COPY_SOURCE :: D3D12_RESOURCE_STATES where
  "D3D12_RESOURCE_STATE_COPY_SOURCE = 0x800"

definition D3D12_RESOURCE_STATE_GENERIC_READ :: D3D12_RESOURCE_STATES where
  "D3D12_RESOURCE_STATE_GENERIC_READ = 0xAC3"

text \<open>
  The commands a command list holds. Resources are numbers; a copy names the
  destination and its offset, the source and its offset, and the byte count, as
  \<open>CopyBufferRegion\<close> does.
\<close>

datatype gpu_command =
    ResourceBarrier nat D3D12_RESOURCE_STATES D3D12_RESOURCE_STATES
  | CopyBufferRegion nat nat nat nat nat

text \<open>
  The device: the content of every resource, the command lists handed to the direct
  queue whose execution has not completed yet (oldest first), the next free resource
  number, the number of platform calls made so far, and the error log.
\<close>

record DX12Device =
  memory :: "nat \<Rightarrow> byte list"
  in_flight :: "gpu_command list list"
  next_resource :: nat
  platform_calls :: nat
  error_log :: "string list"

text \<open>
  The platform outside the program: whether its n-th call succeeds (an \<open>HRESULT\<close> that
  is not a failure, or a non-null event handle), and how many of the command lists in
  flight the GPU has completed by the time the n-th call, an \<open>ExecuteCommandLists\<close>,
  returns. The GPU runs asynchronously, so any number is possible.
\<close>

record Platform =
  succeeds :: "nat \<Rightarrow> bool"
  completes :: "nat \<Rightarrow> nat"

text \<open>
  The effect of one command on the resources. A barrier moves no data. A copy whose
  source or destination range lies outside its resource is not carried out.
\<close>

definition exec_command :: "(nat \<Rightarrow> byte list) \<Rightarrow> gpu_command \<Rightarrow> (nat \<Rightarrow> byte list)" where
  "exec_command mem cmd =
     (case cmd of
        ResourceBarrier resource before after \<Rightarrow> mem
      | CopyBufferRegion dst dstOffset src srcOffset n \<Rightarrow>
          if srcOffset + n \<le> length (mem src) \<and> dstOffset + n \<le> length (mem dst)
          then mem(dst := take dstOffset (mem dst) @ take n (drop srcOffset (mem src)) @
                          drop (dstOffset + n) (mem dst))
          else mem)"

definition exec_lists :: "gpu_command list list \<Rightarrow> (nat \<Rightarrow> byte list) \<Rightarrow> (nat \<Rightarrow> byte list)" where
  "exec_lists commandLists mem = foldl exec_command mem (concat commandLists)"

text \<open>The GPU completes the oldest \<open>k\<close> command lists in flight; a fence wait completes all.\<close>

definition gpu_run :: "nat \<Rightarrow> DX12Device \<Rightarrow> DX12Device" where
  "gpu_run k dev =
     dev\<lparr>memory := exec_lists (take k (in_flight dev)) (memory dev),
         in_flight := drop k (in_flight dev)\<rparr>"

definition WaitForSingleObjectEx :: "DX12Device \<Rightarrow> DX12Device" where
  "WaitForSingleObjectEx dev = gpu_run (length (in_flight dev)) dev"

definition platform_call :: "Platform \<Rightarrow> DX12Device \<Rightarrow> bool \<times> DX12Device" where
  "platform_call env dev =
     (succeeds env (platform_calls dev), dev\<lparr>platform_calls := Suc (platform_calls dev)\<rparr>)"

definition ExecuteCommandLists :: "Platform \<Rightarrow> gpu_command list \<Rightarrow> DX12Device \<Rightarrow> DX12Device" where
  "ExecuteCommandLists env cmds dev =
     gpu_run (completes env (platform_calls dev))
       (dev\<lparr>in_flight := in_flight dev @ [cmds], platform_calls := Suc (platform_calls dev)\<rparr>)"

text \<open>
  Modelled from the spec: the macro \<open>XENON_DX12_ASSERT\<close> is declared in DX12Macros.hpp,
  which is not part of the sources. As for the Vulkan backend, a failed backend call is
  fatal: it is logged and the operation does not continue.
\<close>

definition XENON_DX12_ASSERT :: "bool \<Rightarrow> string \<Rightarrow> error + unit" where
  "XENON_DX12_ASSERT ok msg = (if ok then Inr () else Inl (Fatal msg))"

text \<open>A platform call under \<open>XENON_DX12_ASSERT\<close>, followed by the rest of the function.\<close>

definition asserted ::
  "Platform \<Rightarrow> string \<Rightarrow> (DX12Device \<Rightarrow> (error + 'a) \<times> DX12Device) \<Rightarrow> DX12Device \<Rightarrow>
   (error + 'a) \<times> DX12Device" where
  "asserted env msg continue dev =
     (case platform_call env dev of
        (ok, dev1) \<Rightarrow>
          (case XENON_DX12_ASSERT ok msg of
             Inl e \<Rightarrow> (Inl e, dev1)
           | Inr _ \<Rightarrow> continue dev1))"

text \<open>
  The buffer object. \<open>buffer_core\<close> holds the members the copy functions read; a
  \<open>DX12Buffer\<close> adds the two temporary buffers it owns, which are buffers that own no
  temporaries themselves. The command allocator and list of a buffer are reset at the
  start of every \<open>copy\<close> and hold nothing between calls, so they are local to \<open>copy\<close>.
\<close>

record buffer_core =
  m_pAllocation :: nat
  m_Size :: nat
  m_HeapType :: D3D12_HEAP_TYPE
  m_CurrentState :: D3D12_RESOURCE_STATES

record DX12Buffer = buffer_core +
  m_pTemporaryReadBuffer :: "buffer_core option"
  m_pTemporaryWriteBuffer :: "buffer_core option"

text \<open>Lines 238-249 and 256-267: the transitions around the copy of one buffer.\<close>

definition needs_transition :: "'a buffer_core_scheme \<Rightarrow> bool" where
  "needs_transition b =
     (m_CurrentState b \<noteq> D3D12_RESOURCE_STATE_GENERIC_READ \<and> m_HeapType b \<noteq> D3D12_HEAP_TYPE_READBACK)"

text \<open>\<open>performCopy\<close>, lines 230-268: the commands it records on the given command list.\<close>

definition performCopy ::
  "gpu_command list \<Rightarrow> 'a buffer_core_scheme \<Rightarrow> 'b buffer_core_scheme \<Rightarrow> nat \<Rightarrow> nat \<Rightarrow> nat \<Rightarrow>
   gpu_command list" where
  "performCopy pCommandlist this pSourceBuffer n srcOffset dstOffset =
     pCommandlist @
     (if needs_transition this
      then [ResourceBarrier (m_pAllocation this) (m_CurrentState this) D3D12_RESOURCE_STATE_COPY_DEST]
      else []) @
     (if needs_transition pSourceBuffer
      then [ResourceBarrier (m_pAllocation pSourceBuffer) (m_CurrentState pSourceBuffer)
              D3D12_RESOURCE_STATE_COPY_SOURCE]
      else []) @
     [CopyBufferRegion (m_pAllocation this) dstOffset (m_pAllocation pSourceBuffer) srcOffset n] @
     (if needs_transition this
      then [ResourceBarrier (m_pAllocation this) D3D12_RESOURCE_STATE_COPY_DEST (m_CurrentState this)]
      else []) @
     (if needs_transition pSourceBuffer
      then [ResourceBarrier (m_pAllocation pSourceBuffer) D3D12_RESOURCE_STATE_COPY_SOURCE
              (m_CurrentState pSourceBuffer)]
      else [])"

definition log_error :: "string \<Rightarrow> DX12Device \<Rightarrow> DX12Device" where
  "log_error msg dev = dev\<lparr>error_log := error_log dev @ [msg]\<rparr>"

text \<open>
  \<open>copy\<close>, lines 109-146. The platform calls, in order: allocator reset, list reset,
  list close, \<open>ExecuteCommandLists\<close>, fence creation, fence signal, event creation,
  \<open>SetEventOnCompletion\<close>; then the wait on the event, which returns when the GPU has
  completed the work in flight.
\<close>

definition copy ::
  "Platform \<Rightarrow> 'a buffer_core_scheme \<Rightarrow> 'b buffer_core_scheme \<Rightarrow> nat \<Rightarrow> nat \<Rightarrow> nat \<Rightarrow>
   DX12Device \<Rightarrow> (error + unit) \<times> DX12Device" where
  "copy env this pBuffer n srcOffset dstOffset =
     asserted env ''Failed to reset the current command allocator!''
    (asserted env ''Failed to reset the current command list!''
    (asserted env ''Failed to stop the current command list!''
    (\<lambda>dev.
       asserted env ''Failed to create the fence!''
      (asserted env ''Failed to signal the fence!''
      (\<lambda>dev.
         case platform_call env dev of
           (fenceEvent, dev1) \<Rightarrow>
             if \<not> fenceEvent
             then (Inr (), log_error ''Failed to wait till the command list execution!'' dev1)
             else asserted env ''Failed to set the fence event on completion event!''
                    (\<lambda>dev. (Inr (), WaitForSingleObjectEx dev)) dev1))
      (ExecuteCommandLists env (performCopy [] this pBuffer n srcOffset dstOffset) dev))))"

text \<open>
  The internal constructor, lines 78-102, with \<open>setupCommandStructures\<close>, lines 270-282:
  four asserted calls. The new resource has the requested size; the source does not fix
  its content, the model fills it with zero bytes.
\<close>

definition new_buffer ::
  "Platform \<Rightarrow> nat \<Rightarrow> D3D12_HEAP_TYPE \<Rightarrow> D3D12_RESOURCE_STATES \<Rightarrow> DX12Device \<Rightarrow>
   (error + buffer_core) \<times> DX12Device" where
  "new_buffer env n heapType resourceStates =
     asserted env ''Failed to create the buffer!''
    (\<lambda>dev.
       asserted env ''Failed to create the copy command allocator!''
      (asserted env ''Failed to create the copy command list!''
      (asserted env ''Failed to stop the current command list!''
      (\<lambda>dev'.
         (Inr \<lparr>m_pAllocation = next_resource dev, m_Size = n, m_HeapType = heapType,
                m_CurrentState = resourceStates\<rparr>, dev'))))
      (dev\<lparr>memory := (memory dev)(next_resource dev := replicate n 0),
            next_resource := Suc (next_resource dev)\<rparr>))"

text \<open>
  \<open>std::copy_n(pData, size, memory + offset)\<close> on the mapped memory of a resource.
  Reading past the data or writing past the resource has no defined result.
\<close>

definition copy_n :: "byte list \<Rightarrow> nat \<Rightarrow> nat \<Rightarrow> nat \<Rightarrow> DX12Device \<Rightarrow> (error + unit) \<times> DX12Device" where
  "copy_n pData n resource offs dev =
     (if n \<le> length pData \<and> offs + n \<le> length (memory dev resource)
      then (Inr (),
            dev\<lparr>memory := (memory dev)(resource :=
                   take offs (memory dev resource) @ take n pData @
                   drop (offs + n) (memory dev resource))\<rparr>)
      else (Inl OutOfBounds, dev))"

text \<open>
  \<open>write\<close>, lines 148-190 (\<open>write_buffer\<close> here). A command recorder is the command list it is recording;
  with one, the copy from the staging buffer is recorded on it and not submitted here.
  The result is the buffer (it may have gained its staging buffer) and the recorder.
\<close>

definition write_buffer ::
  "Platform \<Rightarrow> byte list \<Rightarrow> nat \<Rightarrow> nat \<Rightarrow> gpu_command list option \<Rightarrow> DX12Buffer \<Rightarrow> DX12Device \<Rightarrow>
   (error + DX12Buffer \<times> gpu_command list option) \<times> DX12Device" where
  "write_buffer env pData n offs pCommandRecorder this dev =
     (if m_HeapType this = D3D12_HEAP_TYPE_UPLOAD \<and>
         m_CurrentState this = D3D12_RESOURCE_STATE_GENERIC_READ
      then (case copy_n pData n (m_pAllocation this) offs dev of
              (Inl e, dev1) \<Rightarrow> (Inl e, dev1)
            | (Inr _, dev1) \<Rightarrow> (Inr (this, pCommandRecorder), dev1))
      else (case (case m_pTemporaryWriteBuffer this of
                    Some temp \<Rightarrow> (Inr temp, dev)
                  | None \<Rightarrow> new_buffer env (m_Size this) D3D12_HEAP_TYPE_UPLOAD
                              D3D12_RESOURCE_STATE_GENERIC_READ dev) of
              (Inl e, dev1) \<Rightarrow> (Inl e, dev1)
            | (Inr temp, dev1) \<Rightarrow>
                (let this1 = this\<lparr>m_pTemporaryWriteBuffer := Some temp\<rparr>
                 in case copy_n pData n (m_pAllocation temp) offs dev1 of
                      (Inl e, dev2) \<Rightarrow> (Inl e, dev2)
                    | (Inr _, dev2) \<Rightarrow>
                        (case pCommandRecorder of
                           Some commandList \<Rightarrow>
                             (Inr (this1, Some (performCopy commandList this1 temp n offs offs)), dev2)
                         | None \<Rightarrow>
                             (case copy env this1 temp n offs offs dev2 of
                                (Inl e, dev3) \<Rightarrow> (Inl e, dev3)
                              | (Inr _, dev3) \<Rightarrow> (Inr (this1, None), dev3))))))"

text \<open>
  \<open>beginRead\<close>, lines 192-221 (it is \<open>map\<close>): the whole buffer is copied to the readback
  buffer, created on first use, and the mapped content of that buffer is returned.
  \<open>endRead\<close> unmaps it and changes nothing else.
\<close>

definition beginRead ::
  "Platform \<Rightarrow> DX12Buffer \<Rightarrow> DX12Device \<Rightarrow> (error + DX12Buffer \<times> byte list) \<times> DX12Device" where
  "beginRead env this dev =
     (case (case m_pTemporaryReadBuffer this of
              Some temp \<Rightarrow> (Inr temp, dev)
            | None \<Rightarrow> new_buffer env (m_Size this) D3D12_HEAP_TYPE_READBACK
                        D3D12_RESOURCE_STATE_COPY_DEST dev) of
        (Inl e, dev1) \<Rightarrow> (Inl e, dev1)
      | (Inr temp, dev1) \<Rightarrow>
          (let this1 = this\<lparr>m_pTemporaryReadBuffer := Some temp\<rparr>
           in case copy env temp this1 (m_Size this) 0 0 dev1 of
                (Inl e, dev2) \<Rightarrow> (Inl e, dev2)
              | (Inr _, dev2) \<Rightarrow> (Inr (this1, memory dev2 (m_pAllocation temp)), dev2)))"

definition endRead :: "DX12Buffer \<Rightarrow> DX12Device \<Rightarrow> DX12Device" where
  "endRead this dev = dev"

text \<open>
  The state in which a buffer is used between operations: its resource and those of its
  temporary buffers exist, are distinct and have the size of the buffer, and no GPU
  work is in flight.
\<close>

definition temp_ready :: "buffer_core option \<Rightarrow> DX12Buffer \<Rightarrow> DX12Device \<Rightarrow> bool" where
  "temp_ready pTemp this dev =
     (case pTemp of
        None \<Rightarrow> True
      | Some temp \<Rightarrow>
          m_pAllocation temp \<noteq> m_pAllocation this \<and>
          m_pAllocation temp < next_resource dev \<and>
          length (memory dev (m_pAllocation temp)) = m_Size this)"

definition buffer_ready :: "DX12Buffer \<Rightarrow> DX12Device \<Rightarrow> bool" where
  "buffer_ready this dev =
     (length (memory dev (m_pAllocation this)) = m_Size this \<and>
      m_pAllocation this < next_resource dev \<and>
      temp_ready (m_pTemporaryReadBuffer this) this dev \<and>
      temp_ready (m_pTemporaryWriteBuffer this) this dev \<and>
      (case (m_pTemporaryReadBuffer this, m_pTemporaryWriteBuffer this) of
         (Some r, Some w) \<Rightarrow> m_pAllocation r \<noteq> m_pAllocation w
       | _ \<Rightarrow> True) \<and>
      in_flight dev = [])"

text \<open>Sample values used to exercise the buffer.\<close>

definition reliable_platform :: Platform where
  "reliable_platform = \<lparr>succeeds = (\<lambda>k. True), completes = (\<lambda>k. 0)\<rparr>"

definition no_event_platform :: Platform where
  "no_event_platform = \<lparr>succeeds = (\<lambda>k. k \<noteq> 6), completes = (\<lambda>k. 0)\<rparr>"

definition sample_memory :: "nat \<Rightarrow> byte list" where
  "sample_memory resource = (if resource = 1 then [5, 6, 7, 8] else [0, 0, 0, 0])"

definition idle_device :: DX12Device where
  "idle_device =
     \<lparr>memory = sample_memory, in_flight = [], next_resource = 2, platform_calls = 0,
      error_log = []\<rparr>"

definition staged_buffer :: DX12Buffer where
  "staged_buffer =
     \<lparr>m_pAllocation = 0, m_Size = 4, m_HeapType = D3D12_HEAP_TYPE_DEFAULT,
      m_CurrentState = D3D12_RESOURCE_STATE_COMMON,
      m_pTemporaryReadBuffer = None, m_pTemporaryWriteBuffer = None\<rparr>"

definition upload_buffer :: DX12Buffer where
  "upload_buffer =
     \<lparr>m_pAllocation = 1, m_Size = 4, m_HeapType = D3D12_HEAP_TYPE_UPLOAD,
      m_CurrentState = D3D12_RESOURCE_STATE_GENERIC_READ,
      m_pTemporaryReadBuffer = None, m_pTemporaryWriteBuffer = None\<rparr>"

section \<open>Properties of the command submitter\<close>

lemma wait_not_waiting: "\<not> m_bIsWaiting s \<Longrightarrow> wait vk timeout s = (Inr (), s)"
  by (simp add: wait_def)

lemma wait_returns_not_waiting:
  "wait vk timeout s = (Inr (), s') \<Longrightarrow> \<not> m_bIsWaiting s'"
  by (auto simp: wait_def submitter_call_def Let_def split: if_splits sum.splits prod.splits)

lemma submit_empty_not_waiting:
  "submit vk [] pSwapchain s = (Inr (), s') \<Longrightarrow> \<not> m_bIsWaiting s'"
  by (auto simp: submit_def submitter_call_def Let_def)

text \<open>
  C4. \<open>wait\<close> is idempotent. When no submission is outstanding (the flag
  \<open>m_bIsWaiting\<close> is clear) a call of \<open>wait\<close> returns with the submitter unchanged, so
  it makes no device call at all and in particular no blocking fence wait. A
  \<open>wait\<close> that has returned leaves the flag clear, and so does a \<open>submit\<close> of an empty
  batch list: a \<open>wait\<close> right after either changes nothing and blocks on nothing.
\<close>

theorem wait_idempotent:
  "(\<not> m_bIsWaiting s \<longrightarrow>
      wait vk timeout s = (Inr (), s) \<and>
      blocking_waits (submitter_trace (snd (wait vk timeout s))) = blocking_waits (submitter_trace s)) \<and>
   (wait vk timeout s = (Inr (), s') \<or> submit vk [] pSwapchain s = (Inr (), s') \<longrightarrow>
      wait vk timeout' s' = (Inr (), s') \<and>
      blocking_waits (submitter_trace (snd (wait vk timeout' s'))) = blocking_waits (submitter_trace s'))"
proof (intro conjI impI)
  assume "\<not> m_bIsWaiting s"
  then show "wait vk timeout s = (Inr (), s)"
    and "blocking_waits (submitter_trace (snd (wait vk timeout s))) = blocking_waits (submitter_trace s)"
    by (simp_all add: wait_not_waiting)
next
  assume "wait vk timeout s = (Inr (), s') \<or> submit vk [] pSwapchain s = (Inr (), s')"
  then have idle: "\<not> m_bIsWaiting s'"
    using wait_returns_not_waiting submit_empty_not_waiting by blast
  then show "wait vk timeout' s' = (Inr (), s')"
    and "blocking_waits (submitter_trace (snd (wait vk timeout' s'))) = blocking_waits (submitter_trace s')"
    by (simp_all add: wait_not_waiting)
qed

theorem wait_idempotent_witness:
  "wait always_success 5 \<lparr>m_bIsWaiting = True, submitter_calls = 0, submitter_trace = []\<rparr> =
     (Inr (), \<lparr>m_bIsWaiting = False, submitter_calls = 2,
              submitter_trace = [WaitForFences 5, ResetFences]\<rparr>) \<and>
   wait always_success 9 \<lparr>m_bIsWaiting = False, submitter_calls = 2,
                          submitter_trace = [WaitForFences 5, ResetFences]\<rparr> =
     (Inr (), \<lparr>m_bIsWaiting = False, submitter_calls = 2,
              submitter_trace = [WaitForFences 5, ResetFences]\<rparr>) \<and>
   blocking_waits (submitter_trace (snd (wait always_success 9
     \<lparr>m_bIsWaiting = False, submitter_calls = 2,
      submitter_trace = [WaitForFences 5, ResetFences]\<rparr>))) = 1"
proof -
  let ?s = "\<lparr>m_bIsWaiting = True, submitter_calls = 0, submitter_trace = []\<rparr>"
  let ?s' = "\<lparr>m_bIsWaiting = False, submitter_calls = 2,
              submitter_trace = [WaitForFences 5, ResetFences]\<rparr>"
  have first: "wait always_success 5 ?s = (Inr (), ?s')"
    by (simp add: wait_def submitter_call_def always_success_def XENON_VK_ASSERT_def)
  have idle: "\<not> m_bIsWaiting ?s'"
    by simp
  from wait_idempotent [of ?s always_success 5 ?s' None 9] first
  have "wait always_success 9 ?s' = (Inr (), ?s')"
    by blast
  moreover from wait_idempotent [of ?s' always_success 9 ?s' None 9] idle
  have "blocking_waits (submitter_trace (snd (wait always_success 9 ?s'))) =
        blocking_waits (submitter_trace ?s')"
    by blast
  moreover have "blocking_waits (submitter_trace ?s') = 1"
    by (simp add: blocking_waits_def)
  ultimately show ?thesis
    using first by simp
qed

subsection \<open>The descriptors of a submission\<close>

lemma foldl_recorder_step:
  "foldl (recorder_step v) b batch =
     b\<lparr>batchCommandBuffers := batchCommandBuffers b @ map m_CommandBuffer batch,
       batchSignalSemaphores := batchSignalSemaphores b @ map m_SignalSemaphore batch,
       waitFlags := waitFlags b @ map m_StageFlags batch,
       submitInfo := (if batch \<noteq> [] \<and> waitSemaphores v \<noteq> []
                      then (submitInfo b)\<lparr>pWaitSemaphores := last (waitSemaphores v),
                                           pWaitDstStageMask := last (waitStageFlags v)\<rparr>
                      else submitInfo b)\<rparr>"
  by (induction batch arbitrary: b) (simp_all add: recorder_step_def Let_def)

lemma batch_step_eq:
  "batch_step v batch =
     v\<lparr>submitInfos := submitInfos v @
          [\<lparr>pWaitSemaphores = (if batch \<noteq> [] \<and> waitSemaphores v \<noteq> [] then last (waitSemaphores v) else []),
            pWaitDstStageMask = (if batch \<noteq> [] \<and> waitSemaphores v \<noteq> [] then last (waitStageFlags v) else []),
            pCommandBuffers = map m_CommandBuffer batch,
            pSignalSemaphores = map m_SignalSemaphore batch\<rparr>],
       commandBuffers := commandBuffers v @ [map m_CommandBuffer batch],
       waitStageFlags := waitStageFlags v @ [map m_StageFlags batch],
       waitSemaphores := waitSemaphores v @ [map m_SignalSemaphore batch],
       signalSemaphores := signalSemaphores v @ [map m_SignalSemaphore batch]\<rparr>"
  by (simp add: batch_step_def foldl_recorder_step Let_def emptySubmitInfo_def)

lemma waitSemaphores_foldl:
  "waitSemaphores (foldl batch_step v0 bs) = waitSemaphores v0 @ map (map m_SignalSemaphore) bs"
  by (induction bs rule: rev_induct) (simp_all add: batch_step_eq)

lemma waitStageFlags_foldl:
  "waitStageFlags (foldl batch_step v0 bs) = waitStageFlags v0 @ map (map m_StageFlags) bs"
  by (induction bs rule: rev_induct) (simp_all add: batch_step_eq)

lemma submitInfos_batch_step:
  "submitInfos (batch_step v b) = submitInfos v @ [last (submitInfos (batch_step v b))]"
  by (simp add: batch_step_eq)

lemma submitInfos_foldl:
  "submitInfos (foldl batch_step v0 bs) =
     submitInfos v0 @
     map (\<lambda>i. last (submitInfos (batch_step (foldl batch_step v0 (take i bs)) (bs ! i)))) [0..<length bs]"
proof (induction bs rule: rev_induct)
  case Nil
  then show ?case by simp
next
  case (snoc b bs)
  let ?f = "\<lambda>cs i. last (submitInfos (batch_step (foldl batch_step v0 (take i cs)) (cs ! i)))"
  have old: "map (?f (bs @ [b])) [0..<length bs] = map (?f bs) [0..<length bs]"
    by (rule map_cong) (simp_all add: nth_append)
  have new: "?f (bs @ [b]) (length bs) = last (submitInfos (batch_step (foldl batch_step v0 bs) b))"
    by simp
  have "submitInfos (foldl batch_step v0 (bs @ [b])) =
      submitInfos (foldl batch_step v0 bs) @ [last (submitInfos (batch_step (foldl batch_step v0 bs) b))]"
    using submitInfos_batch_step [of "foldl batch_step v0 bs" b] by simp
  also have "\<dots> = submitInfos v0 @ (map (?f bs) [0..<length bs] @ [?f (bs @ [b]) (length bs)])"
    unfolding new using snoc.IH by simp
  also have "\<dots> = submitInfos v0 @ map (?f (bs @ [b])) [0..<length (bs @ [b])]"
    unfolding old [symmetric] by simp
  finally show ?case .
qed

lemma submitInfos_nth:
  assumes "i < length bs" and "submitInfos v0 = []"
  shows "submitInfos (foldl batch_step v0 bs) ! i =
     \<lparr>pWaitSemaphores = (if bs ! i \<noteq> [] \<and> waitSemaphores v0 @ map (map m_SignalSemaphore) (take i bs) \<noteq> []
                           then last (waitSemaphores v0 @ map (map m_SignalSemaphore) (take i bs)) else []),
       pWaitDstStageMask = (if bs ! i \<noteq> [] \<and> waitSemaphores v0 @ map (map m_SignalSemaphore) (take i bs) \<noteq> []
                           then last (waitStageFlags v0 @ map (map m_StageFlags) (take i bs)) else []),
       pCommandBuffers = map m_CommandBuffer (bs ! i),
       pSignalSemaphores = map m_SignalSemaphore (bs ! i)\<rparr>"
  using assms
  by (simp add: submitInfos_foldl batch_step_eq [of "foldl batch_step v0 (take i bs)"]
      waitSemaphores_foldl waitStageFlags_foldl)

lemma length_submitInfos_foldl:
  "length (submitInfos (foldl batch_step v0 bs)) = length (submitInfos v0) + length bs"
  by (simp add: submitInfos_foldl)

lemma submitInfos_initial: "submitInfos (initial_vectors pVkSwapchain) = []"
  by (simp add: initial_vectors_def split: option.splits)

lemma length_signal_swapchain: "length (signal_swapchain pVkSwapchain infos) = length infos"
  by (cases infos rule: rev_cases) (simp_all add: signal_swapchain_def split: option.splits)

lemma length_buildSubmitInfos: "length (buildSubmitInfos pVkSwapchain bs) = length bs"
  by (simp add: buildSubmitInfos_def length_signal_swapchain length_submitInfos_foldl
      submitInfos_initial)

lemma signal_swapchain_nth:
  "Suc i < length infos \<Longrightarrow> signal_swapchain pVkSwapchain infos ! i = infos ! i"
  by (simp add: signal_swapchain_def nth_append nth_butlast split: option.splits)

lemma signal_swapchain_waits:
  "i < length infos \<Longrightarrow>
   pWaitSemaphores (signal_swapchain pVkSwapchain infos ! i) = pWaitSemaphores (infos ! i)"
proof (cases "Suc i < length infos")
  case True
  then show ?thesis by (simp add: signal_swapchain_nth)
next
  case False
  assume "i < length infos"
  with False have "i = length infos - 1" and "infos \<noteq> []" by auto
  then show ?thesis
    by (simp add: signal_swapchain_def nth_append last_conv_nth split: option.splits)
qed

lemma signal_swapchain_last:
  "infos \<noteq> [] \<Longrightarrow> isRenderable sc \<Longrightarrow>
   pSignalSemaphores (last (signal_swapchain (Some sc) infos)) = [getRenderFinishedSemaphore sc]"
  by (simp add: signal_swapchain_def)

lemma buildSubmitInfos_waits:
  assumes "i < length bs"
  shows "pWaitSemaphores (buildSubmitInfos pVkSwapchain bs ! i) =
     (if bs ! i \<noteq> [] \<and> waitSemaphores (initial_vectors pVkSwapchain) @ map (map m_SignalSemaphore) (take i bs) \<noteq> []
      then last (waitSemaphores (initial_vectors pVkSwapchain) @ map (map m_SignalSemaphore) (take i bs))
      else [])"
proof -
  let ?raw = "submitInfos (foldl batch_step (initial_vectors pVkSwapchain) bs)"
  have len: "i < length ?raw"
    using assms by (simp add: length_submitInfos_foldl)
  have "pWaitSemaphores (buildSubmitInfos pVkSwapchain bs ! i) = pWaitSemaphores (?raw ! i)"
    unfolding buildSubmitInfos_def by (rule signal_swapchain_waits [OF len])
  also have "\<dots> = (if bs ! i \<noteq> [] \<and> waitSemaphores (initial_vectors pVkSwapchain) @ map (map m_SignalSemaphore) (take i bs) \<noteq> []
      then last (waitSemaphores (initial_vectors pVkSwapchain) @ map (map m_SignalSemaphore) (take i bs))
      else [])"
    by (simp add: submitInfos_nth [OF assms submitInfos_initial])
  finally show ?thesis .
qed

lemma buildSubmitInfos_signals:
  assumes "Suc i < length bs"
  shows "pSignalSemaphores (buildSubmitInfos pVkSwapchain bs ! i) = map m_SignalSemaphore (bs ! i)"
proof -
  let ?raw = "submitInfos (foldl batch_step (initial_vectors pVkSwapchain) bs)"
  have "Suc i < length ?raw"
    using assms by (simp add: length_submitInfos_foldl)
  then have "buildSubmitInfos pVkSwapchain bs ! i = ?raw ! i"
    unfolding buildSubmitInfos_def by (rule signal_swapchain_nth)
  moreover have "i < length bs"
    using assms by simp
  ultimately show ?thesis
    by (simp add: submitInfos_nth [OF _ submitInfos_initial])
qed

lemma submit_trace:
  "submitter_trace (snd (submit vk bs pSwapchain s)) =
     submitter_trace s @ [QueueSubmit (buildSubmitInfos pSwapchain bs)]"
  by (simp add: submit_def submitter_call_def as_VulkanSwapchain_def Let_def)

text \<open>
  C3. \<open>submit\<close> hands the queue one descriptor per batch. For every
  i, when batch i+1 holds at least one command recorder, its descriptor waits on exactly the
  signal semaphores of batch i, which are the signal semaphores of descriptor i. With a
  renderable swapchain the first descriptor, when its batch holds a recorder, waits on
  exactly the swapchain's in-flight (image available) semaphore, and the last
  descriptor signals exactly the render-finished semaphore.
\<close>

theorem submit_semaphore_chain:
  "submitter_trace (snd (submit vk bs (Some sc) s)) =
     submitter_trace s @ [QueueSubmit (buildSubmitInfos (Some sc) bs)] \<and>
   length (buildSubmitInfos pVkSwapchain bs) = length bs \<and>
   (Suc i < length bs \<and> bs ! Suc i \<noteq> [] \<longrightarrow>
      pWaitSemaphores (buildSubmitInfos pVkSwapchain bs ! Suc i) = map m_SignalSemaphore (bs ! i) \<and>
      pSignalSemaphores (buildSubmitInfos pVkSwapchain bs ! i) = map m_SignalSemaphore (bs ! i)) \<and>
   (isRenderable sc \<and> bs \<noteq> [] \<longrightarrow>
      (bs ! 0 \<noteq> [] \<longrightarrow>
         pWaitSemaphores (buildSubmitInfos (Some sc) bs ! 0) = [getInFlightSemaphore sc]) \<and>
      pSignalSemaphores (last (buildSubmitInfos (Some sc) bs)) = [getRenderFinishedSemaphore sc])"
proof (intro conjI impI)
  show "submitter_trace (snd (submit vk bs (Some sc) s)) =
     submitter_trace s @ [QueueSubmit (buildSubmitInfos (Some sc) bs)]"
    by (rule submit_trace)
  show "length (buildSubmitInfos pVkSwapchain bs) = length bs"
    by (rule length_buildSubmitInfos)
next
  assume a: "Suc i < length bs \<and> bs ! Suc i \<noteq> []"
  then have "take (Suc i) bs = take i bs @ [bs ! i]"
    by (simp add: take_Suc_conv_app_nth)
  with a show "pWaitSemaphores (buildSubmitInfos pVkSwapchain bs ! Suc i) = map m_SignalSemaphore (bs ! i)"
    by (simp add: buildSubmitInfos_waits)
  from a show "pSignalSemaphores (buildSubmitInfos pVkSwapchain bs ! i) = map m_SignalSemaphore (bs ! i)"
    by (simp add: buildSubmitInfos_signals)
next
  assume r: "isRenderable sc \<and> bs \<noteq> []"
  then have pos: "0 < length bs" by simp
  {
    assume "bs ! 0 \<noteq> []"
    with r show "pWaitSemaphores (buildSubmitInfos (Some sc) bs ! 0) = [getInFlightSemaphore sc]"
      by (simp add: buildSubmitInfos_waits [OF pos] initial_vectors_def)
  }
  from r have "submitInfos (foldl batch_step (initial_vectors (Some sc)) bs) \<noteq> []"
    using length_submitInfos_foldl [of "initial_vectors (Some sc)" bs] by auto
  with r show "pSignalSemaphores (last (buildSubmitInfos (Some sc) bs)) = [getRenderFinishedSemaphore sc]"
    unfolding buildSubmitInfos_def by (simp add: signal_swapchain_last)
qed

theorem submit_semaphore_chain_witness:
  "Suc 0 < length [ [recorder_a], [recorder_b, recorder_a]] \<and>
   [ [recorder_a], [recorder_b, recorder_a]] ! Suc 0 \<noteq> [] \<and>
   isRenderable swapchain_a \<and>
   buildSubmitInfos (Some swapchain_a) [ [recorder_a], [recorder_b, recorder_a]] =
     [\<lparr>pWaitSemaphores = [30], pWaitDstStageMask = [0x400], pCommandBuffers = [1],
       pSignalSemaphores = [11]\<rparr>,
      \<lparr>pWaitSemaphores = [11], pWaitDstStageMask = [1], pCommandBuffers = [2, 1],
       pSignalSemaphores = [31]\<rparr>] \<and>
   pWaitSemaphores (buildSubmitInfos (Some swapchain_a) [ [recorder_a], [recorder_b, recorder_a]] ! Suc 0) =
     map m_SignalSemaphore ([ [recorder_a], [recorder_b, recorder_a]] ! 0) \<and>
   pWaitSemaphores (buildSubmitInfos (Some swapchain_a) [ [recorder_a], [recorder_b, recorder_a]] ! 0) =
     [getInFlightSemaphore swapchain_a] \<and>
   pSignalSemaphores (last (buildSubmitInfos (Some swapchain_a) [ [recorder_a], [recorder_b, recorder_a]])) =
     [getRenderFinishedSemaphore swapchain_a]"
proof -
  let ?bs = "[ [recorder_a], [recorder_b, recorder_a]]"
  have h1: "Suc 0 < length ?bs \<and> ?bs ! Suc 0 \<noteq> []" by simp
  have h2: "isRenderable swapchain_a \<and> ?bs \<noteq> []" by (simp add: swapchain_a_def)
  have h3: "?bs ! 0 \<noteq> []" by simp
  have v: "buildSubmitInfos (Some swapchain_a) ?bs =
     [\<lparr>pWaitSemaphores = [30], pWaitDstStageMask = [0x400], pCommandBuffers = [1],
       pSignalSemaphores = [11]\<rparr>,
      \<lparr>pWaitSemaphores = [11], pWaitDstStageMask = [1], pCommandBuffers = [2, 1],
       pSignalSemaphores = [31]\<rparr>]"
    by (simp add: buildSubmitInfos_def signal_swapchain_def initial_vectors_def batch_step_def
        recorder_step_def emptySubmitInfo_def recorder_a_def recorder_b_def swapchain_a_def
        VK_PIPELINE_STAGE_COLOR_ATTACHMENT_OUTPUT_BIT_def Let_def)
  from submit_semaphore_chain [of always_success ?bs swapchain_a idle_submitter "Some swapchain_a" 0] h1 h2 h3
  have "pWaitSemaphores (buildSubmitInfos (Some swapchain_a) ?bs ! Suc 0) = map m_SignalSemaphore (?bs ! 0)"
    and "pWaitSemaphores (buildSubmitInfos (Some swapchain_a) ?bs ! 0) = [getInFlightSemaphore swapchain_a]"
    and "pSignalSemaphores (last (buildSubmitInfos (Some swapchain_a) ?bs)) = [getRenderFinishedSemaphore swapchain_a]"
    by blast+
  with h1 h2 v show ?thesis by simp
qed

text \<open>
  The condition on batch i+1 cannot be dropped: the wait fields are assigned inside the
  loop over the recorders, so the descriptor of a batch without recorders waits on
  nothing, whatever the batch before it signals.
\<close>

theorem submit_semaphore_chain_counterexample:
  "buildSubmitInfos (Some swapchain_a) [ [recorder_a], []] =
     [\<lparr>pWaitSemaphores = [30], pWaitDstStageMask = [0x400], pCommandBuffers = [1],
       pSignalSemaphores = [11]\<rparr>,
      \<lparr>pWaitSemaphores = [], pWaitDstStageMask = [], pCommandBuffers = [],
       pSignalSemaphores = [31]\<rparr>] \<and>
   pWaitSemaphores (buildSubmitInfos (Some swapchain_a) [ [recorder_a], []] ! 1) \<noteq>
     map m_SignalSemaphore ([ [recorder_a], []] ! 0)"
  by (simp add: buildSubmitInfos_def signal_swapchain_def initial_vectors_def batch_step_def
      recorder_step_def emptySubmitInfo_def recorder_a_def swapchain_a_def
      VK_PIPELINE_STAGE_COLOR_ATTACHMENT_OUTPUT_BIT_def Let_def)

lemma buildSubmitInfos_not_renderable:
  "\<not> isRenderable sc \<Longrightarrow> buildSubmitInfos (Some sc) bs = buildSubmitInfos None bs"
  by (simp add: buildSubmitInfos_def signal_swapchain_def initial_vectors_def)

lemma submit_eq:
  "submit vk bs pSwapchain s =
     (XENON_VK_ASSERT (vk (submitter_calls s)) ''Failed to submit the queue!'',
      s\<lparr>m_bIsWaiting := (bs \<noteq> []), submitter_calls := Suc (submitter_calls s),
        submitter_trace := submitter_trace s @ [QueueSubmit (buildSubmitInfos pSwapchain bs)]\<rparr>)"
  by (simp add: submit_def submitter_call_def as_VulkanSwapchain_def Let_def)

lemma buildSubmitInfos_None_nth:
  assumes "i < length bs"
  shows "buildSubmitInfos None bs ! i =
     \<lparr>pWaitSemaphores =
        (if bs ! i = [] \<or> i = 0 then [] else map m_SignalSemaphore (bs ! (i - 1))),
      pWaitDstStageMask =
        (if bs ! i = [] \<or> i = 0 then [] else map m_StageFlags (bs ! (i - 1))),
      pCommandBuffers = map m_CommandBuffer (bs ! i),
      pSignalSemaphores = map m_SignalSemaphore (bs ! i)\<rparr>"
proof -
  have ws: "waitSemaphores (initial_vectors None) = []" "waitStageFlags (initial_vectors None) = []"
    by (simp_all add: initial_vectors_def)
  have raw: "buildSubmitInfos None bs = submitInfos (foldl batch_step (initial_vectors None) bs)"
    by (simp add: buildSubmitInfos_def signal_swapchain_def)
  note nth = submitInfos_nth [OF assms submitInfos_initial, of None]
  show ?thesis
  proof (cases i)
    case 0
    then show ?thesis
      unfolding raw nth ws by simp
  next
    case (Suc j)
    with assms have "take i bs = take j bs @ [bs ! j]"
      by (simp add: take_Suc_conv_app_nth)
    with Suc show ?thesis
      unfolding raw nth ws by simp
  qed
qed

text \<open>
  C10. With no swapchain supplied (a null pointer), \<open>submit\<close> runs to its single
  \<open>vkQueueSubmit\<close> and is fatal only if that call fails. It hands the queue one descriptor
  per batch, and every descriptor is made of the recorders of the batches alone: its
  command buffers and signal semaphores are those of its own recorders, and its wait
  semaphores and stage masks are empty for the first batch and for a batch without
  recorders and otherwise those of the recorders of the batch before. No semaphore of a
  swapchain occurs. The call does exactly what a call with a swapchain that is not
  renderable does.
\<close>

theorem submit_without_swapchain:
  "submit vk bs None s =
     (XENON_VK_ASSERT (vk (submitter_calls s)) ''Failed to submit the queue!'',
      s\<lparr>m_bIsWaiting := (bs \<noteq> []), submitter_calls := Suc (submitter_calls s),
        submitter_trace := submitter_trace s @ [QueueSubmit (buildSubmitInfos None bs)]\<rparr>) \<and>
   length (buildSubmitInfos None bs) = length bs \<and>
   (i < length bs \<longrightarrow>
      buildSubmitInfos None bs ! i =
        \<lparr>pWaitSemaphores =
           (if bs ! i = [] \<or> i = 0 then [] else map m_SignalSemaphore (bs ! (i - 1))),
         pWaitDstStageMask =
           (if bs ! i = [] \<or> i = 0 then [] else map m_StageFlags (bs ! (i - 1))),
         pCommandBuffers = map m_CommandBuffer (bs ! i),
         pSignalSemaphores = map m_SignalSemaphore (bs ! i)\<rparr>) \<and>
   (\<not> isRenderable sc \<longrightarrow> submit vk bs (Some sc) s = submit vk bs None s)"
proof (intro conjI impI)
  show "submit vk bs None s =
     (XENON_VK_ASSERT (vk (submitter_calls s)) ''Failed to submit the queue!'',
      s\<lparr>m_bIsWaiting := (bs \<noteq> []), submitter_calls := Suc (submitter_calls s),
        submitter_trace := submitter_trace s @ [QueueSubmit (buildSubmitInfos None bs)]\<rparr>)"
    by (rule submit_eq)
  show "length (buildSubmitInfos None bs) = length bs"
    by (rule length_buildSubmitInfos)
next
  assume "i < length bs"
  then show "buildSubmitInfos None bs ! i =
        \<lparr>pWaitSemaphores =
           (if bs ! i = [] \<or> i = 0 then [] else map m_SignalSemaphore (bs ! (i - 1))),
         pWaitDstStageMask =
           (if bs ! i = [] \<or> i = 0 then [] else map m_StageFlags (bs ! (i - 1))),
         pCommandBuffers = map m_CommandBuffer (bs ! i),
         pSignalSemaphores = map m_SignalSemaphore (bs ! i)\<rparr>"
    by (rule buildSubmitInfos_None_nth)
next
  assume "\<not> isRenderable sc"
  then show "submit vk bs (Some sc) s = submit vk bs None s"
    by (simp add: submit_eq buildSubmitInfos_not_renderable)
qed

theorem submit_without_swapchain_witness:
  "submit always_success [ [recorder_a], [recorder_b, recorder_a]] None idle_submitter =
     (Inr (),
      \<lparr>m_bIsWaiting = True, submitter_calls = 1,
       submitter_trace =
         [QueueSubmit
            [\<lparr>pWaitSemaphores = [], pWaitDstStageMask = [], pCommandBuffers = [1],
              pSignalSemaphores = [11]\<rparr>,
             \<lparr>pWaitSemaphores = [11], pWaitDstStageMask = [1], pCommandBuffers = [2, 1],
              pSignalSemaphores = [12, 11]\<rparr>]]\<rparr>) \<and>
   \<not> isRenderable hidden_swapchain \<and>
   submit always_success [ [recorder_a], [recorder_b, recorder_a]] (Some hidden_swapchain) idle_submitter =
     submit always_success [ [recorder_a], [recorder_b, recorder_a]] None idle_submitter \<and>
   buildSubmitInfos None [ [recorder_a], [recorder_b, recorder_a]] ! 1 =
     \<lparr>pWaitSemaphores = [11], pWaitDstStageMask = [1], pCommandBuffers = [2, 1],
      pSignalSemaphores = [12, 11]\<rparr>"
proof -
  let ?bs = "[ [recorder_a], [recorder_b, recorder_a]]"
  have v: "buildSubmitInfos None ?bs =
      [\<lparr>pWaitSemaphores = [], pWaitDstStageMask = [], pCommandBuffers = [1],
        pSignalSemaphores = [11]\<rparr>,
       \<lparr>pWaitSemaphores = [11], pWaitDstStageMask = [1], pCommandBuffers = [2, 1],
        pSignalSemaphores = [12, 11]\<rparr>]"
    by (simp add: buildSubmitInfos_def signal_swapchain_def initial_vectors_def batch_step_def
        recorder_step_def emptySubmitInfo_def recorder_a_def recorder_b_def Let_def)
  have h1: "1 < length ?bs" by simp
  have h2: "\<not> isRenderable hidden_swapchain" by (simp add: hidden_swapchain_def)
  note inst = submit_without_swapchain [of always_success ?bs idle_submitter 1 hidden_swapchain]
  from inst have a: "submit always_success ?bs None idle_submitter =
     (XENON_VK_ASSERT (always_success (submitter_calls idle_submitter)) ''Failed to submit the queue!'',
      idle_submitter\<lparr>m_bIsWaiting := (?bs \<noteq> []),
        submitter_calls := Suc (submitter_calls idle_submitter),
        submitter_trace := submitter_trace idle_submitter @ [QueueSubmit (buildSubmitInfos None ?bs)]\<rparr>)"
    by blast
  from inst h1 have b: "buildSubmitInfos None ?bs ! 1 =
        \<lparr>pWaitSemaphores =
           (if ?bs ! 1 = [] \<or> (1::nat) = 0 then [] else map m_SignalSemaphore (?bs ! (1 - 1))),
         pWaitDstStageMask =
           (if ?bs ! 1 = [] \<or> (1::nat) = 0 then [] else map m_StageFlags (?bs ! (1 - 1))),
         pCommandBuffers = map m_CommandBuffer (?bs ! 1),
         pSignalSemaphores = map m_SignalSemaphore (?bs ! 1)\<rparr>"
    by blast
  from inst h2 have c: "submit always_success ?bs (Some hidden_swapchain) idle_submitter =
     submit always_success ?bs None idle_submitter"
    by blast
  from a have a': "submit always_success ?bs None idle_submitter =
     (Inr (),
      \<lparr>m_bIsWaiting = True, submitter_calls = 1,
       submitter_trace =
         [QueueSubmit
            [\<lparr>pWaitSemaphores = [], pWaitDstStageMask = [], pCommandBuffers = [1],
              pSignalSemaphores = [11]\<rparr>,
             \<lparr>pWaitSemaphores = [11], pWaitDstStageMask = [1], pCommandBuffers = [2, 1],
              pSignalSemaphores = [12, 11]\<rparr>]]\<rparr>)"
    by (simp add: v idle_submitter_def always_success_def XENON_VK_ASSERT_def)
  from b have b': "buildSubmitInfos None ?bs ! 1 =
     \<lparr>pWaitSemaphores = [11], pWaitDstStageMask = [1], pCommandBuffers = [2, 1],
      pSignalSemaphores = [12, 11]\<rparr>"
    by (simp add: recorder_a_def recorder_b_def)
  from a' h2 c b' show ?thesis by simp
qed

section \<open>Properties of the rasterizing pipeline\<close>

lemma events_loadPipelineCache:
  "events (snd (loadPipelineCache dev hash s)) =
     events s @
     [case m_pCacheHandler s of
        Some handler \<Rightarrow> CacheLoad (hash XOR g_MagicNumber)
      | None \<Rightarrow> LogInformation ''A pipeline cache handler was not set to load the pipeline cache.'',
      CreatePipelineCache (case m_pCacheHandler s of Some handler \<Rightarrow> handler (hash XOR g_MagicNumber) | None \<Rightarrow> [])] @
     (if vkResult dev (device_calls s) = VK_ERROR_UNKNOWN
      then [LogError ''Unknown Vulkan error caught while creating the pipeline cache object! Trying without the cache data.'',
            CreatePipelineCache []]
      else [])"
  by (simp add: loadPipelineCache_def vkCreatePipelineCache_def device_call_def log_event_def
      set_pipeline_def VK_ERROR_UNKNOWN_def VK_SUCCESS_def split: option.splits)

lemma result_loadPipelineCache:
  "fst (loadPipelineCache dev hash s) =
     XENON_VK_ASSERT
       (if vkResult dev (device_calls s) = VK_ERROR_UNKNOWN
        then vkResult dev (Suc (device_calls s)) else vkResult dev (device_calls s))
       ''Failed to load the pipeline cache!''"
  by (simp add: loadPipelineCache_def vkCreatePipelineCache_def device_call_def log_event_def
      set_pipeline_def VK_ERROR_UNKNOWN_def VK_SUCCESS_def split: option.splits)

text \<open>
  C5. In \<open>loadPipelineCache\<close>, when the first creation of the cache object reports
  \<open>VK_ERROR_UNKNOWN\<close>, the device is asked exactly once more, with empty initial data, and
  the load is fatal exactly when that second attempt does not succeed. Any other first
  result leads to no second attempt: success continues, every other code is fatal at once.
  The first attempt carries the blob the handler returned (no data without a handler).
\<close>

theorem loadPipelineCache_retry:
  "(vkResult dev (device_calls s) = VK_ERROR_UNKNOWN \<longrightarrow>
      cache_creations (new_events s (snd (loadPipelineCache dev hash s))) =
        [case m_pCacheHandler s of Some handler \<Rightarrow> handler (hash XOR g_MagicNumber) | None \<Rightarrow> [], []] \<and>
      fst (loadPipelineCache dev hash s) =
        (if vkResult dev (Suc (device_calls s)) = VK_SUCCESS then Inr ()
         else Inl (Fatal ''Failed to load the pipeline cache!''))) \<and>
   (vkResult dev (device_calls s) \<noteq> VK_ERROR_UNKNOWN \<longrightarrow>
      cache_creations (new_events s (snd (loadPipelineCache dev hash s))) =
        [case m_pCacheHandler s of Some handler \<Rightarrow> handler (hash XOR g_MagicNumber) | None \<Rightarrow> []] \<and>
      fst (loadPipelineCache dev hash s) =
        (if vkResult dev (device_calls s) = VK_SUCCESS then Inr ()
         else Inl (Fatal ''Failed to load the pipeline cache!'')))"
  by (simp add: events_loadPipelineCache result_loadPipelineCache new_events_def
      cache_creations_def XENON_VK_ASSERT_def split: option.splits)


lemma savePipelineCache_no_handler:
  "m_pCacheHandler s = None \<Longrightarrow>
   savePipelineCache dev hash s =
     (Inr (), log_event (LogInformation
                ''A pipeline cache handler was not set to save the pipeline cache.'') s)"
  by (simp add: savePipelineCache_def)

lemma getPipeline_stored:
  "m_Pipelines s (generateHash vertexSpecification) = Some p \<Longrightarrow>
   getPipeline dev vertexSpecification s = (Inr p, s)"
  by (simp add: getPipeline_def)

lemma loadPipelineCache_frame:
  "m_Pipelines (snd (loadPipelineCache dev hash s)) k =
     (if k = hash \<and> fst (loadPipelineCache dev hash s) = Inr ()
      then Some ((the_pipeline s hash)\<lparr>m_PipelineCache :=
             (if vkResult dev (device_calls s) = VK_ERROR_UNKNOWN
              then Suc (Suc (device_calls s)) else Suc (device_calls s))\<rparr>)
      else m_Pipelines s k)"
  by (simp add: loadPipelineCache_def vkCreatePipelineCache_def device_call_def log_event_def
      set_pipeline_def the_pipeline_def XENON_VK_ASSERT_def VK_ERROR_UNKNOWN_def VK_SUCCESS_def
      split: option.splits)

lemma loadPipelineCache_fields:
  "m_pCacheHandler (snd (loadPipelineCache dev hash s)) = m_pCacheHandler s"
  "m_VertexInputBindings (snd (loadPipelineCache dev hash s)) = m_VertexInputBindings s"
  "m_VertexInputAttributes (snd (loadPipelineCache dev hash s)) = m_VertexInputAttributes s"
  "device_calls (snd (loadPipelineCache dev hash s)) =
     (if vkResult dev (device_calls s) = VK_ERROR_UNKNOWN
      then Suc (Suc (device_calls s)) else Suc (device_calls s))"
  by (simp_all add: loadPipelineCache_def vkCreatePipelineCache_def device_call_def log_event_def
      set_pipeline_def VK_ERROR_UNKNOWN_def VK_SUCCESS_def split: option.splits)

lemma createPipeline_result:
  "fst (createPipeline dev hash s) =
     XENON_VK_ASSERT (vkResult dev (device_calls s)) ''Failed to create the pipeline!''"
  by (simp add: createPipeline_def device_call_def log_event_def Let_def)

lemma createPipeline_frame:
  "m_Pipelines (snd (createPipeline dev hash s)) k =
     (if k = hash \<and> fst (createPipeline dev hash s) = Inr ()
      then Some ((the_pipeline s hash)\<lparr>m_Pipeline := Suc (device_calls s)\<rparr>)
      else m_Pipelines s k)"
  by (simp add: createPipeline_def device_call_def log_event_def set_pipeline_def
      XENON_VK_ASSERT_def Let_def)

lemma createPipeline_events:
  "events (snd (createPipeline dev hash s)) =
     events s @
     (if m_Pipeline (the_pipeline s hash) \<noteq> VK_NULL_HANDLE
      then [DestroyPipeline (m_Pipeline (the_pipeline s hash))] else []) @
     [CreateGraphicsPipelines (m_PipelineCache (the_pipeline s hash))
        (m_InputBindingDescriptions (the_pipeline s hash))
        (m_InputAttributeDescriptions (the_pipeline s hash))]"
  by (simp add: createPipeline_def device_call_def log_event_def set_pipeline_def Let_def)

lemma createPipeline_fields:
  "m_pCacheHandler (snd (createPipeline dev hash s)) = m_pCacheHandler s"
  "device_calls (snd (createPipeline dev hash s)) = Suc (device_calls s)"
  by (simp_all add: createPipeline_def device_call_def log_event_def set_pipeline_def Let_def)

lemma savePipelineCache_frame:
  "m_Pipelines (snd (savePipelineCache dev hash s)) = m_Pipelines s"
  by (simp add: savePipelineCache_def device_call_def log_event_def Let_def
      split: option.splits sum.splits)

lemma savePipelineCache_compilations:
  "compilations (events (snd (savePipelineCache dev hash s))) = compilations (events s)"
  by (simp add: savePipelineCache_def device_call_def log_event_def Let_def compilations_def
      split: option.splits sum.splits)

lemma loadPipelineCache_compilations:
  "compilations (events (snd (loadPipelineCache dev hash s))) = compilations (events s)"
  by (simp add: events_loadPipelineCache compilations_def split: option.splits)

lemma createPipeline_compilations:
  "compilations (events (snd (createPipeline dev hash s))) = Suc (compilations (events s))"
  by (simp add: createPipeline_events compilations_def)


lemma setup_inputs_cong:
  "m_VertexInputAttributes a = m_VertexInputAttributes b \<Longrightarrow>
   m_VertexInputBindings a = m_VertexInputBindings b \<Longrightarrow>
   setup_inputs dev vertexSpecification a p = setup_inputs dev vertexSpecification b p"
  by (simp add: setup_inputs_def split: prod.splits)

lemma the_pipeline_Some: "m_Pipelines s hash = Some p \<Longrightarrow> the_pipeline s hash = p"
  by (simp add: the_pipeline_def)

lemma savePipelineCache_events:
  "set (events s) \<subseteq> set (events (snd (savePipelineCache dev hash s)))"
  by (auto simp: savePipelineCache_def device_call_def log_event_def Let_def
      split: option.splits sum.splits)

lemma getPipeline_fresh:
  assumes fresh: "m_Pipelines s (generateHash vertexSpecification) = None"
    and ok: "getPipeline dev vertexSpecification s = (Inr p, s')"
  shows "m_Pipelines s' k = (if k = generateHash vertexSpecification then Some p else m_Pipelines s k)"
    and "compilations (events s') = Suc (compilations (events s))"
    and "p = (setup_inputs dev vertexSpecification s
               (emptyPipelineStorage\<lparr>m_PipelineCache :=
                  (if vkResult dev (device_calls s) = VK_ERROR_UNKNOWN
                   then Suc (Suc (device_calls s)) else Suc (device_calls s))\<rparr>))
             \<lparr>m_Pipeline :=
                  (if vkResult dev (device_calls s) = VK_ERROR_UNKNOWN
                   then Suc (Suc (Suc (device_calls s))) else Suc (Suc (device_calls s)))\<rparr>"
    and "CreateGraphicsPipelines (m_PipelineCache p) (m_InputBindingDescriptions p)
           (m_InputAttributeDescriptions p) \<in> set (events s')"
proof -
  let ?h = "generateHash vertexSpecification"
  let ?s0 = "set_pipeline ?h emptyPipelineStorage s"
  let ?s1 = "snd (loadPipelineCache dev ?h ?s0)"
  let ?s1' = "set_pipeline ?h (setup_inputs dev vertexSpecification ?s1 (the_pipeline ?s1 ?h)) ?s1"
  let ?s2 = "snd (createPipeline dev ?h ?s1')"
  let ?s3 = "snd (savePipelineCache dev ?h ?s2)"
  let ?c = "if vkResult dev (device_calls s) = VK_ERROR_UNKNOWN
            then Suc (Suc (device_calls s)) else Suc (device_calls s)"
  from fresh ok have steps:
    "fst (loadPipelineCache dev ?h ?s0) = Inr ()"
    "fst (createPipeline dev ?h ?s1') = Inr ()"
    "s' = ?s3" "p = the_pipeline ?s3 ?h"
    by (auto simp: getPipeline_def Let_def split: prod.splits sum.splits)
  have m0: "m_Pipelines ?s0 k = (if k = ?h then Some emptyPipelineStorage else m_Pipelines s k)" for k
    by (simp add: set_pipeline_def)
  have p0: "the_pipeline ?s0 ?h = emptyPipelineStorage"
    by (simp add: the_pipeline_def set_pipeline_def)
  have calls0: "device_calls ?s0 = device_calls s"
    by (simp add: set_pipeline_def)
  have m1: "m_Pipelines ?s1 k =
      (if k = ?h then Some (emptyPipelineStorage\<lparr>m_PipelineCache := ?c\<rparr>) else m_Pipelines s k)" for k
    using steps(1) by (simp add: loadPipelineCache_frame p0 m0 calls0)
  have p1: "the_pipeline ?s1 ?h = emptyPipelineStorage\<lparr>m_PipelineCache := ?c\<rparr>"
    by (rule the_pipeline_Some) (simp add: m1)
  have in1: "setup_inputs dev vertexSpecification ?s1 q = setup_inputs dev vertexSpecification s q" for q
    by (rule setup_inputs_cong) (simp_all add: loadPipelineCache_fields set_pipeline_def)
  let ?q = "setup_inputs dev vertexSpecification s (emptyPipelineStorage\<lparr>m_PipelineCache := ?c\<rparr>)"
  have m1': "m_Pipelines ?s1' k = (if k = ?h then Some ?q else m_Pipelines s k)" for k
    by (simp add: set_pipeline_def [of ?h _ ?s1] m1 p1 in1)
  have p1': "the_pipeline ?s1' ?h = ?q"
    by (rule the_pipeline_Some) (simp add: m1')
  have calls1': "device_calls ?s1' = ?c"
    by (simp add: set_pipeline_def [of ?h _ ?s1] loadPipelineCache_fields calls0)
  have m2: "m_Pipelines ?s2 k =
      (if k = ?h then Some (?q\<lparr>m_Pipeline := Suc ?c\<rparr>) else m_Pipelines s k)" for k
  proof -
    have "m_Pipelines ?s2 k =
        (if k = ?h \<and> fst (createPipeline dev ?h ?s1') = Inr ()
         then Some ((the_pipeline ?s1' ?h)\<lparr>m_Pipeline := Suc (device_calls ?s1')\<rparr>)
         else m_Pipelines ?s1' k)"
      by (rule createPipeline_frame)
    also have "\<dots> = (if k = ?h then Some (?q\<lparr>m_Pipeline := Suc ?c\<rparr>) else m_Pipelines s k)"
      unfolding steps(2) p1' calls1' m1' by simp
    finally show ?thesis .
  qed
  have m3: "m_Pipelines ?s3 = m_Pipelines ?s2"
    by (rule savePipelineCache_frame)
  have p3: "the_pipeline ?s3 ?h = ?q\<lparr>m_Pipeline := Suc ?c\<rparr>"
    by (rule the_pipeline_Some) (simp add: m3 m2)
  show "p = ?q\<lparr>m_Pipeline :=
                  (if vkResult dev (device_calls s) = VK_ERROR_UNKNOWN
                   then Suc (Suc (Suc (device_calls s))) else Suc (Suc (device_calls s)))\<rparr>"
    unfolding steps(4) p3 by simp
  show "m_Pipelines s' k = (if k = ?h then Some p else m_Pipelines s k)"
    unfolding steps(3,4) p3 m3 m2 by simp
  have "CreateGraphicsPipelines (m_PipelineCache (the_pipeline ?s1' ?h))
          (m_InputBindingDescriptions (the_pipeline ?s1' ?h))
          (m_InputAttributeDescriptions (the_pipeline ?s1' ?h)) \<in> set (events ?s2)"
    unfolding createPipeline_events by simp
  then have "CreateGraphicsPipelines (m_PipelineCache ?q) (m_InputBindingDescriptions ?q)
          (m_InputAttributeDescriptions ?q) \<in> set (events ?s3)"
    unfolding p1' using savePipelineCache_events [of ?s2 dev ?h] by blast
  then show "CreateGraphicsPipelines (m_PipelineCache p) (m_InputBindingDescriptions p)
           (m_InputAttributeDescriptions p) \<in> set (events s')"
    unfolding steps(3,4) p3 by simp
  have "compilations (events ?s3) = Suc (compilations (events ?s1))"
    by (simp add: savePipelineCache_compilations createPipeline_compilations
        set_pipeline_def [of ?h _ ?s1])
  also have "compilations (events ?s1) = compilations (events s)"
    by (simp add: loadPipelineCache_compilations set_pipeline_def)
  finally show "compilations (events s') = Suc (compilations (events s))"
    using steps(3) by simp
qed


lemma getPipeline_map:
  assumes "getPipeline dev v s = (Inr p, s')"
  shows "m_Pipelines s' = (m_Pipelines s)(generateHash v \<mapsto> p)"
proof (cases "m_Pipelines s (generateHash v)")
  case None
  show ?thesis
    by (rule ext) (simp add: getPipeline_fresh(1) [OF None assms])
next
  case (Some q)
  with assms have "p = q" and "s' = s"
    by (simp_all add: getPipeline_stored)
  with Some show ?thesis
    by (auto simp: fun_upd_idem)
qed

lemma getPipeline_compilations:
  assumes "getPipeline dev v s = (Inr p, s')"
  shows "compilations (events s') =
     compilations (events s) + (if generateHash v \<in> dom (m_Pipelines s) then 0 else 1)"
proof (cases "m_Pipelines s (generateHash v)")
  case None
  then show ?thesis
    using getPipeline_fresh(2) [OF None assms] by (simp add: domIff)
next
  case (Some q)
  with assms have "s' = s"
    by (simp add: getPipeline_stored)
  with Some show ?thesis
    by (simp add: domIff)
qed

lemma getPipeline_keeps:
  assumes "getPipeline dev v s = (Inr p, s')" and "m_Pipelines s k = Some q"
  shows "m_Pipelines s' k = Some q"
proof (cases "k = generateHash v")
  case True
  with assms show ?thesis by (simp add: getPipeline_stored)
next
  case False
  then show ?thesis
    using assms by (simp add: getPipeline_map [OF assms(1)])
qed

lemma getPipelines_keeps:
  "getPipelines dev vs s = (Inr ps, s') \<Longrightarrow> m_Pipelines s k = Some q \<Longrightarrow> m_Pipelines s' k = Some q"
proof (induction vs arbitrary: s ps)
  case Nil
  then show ?case by simp
next
  case (Cons v vs)
  from Cons.prems(1) obtain p s1 ps' where
    one: "getPipeline dev v s = (Inr p, s1)" and rest: "getPipelines dev vs s1 = (Inr ps', s')"
    by (auto split: prod.splits sum.splits)
  from getPipeline_keeps [OF one Cons.prems(2)] Cons.IH [OF rest] show ?case
    by simp
qed

lemma getPipelines_sequence:
  "getPipelines dev vs s = (Inr ps, s') \<Longrightarrow>
   dom (m_Pipelines s') = dom (m_Pipelines s) \<union> generateHash ` set vs \<and>
   compilations (events s') =
     compilations (events s) + card (generateHash ` set vs - dom (m_Pipelines s)) \<and>
   map (m_Pipelines s') (map generateHash vs) = map Some ps"
proof (induction vs arbitrary: s ps)
  case Nil
  then show ?case by simp
next
  case (Cons v vs)
  let ?h = "generateHash v"
  let ?H = "generateHash ` set vs"
  let ?D = "dom (m_Pipelines s)"
  from Cons.prems obtain p s1 ps' where
    one: "getPipeline dev v s = (Inr p, s1)" and rest: "getPipelines dev vs s1 = (Inr ps', s')"
    and ps: "ps = p # ps'"
    by (auto split: prod.splits sum.splits)
  note IH = Cons.IH [OF rest]
  have m1: "m_Pipelines s1 = (m_Pipelines s)(?h \<mapsto> p)"
    by (rule getPipeline_map [OF one])
  then have d1: "dom (m_Pipelines s1) = insert ?h ?D"
    by simp
  have stored: "m_Pipelines s' ?h = Some p"
    by (rule getPipelines_keeps [OF rest]) (simp add: m1)
  have fin: "finite (?H - insert ?h ?D)"
    by simp
  have count: "card (insert ?h ?H - ?D) =
      (if ?h \<in> ?D then 0 else 1) + card (?H - insert ?h ?D)"
  proof (cases "?h \<in> ?D")
    case True
    then have "insert ?h ?H - ?D = ?H - insert ?h ?D" by auto
    with True show ?thesis by simp
  next
    case False
    then have "insert ?h ?H - ?D = insert ?h (?H - insert ?h ?D)" by auto
    with False fin show ?thesis by simp
  qed
  have "dom (m_Pipelines s') = ?D \<union> generateHash ` set (v # vs)"
    using IH d1 by auto
  moreover have "compilations (events s') =
      compilations (events s) + card (generateHash ` set (v # vs) - ?D)"
    using IH getPipeline_compilations [OF one] d1 count by simp
  moreover have "map (m_Pipelines s') (map generateHash (v # vs)) = map Some ps"
    using IH stored ps by simp
  ultimately show ?case by blast
qed

lemma savePipelineCache_result:
  "fst (savePipelineCache dev hash s) =
     (case m_pCacheHandler s of
        None \<Rightarrow> Inr ()
      | Some handler \<Rightarrow>
          (case XENON_VK_ASSERT (vkResult dev (device_calls s)) ''Failed to get the pipeline cache size!'' of
             Inl e \<Rightarrow> Inl e
           | Inr _ \<Rightarrow> XENON_VK_ASSERT (vkResult dev (Suc (device_calls s)))
                        ''Failed to get the pipeline cache data!''))"
  by (simp add: savePipelineCache_def device_call_def log_event_def Let_def XENON_VK_ASSERT_def
      split: option.splits sum.splits)

lemma getPipeline_succeeds:
  assumes calls: "\<forall>i<4. vkResult dev (device_calls s + i) = VK_SUCCESS"
  shows "fst (getPipeline dev v s) = Inr (the_pipeline (snd (getPipeline dev v s)) (generateHash v))"
proof (cases "m_Pipelines s (generateHash v)")
  case (Some q)
  then show ?thesis
    by (simp add: getPipeline_stored the_pipeline_Some)
next
  case None
  let ?h = "generateHash v"
  let ?s0 = "set_pipeline ?h emptyPipelineStorage s"
  let ?s1 = "snd (loadPipelineCache dev ?h ?s0)"
  let ?s1' = "set_pipeline ?h (setup_inputs dev v ?s1 (the_pipeline ?s1 ?h)) ?s1"
  let ?s2 = "snd (createPipeline dev ?h ?s1')"
  have r1: "vkResult dev (device_calls s) = VK_SUCCESS"
    using calls [rule_format, of 0] by simp
  have r2: "vkResult dev (Suc (device_calls s)) = VK_SUCCESS"
    using calls [rule_format, of 1] by simp
  have r3: "vkResult dev (Suc (Suc (device_calls s))) = VK_SUCCESS"
    using calls [rule_format, of 2] by simp
  have r4: "vkResult dev (Suc (Suc (Suc (device_calls s)))) = VK_SUCCESS"
    using calls [rule_format, of 3] by (simp add: numeral_3_eq_3)
  have known: "VK_SUCCESS \<noteq> VK_ERROR_UNKNOWN"
    by (simp add: VK_SUCCESS_def VK_ERROR_UNKNOWN_def)
  have calls0: "device_calls ?s0 = device_calls s"
    by (simp add: set_pipeline_def)
  have load: "fst (loadPipelineCache dev ?h ?s0) = Inr ()"
    using r1 known by (simp add: result_loadPipelineCache calls0 XENON_VK_ASSERT_def)
  have calls1: "device_calls ?s1' = Suc (device_calls s)"
    using r1 known by (simp add: set_pipeline_def [of ?h _ ?s1] loadPipelineCache_fields calls0)
  have create: "fst (createPipeline dev ?h ?s1') = Inr ()"
    unfolding createPipeline_result calls1 r2 by (simp add: XENON_VK_ASSERT_def)
  have calls2: "device_calls ?s2 = Suc (Suc (device_calls s))"
    by (simp only: createPipeline_fields calls1)
  have save: "fst (savePipelineCache dev ?h ?s2) = Inr ()"
    unfolding savePipelineCache_result calls2 r3 r4
    by (simp add: XENON_VK_ASSERT_def split: option.splits)
  obtain a s1 where L: "loadPipelineCache dev ?h ?s0 = (Inr a, s1)"
    using load by (cases "loadPipelineCache dev ?h ?s0") auto
  then have s1: "s1 = ?s1" by simp
  obtain b s2 where C: "createPipeline dev ?h ?s1' = (Inr b, s2)"
    using create by (cases "createPipeline dev ?h ?s1'") auto
  then have s2: "s2 = ?s2" by simp
  obtain c s3 where S: "savePipelineCache dev ?h ?s2 = (Inr c, s3)"
    using save by (cases "savePipelineCache dev ?h ?s2") auto
  have "getPipeline dev v s = (Inr (the_pipeline s3 ?h), s3)"
    unfolding getPipeline_def Let_def using None L C S
    by (simp add: s1 [symmetric] s2 [symmetric])
  then show ?thesis by simp
qed

lemma getPipelines_succeed:
  assumes calls: "\<forall>n. vkResult dev n = VK_SUCCESS"
  shows "fst (getPipelines dev vs s) =
     Inr (map (\<lambda>v. the_pipeline (snd (getPipelines dev vs s)) (generateHash v)) vs)"
proof -
  have ex: "\<exists>ps s'. getPipelines dev vs s = (Inr ps, s')" for s
  proof (induction vs arbitrary: s)
    case Nil
    show ?case by simp
  next
    case (Cons v vs)
    from calls have "\<forall>i<4. vkResult dev (device_calls s + i) = VK_SUCCESS"
      by simp
    from getPipeline_succeeds [OF this, of v]
    obtain p s1 where one: "getPipeline dev v s = (Inr p, s1)"
      by (cases "getPipeline dev v s") auto
    from Cons.IH [of s1] obtain ps s2 where rest: "getPipelines dev vs s1 = (Inr ps, s2)"
      by blast
    from one rest show ?case by simp
  qed
  then obtain ps s' where run: "getPipelines dev vs s = (Inr ps, s')"
    by blast
  from getPipelines_sequence [OF run]
  have stored: "map (m_Pipelines s') (map generateHash vs) = map Some ps"
    by simp
  then have len: "length ps = length vs"
    by (metis length_map)
  have "ps = map (\<lambda>v. the_pipeline s' (generateHash v)) vs"
  proof (rule nth_equalityI)
    show "length ps = length (map (\<lambda>v. the_pipeline s' (generateHash v)) vs)"
      using len by simp
  next
    fix i assume i: "i < length ps"
    with len have iv: "i < length vs" by simp
    from stored have "map (m_Pipelines s') (map generateHash vs) ! i = map Some ps ! i"
      by simp
    with i iv have "m_Pipelines s' (generateHash (vs ! i)) = Some (ps ! i)"
      by simp
    then have "the_pipeline s' (generateHash (vs ! i)) = ps ! i"
      by (rule the_pipeline_Some)
    with iv show "ps ! i = map (\<lambda>v. the_pipeline s' (generateHash v)) vs ! i"
      by simp
  qed
  with run show ?thesis by simp
qed

text \<open>
  C1. One variant per vertex-layout hash. A request for a hash that is already in the
  variant map returns the stored variant and leaves the pipeline object as it was: no
  device call, no compilation. A successful request for an unseen hash stores the variant
  it returns under that hash, changes no other entry, and compiles exactly one backend
  pipeline. Over any sequence of successful requests the map gains exactly the requested
  hashes, the number of compilations is the number of distinct hashes that were new, and
  every request of the sequence returned the variant that is stored under its hash.
  Requests do succeed: when the next four device calls succeed, a request returns the
  variant that is then stored under its hash, and when every device call succeeds, every
  request of a sequence returns the variant stored under its hash at the end.
\<close>

theorem getPipeline_one_variant_per_hash:
  "(m_Pipelines s (generateHash v) = Some p \<longrightarrow> getPipeline dev v s = (Inr p, s)) \<and>
   (m_Pipelines s (generateHash v) = None \<and> getPipeline dev v s = (Inr p', s') \<longrightarrow>
      m_Pipelines s' = (m_Pipelines s)(generateHash v \<mapsto> p') \<and>
      compilations (events s') = Suc (compilations (events s))) \<and>
   (getPipelines dev vs s = (Inr ps, s'') \<longrightarrow>
      dom (m_Pipelines s'') = dom (m_Pipelines s) \<union> generateHash ` set vs \<and>
      compilations (events s'') =
        compilations (events s) + card (generateHash ` set vs - dom (m_Pipelines s)) \<and>
      map (m_Pipelines s'') (map generateHash vs) = map Some ps) \<and>
   ((\<forall>i<4. vkResult dev (device_calls s + i) = VK_SUCCESS) \<longrightarrow>
      fst (getPipeline dev v s) =
        Inr (the_pipeline (snd (getPipeline dev v s)) (generateHash v)) \<and>
      m_Pipelines (snd (getPipeline dev v s)) (generateHash v) =
        Some (the_pipeline (snd (getPipeline dev v s)) (generateHash v))) \<and>
   ((\<forall>n. vkResult dev n = VK_SUCCESS) \<longrightarrow>
      fst (getPipelines dev vs s) =
        Inr (map (\<lambda>v. the_pipeline (snd (getPipelines dev vs s)) (generateHash v)) vs))"
proof (intro conjI impI)
  assume "m_Pipelines s (generateHash v) = Some p"
  then show "getPipeline dev v s = (Inr p, s)"
    by (rule getPipeline_stored)
next
  assume a: "m_Pipelines s (generateHash v) = None \<and> getPipeline dev v s = (Inr p', s')"
  then have fresh: "m_Pipelines s (generateHash v) = None"
    and ok: "getPipeline dev v s = (Inr p', s')"
    by simp_all
  show "m_Pipelines s' = (m_Pipelines s)(generateHash v \<mapsto> p')"
    by (rule getPipeline_map [OF ok])
  show "compilations (events s') = Suc (compilations (events s))"
    by (rule getPipeline_fresh(2) [OF fresh ok])
next
  assume "getPipelines dev vs s = (Inr ps, s'')"
  from getPipelines_sequence [OF this]
  show "dom (m_Pipelines s'') = dom (m_Pipelines s) \<union> generateHash ` set vs"
    and "compilations (events s'') =
        compilations (events s) + card (generateHash ` set vs - dom (m_Pipelines s))"
    and "map (m_Pipelines s'') (map generateHash vs) = map Some ps"
    by simp_all
next
  assume calls: "\<forall>i<4. vkResult dev (device_calls s + i) = VK_SUCCESS"
  let ?r = "getPipeline dev v s"
  show ok: "fst ?r = Inr (the_pipeline (snd ?r) (generateHash v))"
    by (rule getPipeline_succeeds [OF calls])
  then have "?r = (Inr (the_pipeline (snd ?r) (generateHash v)), snd ?r)"
    by (simp add: prod_eq_iff)
  from getPipeline_map [OF this]
  show "m_Pipelines (snd ?r) (generateHash v) = Some (the_pipeline (snd ?r) (generateHash v))"
    by simp
next
  assume "\<forall>n. vkResult dev n = VK_SUCCESS"
  then show "fst (getPipelines dev vs s) =
        Inr (map (\<lambda>v. the_pipeline (snd (getPipelines dev vs s)) (generateHash v)) vs)"
    by (rule getPipelines_succeed)
qed


lemma getPipeline_no_handler_succeeds:
  assumes none: "m_pCacheHandler s = None"
    and r1: "vkResult dev (device_calls s) = VK_SUCCESS"
    and r2: "vkResult dev (Suc (device_calls s)) = VK_SUCCESS"
  shows "fst (getPipeline dev v s) = Inr (the_pipeline (snd (getPipeline dev v s)) (generateHash v))"
proof (cases "m_Pipelines s (generateHash v)")
  case (Some q)
  then show ?thesis
    by (simp add: getPipeline_stored the_pipeline_Some)
next
  case None
  let ?h = "generateHash v"
  let ?s0 = "set_pipeline ?h emptyPipelineStorage s"
  let ?s1 = "snd (loadPipelineCache dev ?h ?s0)"
  let ?s1' = "set_pipeline ?h (setup_inputs dev v ?s1 (the_pipeline ?s1 ?h)) ?s1"
  let ?s2 = "snd (createPipeline dev ?h ?s1')"
  have known: "VK_SUCCESS \<noteq> VK_ERROR_UNKNOWN"
    by (simp add: VK_SUCCESS_def VK_ERROR_UNKNOWN_def)
  have calls0: "device_calls ?s0 = device_calls s"
    by (simp add: set_pipeline_def)
  have load: "fst (loadPipelineCache dev ?h ?s0) = Inr ()"
    using r1 known by (simp add: result_loadPipelineCache calls0 XENON_VK_ASSERT_def)
  have calls1: "device_calls ?s1' = Suc (device_calls s)"
    using r1 known by (simp add: set_pipeline_def [of ?h _ ?s1] loadPipelineCache_fields calls0)
  have create: "fst (createPipeline dev ?h ?s1') = Inr ()"
    unfolding createPipeline_result calls1 r2 by (simp add: XENON_VK_ASSERT_def)
  have "m_pCacheHandler ?s2 = m_pCacheHandler ?s0"
    by (simp add: createPipeline_fields set_pipeline_def [of ?h _ ?s1] loadPipelineCache_fields)
  with none have handler: "m_pCacheHandler ?s2 = None"
    by (simp add: set_pipeline_def)
  have save: "fst (savePipelineCache dev ?h ?s2) = Inr ()"
    by (simp only: savePipelineCache_no_handler [OF handler] fst_conv)
  obtain a s1 where L: "loadPipelineCache dev ?h ?s0 = (Inr a, s1)"
    using load by (cases "loadPipelineCache dev ?h ?s0") auto
  then have s1: "s1 = ?s1" by simp
  obtain b s2 where C: "createPipeline dev ?h ?s1' = (Inr b, s2)"
    using create by (cases "createPipeline dev ?h ?s1'") auto
  then have s2: "s2 = ?s2" by simp
  obtain c s3 where S: "savePipelineCache dev ?h ?s2 = (Inr c, s3)"
    using save by (cases "savePipelineCache dev ?h ?s2") auto
  have "getPipeline dev v s = (Inr (the_pipeline s3 ?h), s3)"
    unfolding getPipeline_def Let_def using None L C S
    by (simp add: s1 [symmetric] s2 [symmetric])
  then show ?thesis by simp
qed


lemmas pipeline_eval =
  getPipeline_def loadPipelineCache_def createPipeline_def savePipelineCache_def
  vkCreatePipelineCache_def device_call_def log_event_def set_pipeline_def the_pipeline_def
  setup_inputs_def resolve_attribute_def XENON_VK_ASSERT_def VK_SUCCESS_def VK_ERROR_UNKNOWN_def
  emptyPipelineStorage_def VK_NULL_HANDLE_def GetElementFormat_def Let_def
  device_ok_def device_retry_def position_only_def plain_pipeline_def always_success_def
  unknown_then_success_def position_attribute_def position_variant_def compiled_pipeline_def
  cached_pipeline_def stored_blobs_def cache_blob_def sort_by_offset_def first_come_def
  numeral_2_eq_2

theorem getPipeline_one_variant_per_hash_witness:
  "m_Pipelines plain_pipeline (generateHash position_only) = None \<and>
   (\<forall>n. vkResult device_ok n = VK_SUCCESS) \<and>
   getPipeline device_ok position_only plain_pipeline = (Inr position_variant, compiled_pipeline) \<and>
   m_Pipelines compiled_pipeline (generateHash position_only) = Some position_variant \<and>
   compilations (events compiled_pipeline) = 1 \<and>
   getPipeline device_ok position_only compiled_pipeline = (Inr position_variant, compiled_pipeline) \<and>
   m_Pipelines compiled_pipeline (generateHash position_color) = None \<and>
   fst (getPipeline device_ok position_color compiled_pipeline) = Inr color_variant \<and>
   fst (getPipelines device_ok [position_only, position_color, position_only] plain_pipeline) =
     Inr [position_variant, color_variant, position_variant] \<and>
   m_Pipelines (snd (getPipelines device_ok [position_only, position_color, position_only] plain_pipeline)) =
     [7 \<mapsto> position_variant, 9 \<mapsto> color_variant] \<and>
   compilations (events (snd (getPipelines device_ok [position_only, position_color, position_only]
     plain_pipeline))) = 2"
proof -
  let ?vs = "[position_only, position_color, position_only]"
  have fresh: "m_Pipelines plain_pipeline (generateHash position_only) = None"
    by (simp add: plain_pipeline_def position_only_def)
  have calls: "\<forall>n. vkResult device_ok n = VK_SUCCESS"
    by (simp add: device_ok_def always_success_def)
  then have calls4: "\<forall>i<4. vkResult device_ok (device_calls compiled_pipeline + i) = VK_SUCCESS"
    by simp
  have first: "getPipeline device_ok position_only plain_pipeline = (Inr position_variant, compiled_pipeline)"
    by (simp add: pipeline_eval)
  have stored: "m_Pipelines compiled_pipeline (generateHash position_only) = Some position_variant"
    by (simp add: compiled_pipeline_def position_only_def)
  have fresh2: "m_Pipelines compiled_pipeline (generateHash position_color) = None"
    by (simp add: compiled_pipeline_def position_color_def)
  have second_value: "fst (getPipeline device_ok position_color compiled_pipeline) = Inr color_variant"
    by (simp add: pipeline_eval position_color_def color_variant_def)
  then obtain s1 where second: "getPipeline device_ok position_color compiled_pipeline = (Inr color_variant, s1)"
    by (cases "getPipeline device_ok position_color compiled_pipeline") simp
  note at_start = getPipeline_one_variant_per_hash
    [where s = plain_pipeline and v = position_only and p = position_variant and dev = device_ok
       and p' = position_variant and s' = compiled_pipeline and vs = ?vs
       and ps = "[position_variant, color_variant, position_variant]" and s'' = s1]
  note at_second = getPipeline_one_variant_per_hash
    [where s = compiled_pipeline and v = position_color and p = position_variant and dev = device_ok
       and p' = color_variant and s' = s1 and vs = "[position_only]"
       and ps = "[position_variant]" and s'' = compiled_pipeline]
  note at_third = getPipeline_one_variant_per_hash
    [where s = compiled_pipeline and v = position_only and p = position_variant and dev = device_ok
       and p' = position_variant and s' = compiled_pipeline and vs = "[]"
       and ps = "[]" and s'' = compiled_pipeline]
  from at_third stored
  have again: "getPipeline device_ok position_only compiled_pipeline = (Inr position_variant, compiled_pipeline)"
    by blast
  from at_second calls4
  have "fst (getPipeline device_ok position_color compiled_pipeline) =
      Inr (the_pipeline (snd (getPipeline device_ok position_color compiled_pipeline))
             (generateHash position_color))"
    by blast
  with second have returned: "color_variant = the_pipeline s1 (generateHash position_color)"
    by simp
  from at_second fresh2 second
  have map1: "m_Pipelines s1 = (m_Pipelines compiled_pipeline)(generateHash position_color \<mapsto> color_variant)"
    by blast
  then have stored1: "m_Pipelines s1 (generateHash position_only) = Some position_variant"
    by (simp add: compiled_pipeline_def position_only_def position_color_def)
  then have third: "getPipeline device_ok position_only s1 = (Inr position_variant, s1)"
    by (rule getPipeline_stored)
  have run: "getPipelines device_ok ?vs plain_pipeline =
      (Inr [position_variant, color_variant, position_variant], s1)"
    by (simp add: first second third)
  then have all_returned: "fst (getPipelines device_ok ?vs plain_pipeline) =
      Inr [position_variant, color_variant, position_variant]"
    and end_state: "snd (getPipelines device_ok ?vs plain_pipeline) = s1"
    by simp_all
  from at_start fresh first
  have "compilations (events compiled_pipeline) = Suc (compilations (events plain_pipeline))"
    by blast
  then have one: "compilations (events compiled_pipeline) = 1"
    by (simp add: plain_pipeline_def compilations_def)
  from at_start run
  have "compilations (events s1) =
        compilations (events plain_pipeline) +
        card (generateHash ` set ?vs - dom (m_Pipelines plain_pipeline))"
    by blast
  moreover have "compilations (events plain_pipeline) = 0"
    and "m_Pipelines plain_pipeline = Map.empty"
    by (simp_all add: plain_pipeline_def compilations_def)
  moreover have "generateHash ` set ?vs = {7, 9}"
    by (auto simp: position_only_def position_color_def)
  ultimately have "compilations (events s1) = 2"
    by simp
  then have two: "compilations (events (snd (getPipelines device_ok ?vs plain_pipeline))) = 2"
    by (simp only: end_state)
  from map1 have "m_Pipelines s1 = [7 \<mapsto> position_variant, 9 \<mapsto> color_variant]"
    by (simp add: compiled_pipeline_def position_color_def)
  then have entries: "m_Pipelines (snd (getPipelines device_ok ?vs plain_pipeline)) =
      [7 \<mapsto> position_variant, 9 \<mapsto> color_variant]"
    by (simp only: end_state)
  from fresh calls first stored one again fresh2 second_value all_returned entries two
  show ?thesis by (intro conjI) assumption+
qed

theorem loadPipelineCache_retry_witness:
  "vkResult device_retry (device_calls cached_pipeline) = VK_ERROR_UNKNOWN \<and>
   cache_creations (new_events cached_pipeline (snd (loadPipelineCache device_retry 7 cached_pipeline))) =
     [ [9, 9], []] \<and>
   fst (loadPipelineCache device_retry 7 cached_pipeline) = Inr () \<and>
   vkResult device_ok (device_calls cached_pipeline) \<noteq> VK_ERROR_UNKNOWN \<and>
   cache_creations (new_events cached_pipeline (snd (loadPipelineCache device_ok 7 cached_pipeline))) =
     [ [9, 9]] \<and>
   fst (loadPipelineCache device_ok 7 cached_pipeline) = Inr ()"
proof -
  have h1: "vkResult device_retry (device_calls cached_pipeline) = VK_ERROR_UNKNOWN"
    by (simp add: device_retry_def cached_pipeline_def unknown_then_success_def)
  have h2: "vkResult device_ok (device_calls cached_pipeline) \<noteq> VK_ERROR_UNKNOWN"
    by (simp add: device_ok_def always_success_def VK_SUCCESS_def VK_ERROR_UNKNOWN_def)
  from loadPipelineCache_retry [of device_retry cached_pipeline 7] h1
  have a: "cache_creations (new_events cached_pipeline (snd (loadPipelineCache device_retry 7 cached_pipeline))) =
     [ [9, 9], []]"
    and b: "fst (loadPipelineCache device_retry 7 cached_pipeline) = Inr ()"
    by (simp_all add: cached_pipeline_def stored_blobs_def device_retry_def unknown_then_success_def
        VK_SUCCESS_def VK_ERROR_UNKNOWN_def)
  from loadPipelineCache_retry [of device_ok cached_pipeline 7] h2
  have c: "cache_creations (new_events cached_pipeline (snd (loadPipelineCache device_ok 7 cached_pipeline))) =
     [ [9, 9]]"
    and d: "fst (loadPipelineCache device_ok 7 cached_pipeline) = Inr ()"
    by (simp_all add: cached_pipeline_def stored_blobs_def device_ok_def always_success_def
        VK_SUCCESS_def VK_ERROR_UNKNOWN_def)
  from h1 h2 a b c d show ?thesis by simp
qed

text \<open>
  C6. Without a cache handler, \<open>loadPipelineCache\<close> logs a note and creates the cache
  object from empty data (retrying once, again with empty data, on \<open>VK_ERROR_UNKNOWN\<close>);
  \<open>savePipelineCache\<close> does nothing but log a note and cannot fail; and \<open>getPipeline\<close>
  succeeds whenever the two device calls it makes (cache object, pipeline) succeed.
\<close>

theorem no_cache_handler_not_fatal:
  "m_pCacheHandler s = None \<longrightarrow>
     events (snd (loadPipelineCache dev hash s)) =
       events s @
       [LogInformation ''A pipeline cache handler was not set to load the pipeline cache.'',
        CreatePipelineCache []] @
       (if vkResult dev (device_calls s) = VK_ERROR_UNKNOWN
        then [LogError ''Unknown Vulkan error caught while creating the pipeline cache object! Trying without the cache data.'',
              CreatePipelineCache []]
        else []) \<and>
     savePipelineCache dev hash s =
       (Inr (), log_event (LogInformation
                  ''A pipeline cache handler was not set to save the pipeline cache.'') s) \<and>
     (vkResult dev (device_calls s) = VK_SUCCESS \<and> vkResult dev (Suc (device_calls s)) = VK_SUCCESS \<longrightarrow>
        fst (getPipeline dev v s) = Inr (the_pipeline (snd (getPipeline dev v s)) (generateHash v)))"
proof (intro impI conjI)
  assume none: "m_pCacheHandler s = None"
  then show "events (snd (loadPipelineCache dev hash s)) =
       events s @
       [LogInformation ''A pipeline cache handler was not set to load the pipeline cache.'',
        CreatePipelineCache []] @
       (if vkResult dev (device_calls s) = VK_ERROR_UNKNOWN
        then [LogError ''Unknown Vulkan error caught while creating the pipeline cache object! Trying without the cache data.'',
              CreatePipelineCache []]
        else [])"
    by (simp only: events_loadPipelineCache option.case)
  from none show "savePipelineCache dev hash s =
       (Inr (), log_event (LogInformation
                  ''A pipeline cache handler was not set to save the pipeline cache.'') s)"
    by (rule savePipelineCache_no_handler)
  assume "vkResult dev (device_calls s) = VK_SUCCESS \<and> vkResult dev (Suc (device_calls s)) = VK_SUCCESS"
  with none show "fst (getPipeline dev v s) = Inr (the_pipeline (snd (getPipeline dev v s)) (generateHash v))"
    by (simp add: getPipeline_no_handler_succeeds)
qed

theorem no_cache_handler_not_fatal_witness:
  "m_pCacheHandler plain_pipeline = None \<and>
   vkResult device_ok (device_calls plain_pipeline) = VK_SUCCESS \<and>
   vkResult device_ok (Suc (device_calls plain_pipeline)) = VK_SUCCESS \<and>
   fst (getPipeline device_ok position_only plain_pipeline) = Inr position_variant \<and>
   events (snd (loadPipelineCache device_ok 7 plain_pipeline)) =
     [LogInformation ''A pipeline cache handler was not set to load the pipeline cache.'',
      CreatePipelineCache []] \<and>
   events (snd (savePipelineCache device_ok 7 plain_pipeline)) =
     [LogInformation ''A pipeline cache handler was not set to save the pipeline cache.'']"
proof -
  have none: "m_pCacheHandler plain_pipeline = None"
    by (simp add: plain_pipeline_def)
  have ok: "vkResult device_ok (device_calls plain_pipeline) = VK_SUCCESS \<and>
      vkResult device_ok (Suc (device_calls plain_pipeline)) = VK_SUCCESS"
    by (simp add: device_ok_def always_success_def)
  have known: "vkResult device_ok (device_calls plain_pipeline) \<noteq> VK_ERROR_UNKNOWN"
    by (simp add: device_ok_def always_success_def VK_SUCCESS_def VK_ERROR_UNKNOWN_def)
  have run: "getPipeline device_ok position_only plain_pipeline = (Inr position_variant, compiled_pipeline)"
    by (simp add: pipeline_eval)
  from no_cache_handler_not_fatal [of plain_pipeline device_ok 7 position_only] none ok
  have a: "events (snd (loadPipelineCache device_ok 7 plain_pipeline)) =
       events plain_pipeline @
       [LogInformation ''A pipeline cache handler was not set to load the pipeline cache.'',
        CreatePipelineCache []] @
       (if vkResult device_ok (device_calls plain_pipeline) = VK_ERROR_UNKNOWN
        then [LogError ''Unknown Vulkan error caught while creating the pipeline cache object! Trying without the cache data.'',
              CreatePipelineCache []]
        else [])"
    and b: "savePipelineCache device_ok 7 plain_pipeline =
       (Inr (), log_event (LogInformation
                  ''A pipeline cache handler was not set to save the pipeline cache.'') plain_pipeline)"
    and c: "fst (getPipeline device_ok position_only plain_pipeline) =
       Inr (the_pipeline (snd (getPipeline device_ok position_only plain_pipeline)) (generateHash position_only))"
    by blast+
  from a known have a': "events (snd (loadPipelineCache device_ok 7 plain_pipeline)) =
     [LogInformation ''A pipeline cache handler was not set to load the pipeline cache.'',
      CreatePipelineCache []]"
    by (simp add: plain_pipeline_def)
  from b have b': "events (snd (savePipelineCache device_ok 7 plain_pipeline)) =
     [LogInformation ''A pipeline cache handler was not set to save the pipeline cache.'']"
    by (simp add: log_event_def plain_pipeline_def)
  from c run have c': "fst (getPipeline device_ok position_only plain_pipeline) = Inr position_variant"
    by simp
  from none ok a' b' c' show ?thesis by simp
qed

subsection \<open>Descriptor bindings and vertex inputs\<close>

lemma GetShaderBindings_map:
  "fst (GetShaderBindings cv shader m bs as type) = foldl (merge_resource type) m (getResources shader)"
  by (simp add: GetShaderBindings_def Let_def split: prod.splits)

lemma foldl_merge_resource_pairs:
  "foldl (merge_resource type) m rs =
     foldl (\<lambda>m (type, resource). merge_resource type m resource) m (map (Pair type) rs)"
  by (induction rs arbitrary: m) simp_all

lemma merge_stages_declarations:
  "merge_stages cv m stages =
     foldl (\<lambda>m (type, resource). merge_resource type m resource) m (declarations stages)"
proof (induction stages arbitrary: m)
  case Nil
  then show ?case by (simp add: merge_stages_def declarations_def)
next
  case (Cons st stages)
  obtain type shader where st: "st = (type, shader)" by (cases st)
  have "merge_stages cv m (st # stages) =
      merge_stages cv (foldl (merge_resource type) m (getResources shader)) stages"
    by (simp add: merge_stages_def st GetShaderBindings_map)
  also have "\<dots> = foldl (\<lambda>m (type, resource). merge_resource type m resource)
      (foldl (merge_resource type) m (getResources shader)) (declarations stages)"
    by (rule Cons.IH)
  also have "\<dots> = foldl (\<lambda>m (type, resource). merge_resource type m resource) m
      (declarations (st # stages))"
    by (simp add: declarations_def st foldl_merge_resource_pairs)
  finally show ?case .
qed

lemma lookup_merge_resource:
  "lookup_binding (merge_resource type m r) dset b =
     (if dset = m_Set r \<and> b = m_Binding r
      then Some (case lookup_binding m dset b of
                   Some info \<Rightarrow> info\<lparr>m_ApplicableShaders := m_ApplicableShaders info OR type\<rparr>
                 | None \<Rightarrow> \<lparr>m_BindingType = m_Type r, m_ApplicableShaders = type\<rparr>)
      else lookup_binding m dset b)"
  by (auto simp: lookup_binding_def merge_resource_def Let_def split: option.splits)

lemma foldl_or: "foldl (OR) (a :: ShaderType) ts = a OR foldl (OR) 0 ts"
proof (induction ts arbitrary: a)
  case Nil
  then show ?case by simp
next
  case (Cons t ts)
  have "foldl (OR) a (t # ts) = foldl (OR) (a OR t) ts" by simp
  also have "\<dots> = (a OR t) OR foldl (OR) 0 ts" by (rule Cons.IH)
  also have "\<dots> = a OR (t OR foldl (OR) 0 ts)" by (simp add: or.assoc)
  also have "t OR foldl (OR) 0 ts = foldl (OR) t ts" by (rule Cons.IH [symmetric])
  finally show ?case by simp
qed

lemma or_mask_Cons: "or_mask (t # ts) = t OR or_mask ts"
  using foldl_or [of t ts] by (simp add: or_mask_def)

lemma or_mask_Nil: "or_mask [] = 0"
  by (simp add: or_mask_def)

lemma lookup_foldl_merge:
  "lookup_binding (foldl (\<lambda>m (type, resource). merge_resource type m resource) m decls) dset b =
     (let ds = filter (\<lambda>(type, resource). m_Set resource = dset \<and> m_Binding resource = b) decls
      in case lookup_binding m dset b of
           Some info \<Rightarrow>
             Some (info\<lparr>m_ApplicableShaders := m_ApplicableShaders info OR or_mask (map fst ds)\<rparr>)
         | None \<Rightarrow>
             (if ds = [] then None
              else Some \<lparr>m_BindingType = m_Type (snd (hd ds)),
                         m_ApplicableShaders = or_mask (map fst ds)\<rparr>))"
proof (induction decls arbitrary: m)
  case Nil
  then show ?case
    by (simp add: or_mask_Nil split: option.splits)
next
  case (Cons d decls)
  obtain type r where d: "d = (type, r)" by (cases d)
  show ?case
    by (simp add: d Cons.IH lookup_merge_resource or_mask_Cons or_mask_Nil Let_def or.assoc
        split: option.splits)
qed

text \<open>
  C7. Merging the resource lists of any sequence of stages into an empty binding map
  leaves, for every (set, binding) pair, no entry when no stage declares the pair and
  otherwise the one entry of the map at that pair: its resource type is the type of the
  first declaration, its stage mask the bitwise OR of the types of all declaring stages.
\<close>

theorem merge_stages_or_mask:
  "lookup_binding (merge_stages cv Map.empty stages) dset b =
     (if declaring dset b stages = [] then None
      else Some \<lparr>m_BindingType = m_Type (snd (hd (declaring dset b stages))),
                 m_ApplicableShaders = or_mask (map fst (declaring dset b stages))\<rparr>)"
  by (simp add: merge_stages_declarations lookup_foldl_merge declaring_def Let_def
      lookup_binding_def [of Map.empty])


theorem merge_stages_or_mask_witness:
  "declaring Scene 0 [(ShaderType_Vertex, scene_vertex_shader), (ShaderType_Fragment, scene_fragment_shader)] \<noteq> [] \<and>
   lookup_binding
     (merge_stages sample_conventions Map.empty
        [(ShaderType_Vertex, scene_vertex_shader), (ShaderType_Fragment, scene_fragment_shader)])
     Scene 0 =
     Some \<lparr>m_BindingType = 3, m_ApplicableShaders = ShaderType_Vertex OR ShaderType_Fragment\<rparr> \<and>
   declaring Scene 1 [(ShaderType_Vertex, scene_vertex_shader), (ShaderType_Fragment, scene_fragment_shader)] = [] \<and>
   lookup_binding
     (merge_stages sample_conventions Map.empty
        [(ShaderType_Vertex, scene_vertex_shader), (ShaderType_Fragment, scene_fragment_shader)])
     Scene 1 = None"
proof -
  let ?stages = "[(ShaderType_Vertex, scene_vertex_shader), (ShaderType_Fragment, scene_fragment_shader)]"
  have d0: "declaring Scene 0 ?stages =
      [(ShaderType_Vertex, \<lparr>m_Binding = 0, m_Set = Scene, m_Type = 3, m_Operations = 1\<rparr>),
       (ShaderType_Fragment, \<lparr>m_Binding = 0, m_Set = Scene, m_Type = 5, m_Operations = 1\<rparr>)]"
    by (simp add: declaring_def declarations_def scene_vertex_shader_def scene_fragment_shader_def)
  have d1: "declaring Scene 1 ?stages = []"
    by (simp add: declaring_def declarations_def scene_vertex_shader_def scene_fragment_shader_def)
  from merge_stages_or_mask [of sample_conventions ?stages Scene 0] d0
  have a: "lookup_binding (merge_stages sample_conventions Map.empty ?stages) Scene 0 =
     Some \<lparr>m_BindingType = 3, m_ApplicableShaders = ShaderType_Vertex OR ShaderType_Fragment\<rparr>"
    by (simp add: or_mask_def)
  from merge_stages_or_mask [of sample_conventions ?stages Scene 1] d1
  have b: "lookup_binding (merge_stages sample_conventions Map.empty ?stages) Scene 1 = None"
    by simp
  from d0 d1 a b show ?thesis by simp
qed

lemma binding_input_attribute:
  "binding (input_attribute cv input) = (if IsVertexElement cv (m_Location input) then 0 else 1)"
  by (simp add: input_attribute_def Let_def)

lemma foldl_input_step:
  "foldl (input_step cv) (as, h) inputs =
     (as @ map (input_attribute cv) inputs,
      h \<or> (\<exists>input \<in> set inputs. \<not> IsVertexElement cv (m_Location input)))"
  by (induction inputs arbitrary: as h) (auto simp: input_step_def binding_input_attribute Let_def)

lemma GetShaderBindings_inputs:
  "type AND ShaderType_Vertex \<noteq> 0 \<Longrightarrow>
   snd (GetShaderBindings cv shader m bs as type) =
     (bs @ (if \<exists>input \<in> set (getInputAttributes shader). \<not> IsVertexElement cv (m_Location input)
            then [\<lparr>input_binding = 1, stride = sizeof_InstanceEntry cv,
                   inputRate = VK_VERTEX_INPUT_RATE_INSTANCE\<rparr>]
            else []),
      as @ map (input_attribute cv) (getInputAttributes shader))"
  by (simp add: GetShaderBindings_def foldl_input_step Let_def)

lemma GetShaderBindings_no_inputs:
  "type AND ShaderType_Vertex = 0 \<Longrightarrow> snd (GetShaderBindings cv shader m bs as type) = (bs, as)"
  by (simp add: GetShaderBindings_def Let_def)

lemma foldl_resolve_attribute:
  "foldl (resolve_attribute vs) (acc, h) attrs =
     (acc @ map (resolved_attribute vs) attrs, h \<or> (\<exists>a \<in> set attrs. populated vs a))"
  by (induction attrs arbitrary: acc h)
    (auto simp: resolve_attribute_def resolved_attribute_def populated_def Let_def)

lemma reflect_shaders_inputs:
  "snd (reflect_shaders cv vsh fsh) =
     (if isValid vsh
      then ((if \<exists>input \<in> set (getInputAttributes vsh). \<not> IsVertexElement cv (m_Location input)
             then [\<lparr>input_binding = 1, stride = sizeof_InstanceEntry cv,
                    inputRate = VK_VERTEX_INPUT_RATE_INSTANCE\<rparr>]
             else []),
            map (input_attribute cv) (getInputAttributes vsh))
      else ([], []))"
proof -
  have v: "ShaderType_Vertex AND ShaderType_Vertex \<noteq> 0"
    by (simp add: ShaderType_Vertex_def)
  have f: "ShaderType_Fragment AND ShaderType_Vertex = 0"
    by (simp add: ShaderType_Vertex_def ShaderType_Fragment_def)
  have vert: "snd (GetShaderBindings cv vsh m [] [] ShaderType_Vertex) =
     ((if \<exists>input \<in> set (getInputAttributes vsh). \<not> IsVertexElement cv (m_Location input)
       then [\<lparr>input_binding = 1, stride = sizeof_InstanceEntry cv,
              inputRate = VK_VERTEX_INPUT_RATE_INSTANCE\<rparr>]
       else []),
      map (input_attribute cv) (getInputAttributes vsh))" for m
    using GetShaderBindings_inputs [OF v, of cv vsh m "[]" "[]"] by simp
  have frag: "snd (GetShaderBindings cv fsh m bs as ShaderType_Fragment) = (bs, as)" for m bs as
    by (rule GetShaderBindings_no_inputs [OF f])
  show ?thesis
  proof (cases "isValid vsh")
    case True
    obtain m1 bs1 as1 where g: "GetShaderBindings cv vsh Map.empty [] [] ShaderType_Vertex = (m1, bs1, as1)"
      by (cases "GetShaderBindings cv vsh Map.empty [] [] ShaderType_Vertex") auto
    with vert [of Map.empty] have r: "(bs1, as1) =
       ((if \<exists>input \<in> set (getInputAttributes vsh). \<not> IsVertexElement cv (m_Location input)
         then [\<lparr>input_binding = 1, stride = sizeof_InstanceEntry cv,
                inputRate = VK_VERTEX_INPUT_RATE_INSTANCE\<rparr>]
         else []),
        map (input_attribute cv) (getInputAttributes vsh))"
      by simp
    show ?thesis
    proof (cases "isValid fsh")
      case False
      with True g r show ?thesis
        by (simp add: reflect_shaders_def)
    next
      case fv: True
      have "snd (reflect_shaders cv vsh fsh) = snd (GetShaderBindings cv fsh m1 bs1 as1 ShaderType_Fragment)"
        using True fv g by (simp add: reflect_shaders_def)
      also have "\<dots> = (bs1, as1)" by (rule frag)
      finally show ?thesis using True r by simp
    qed
  next
    case False
    show ?thesis
    proof (cases "isValid fsh")
      case True
      have "snd (reflect_shaders cv vsh fsh) = snd (GetShaderBindings cv fsh Map.empty [] [] ShaderType_Fragment)"
        using True False by (simp add: reflect_shaders_def)
      also have "\<dots> = ([], [])" by (rule frag)
      finally show ?thesis using False by simp
    next
      case fv: False
      with False show ?thesis by (simp add: reflect_shaders_def)
    qed
  qed
qed

lemma mset_sort_by_offset: "mset (sort_by_offset ties attributes) = mset attributes"
proof -
  have "image_mset snd (mset (enumerate 0 attributes)) = mset (map snd (enumerate 0 attributes))"
    by (rule mset_map [symmetric])
  then have "image_mset snd (mset (enumerate 0 attributes)) = mset attributes"
    by (simp only: map_snd_enumerate)
  then show ?thesis
    by (simp add: sort_by_offset_def)
qed

lemma sorted_sort_by_offset: "sorted (map offset (sort_by_offset ties attributes))"
proof -
  let ?zs = "sort_key (\<lambda>(i, attribute). ties attributes i) (enumerate 0 attributes)"
  have "map offset (sort_by_offset ties attributes) =
      map (\<lambda>(i, attribute). offset attribute) (sort_key (\<lambda>(i, attribute). offset attribute) ?zs)"
    by (simp add: sort_by_offset_def case_prod_unfold)
  then show ?thesis
    by (simp only: sorted_sort_key)
qed

lemma setup_inputs_eq:
  "setup_inputs dev vs s p =
     p\<lparr>m_InputAttributeDescriptions :=
         sort_by_offset (sort_ties dev) (map (resolved_attribute vs) (m_VertexInputAttributes s)),
       m_InputBindingDescriptions :=
         m_VertexInputBindings s @
         (if \<exists>a \<in> set (m_VertexInputAttributes s). populated vs a
          then [\<lparr>input_binding = 0, stride = getSize vs, inputRate = VK_VERTEX_INPUT_RATE_VERTEX\<rparr>]
          else [])\<rparr>"
  by (simp add: setup_inputs_def foldl_resolve_attribute)

lemma GetElementFormat_table:
  "map (GetElementFormat 1) [Uint8, Uint16, Uint32, Uint64, Int8, Int16, Int32, Int64, Float] =
     [VK_FORMAT_R8_UINT, VK_FORMAT_R16_UINT, VK_FORMAT_R32_UINT, VK_FORMAT_R64_UINT,
      VK_FORMAT_R8_SINT, VK_FORMAT_R16_SINT, VK_FORMAT_R32_SINT, VK_FORMAT_R64_SINT,
      VK_FORMAT_R32_SFLOAT]"
  "map (GetElementFormat 2) [Uint8, Uint16, Uint32, Uint64, Int8, Int16, Int32, Int64, Float] =
     [VK_FORMAT_R8G8_UINT, VK_FORMAT_R16G16_UINT, VK_FORMAT_R32G32_UINT, VK_FORMAT_R64G64_UINT,
      VK_FORMAT_R8G8_SINT, VK_FORMAT_R16G16_SINT, VK_FORMAT_R32G32_SINT, VK_FORMAT_R64G64_SINT,
      VK_FORMAT_R32G32_SFLOAT]"
  "map (GetElementFormat 3) [Uint8, Uint16, Uint32, Uint64, Int8, Int16, Int32, Int64, Float] =
     [VK_FORMAT_R8G8B8_UINT, VK_FORMAT_R16G16B16_UINT, VK_FORMAT_R32G32B32_UINT,
      VK_FORMAT_R64G64B64_UINT, VK_FORMAT_R8G8B8_SINT, VK_FORMAT_R16G16B16_SINT,
      VK_FORMAT_R32G32B32_SINT, VK_FORMAT_R64G64B64_SINT, VK_FORMAT_R32G32B32_SFLOAT]"
  "map (GetElementFormat 4) [Uint8, Uint16, Uint32, Uint64, Int8, Int16, Int32, Int64, Float] =
     [VK_FORMAT_R8G8B8A8_UNORM, VK_FORMAT_R16G16B16A16_UINT, VK_FORMAT_R32G32B32A32_UINT,
      VK_FORMAT_R64G64B64A64_UINT, VK_FORMAT_R8G8B8A8_SNORM, VK_FORMAT_R16G16B16A16_SINT,
      VK_FORMAT_R32G32B32A32_SINT, VK_FORMAT_R64G64B64A64_SINT, VK_FORMAT_R32G32B32A32_SFLOAT]"
  "GetElementFormat componentCount (OtherComponentDataType k) = VK_FORMAT_UNDEFINED"
  "componentCount \<noteq> 1 \<and> componentCount \<noteq> 2 \<and> componentCount \<noteq> 3 \<and> componentCount \<noteq> 4 \<longrightarrow>
     GetElementFormat componentCount dataType = VK_FORMAT_UNDEFINED"
  by (simp_all add: GetElementFormat_def)

text \<open>
  C8. The constructor takes the input attributes from the vertex shader, and the
  instance binding (binding 1, per-instance rate, stride the size of the instance record)
  exactly when the shader declares an input that is not a vertex element. A newly compiled
  variant holds exactly these attributes, each as the loop resolves it, in an order of
  ascending offset (the order among equal offsets is the library's); the vertex binding
  (binding 0, per-vertex rate, stride the size of the layout) follows the pipeline's
  bindings exactly when at least one attribute was filled from the layout; and these are
  the inputs the device compiles the pipeline with. An attribute of a binding other than
  1 whose element is available in the layout takes the layout's offset of the element and
  the format of its component count and component type, and every other attribute is
  kept; the format is the one of the table of \<open>GetElementFormat\<close>, undefined
  outside it.
\<close>

theorem vertex_input_layout:
  "snd (reflect_shaders cv vsh fsh) =
     (if isValid vsh
      then ((if \<exists>input \<in> set (getInputAttributes vsh). \<not> IsVertexElement cv (m_Location input)
             then [\<lparr>input_binding = 1, stride = sizeof_InstanceEntry cv,
                    inputRate = VK_VERTEX_INPUT_RATE_INSTANCE\<rparr>]
             else []),
            map (input_attribute cv) (getInputAttributes vsh))
      else ([], [])) \<and>
   (m_Pipelines s (generateHash vs) = None \<and> getPipeline dev vs s = (Inr p, s') \<longrightarrow>
      mset (m_InputAttributeDescriptions p) =
        mset (map (resolved_attribute vs) (m_VertexInputAttributes s)) \<and>
      sorted (map offset (m_InputAttributeDescriptions p)) \<and>
      m_InputBindingDescriptions p =
        m_VertexInputBindings s @
        (if \<exists>a \<in> set (m_VertexInputAttributes s). populated vs a
         then [\<lparr>input_binding = 0, stride = getSize vs, inputRate = VK_VERTEX_INPUT_RATE_VERTEX\<rparr>]
         else []) \<and>
      CreateGraphicsPipelines (m_PipelineCache p) (m_InputBindingDescriptions p)
        (m_InputAttributeDescriptions p) \<in> set (events s')) \<and>
   resolved_attribute vs a =
     (if binding a \<noteq> 1 \<and> isAvailable vs (location a)
      then \<lparr>location = location a, binding = binding a,
            format = GetElementFormat (getElementComponentCount vs (location a))
                       (getElementComponentDataType vs (location a)),
            offset = offsetOf vs (location a)\<rparr>
      else a) \<and>
   map (GetElementFormat 1) [Uint8, Uint16, Uint32, Uint64, Int8, Int16, Int32, Int64, Float] =
     [VK_FORMAT_R8_UINT, VK_FORMAT_R16_UINT, VK_FORMAT_R32_UINT, VK_FORMAT_R64_UINT,
      VK_FORMAT_R8_SINT, VK_FORMAT_R16_SINT, VK_FORMAT_R32_SINT, VK_FORMAT_R64_SINT,
      VK_FORMAT_R32_SFLOAT] \<and>
   map (GetElementFormat 2) [Uint8, Uint16, Uint32, Uint64, Int8, Int16, Int32, Int64, Float] =
     [VK_FORMAT_R8G8_UINT, VK_FORMAT_R16G16_UINT, VK_FORMAT_R32G32_UINT, VK_FORMAT_R64G64_UINT,
      VK_FORMAT_R8G8_SINT, VK_FORMAT_R16G16_SINT, VK_FORMAT_R32G32_SINT, VK_FORMAT_R64G64_SINT,
      VK_FORMAT_R32G32_SFLOAT] \<and>
   map (GetElementFormat 3) [Uint8, Uint16, Uint32, Uint64, Int8, Int16, Int32, Int64, Float] =
     [VK_FORMAT_R8G8B8_UINT, VK_FORMAT_R16G16B16_UINT, VK_FORMAT_R32G32B32_UINT,
      VK_FORMAT_R64G64B64_UINT, VK_FORMAT_R8G8B8_SINT, VK_FORMAT_R16G16B16_SINT,
      VK_FORMAT_R32G32B32_SINT, VK_FORMAT_R64G64B64_SINT, VK_FORMAT_R32G32B32_SFLOAT] \<and>
   map (GetElementFormat 4) [Uint8, Uint16, Uint32, Uint64, Int8, Int16, Int32, Int64, Float] =
     [VK_FORMAT_R8G8B8A8_UNORM, VK_FORMAT_R16G16B16A16_UINT, VK_FORMAT_R32G32B32A32_UINT,
      VK_FORMAT_R64G64B64A64_UINT, VK_FORMAT_R8G8B8A8_SNORM, VK_FORMAT_R16G16B16A16_SINT,
      VK_FORMAT_R32G32B32A32_SINT, VK_FORMAT_R64G64B64A64_SINT, VK_FORMAT_R32G32B32A32_SFLOAT] \<and>
   GetElementFormat componentCount (OtherComponentDataType k) = VK_FORMAT_UNDEFINED \<and>
   (componentCount \<noteq> 1 \<and> componentCount \<noteq> 2 \<and> componentCount \<noteq> 3 \<and> componentCount \<noteq> 4 \<longrightarrow>
      GetElementFormat componentCount dataType = VK_FORMAT_UNDEFINED)"
proof -
  have inputs: "snd (reflect_shaders cv vsh fsh) =
     (if isValid vsh
      then ((if \<exists>input \<in> set (getInputAttributes vsh). \<not> IsVertexElement cv (m_Location input)
             then [\<lparr>input_binding = 1, stride = sizeof_InstanceEntry cv,
                    inputRate = VK_VERTEX_INPUT_RATE_INSTANCE\<rparr>]
             else []),
            map (input_attribute cv) (getInputAttributes vsh))
      else ([], []))"
    by (rule reflect_shaders_inputs)
  have variant: "mset (m_InputAttributeDescriptions p) =
        mset (map (resolved_attribute vs) (m_VertexInputAttributes s)) \<and>
      sorted (map offset (m_InputAttributeDescriptions p)) \<and>
      m_InputBindingDescriptions p =
        m_VertexInputBindings s @
        (if \<exists>a \<in> set (m_VertexInputAttributes s). populated vs a
         then [\<lparr>input_binding = 0, stride = getSize vs, inputRate = VK_VERTEX_INPUT_RATE_VERTEX\<rparr>]
         else []) \<and>
      CreateGraphicsPipelines (m_PipelineCache p) (m_InputBindingDescriptions p)
        (m_InputAttributeDescriptions p) \<in> set (events s')"
    if "m_Pipelines s (generateHash vs) = None \<and> getPipeline dev vs s = (Inr p, s')"
  proof -
    from that have fresh: "m_Pipelines s (generateHash vs) = None"
      and ok: "getPipeline dev vs s = (Inr p, s')"
      by simp_all
    note p = getPipeline_fresh(3) [OF fresh ok]
    have attrs: "m_InputAttributeDescriptions p =
        sort_by_offset (sort_ties dev) (map (resolved_attribute vs) (m_VertexInputAttributes s))"
      by (subst p) (simp add: setup_inputs_eq)
    have binds: "m_InputBindingDescriptions p =
        m_VertexInputBindings s @
        (if \<exists>a \<in> set (m_VertexInputAttributes s). populated vs a
         then [\<lparr>input_binding = 0, stride = getSize vs, inputRate = VK_VERTEX_INPUT_RATE_VERTEX\<rparr>]
         else [])"
      by (subst p) (simp add: setup_inputs_eq)
    show ?thesis
      using binds getPipeline_fresh(4) [OF fresh ok]
      by (simp add: attrs mset_sort_by_offset sorted_sort_by_offset del: mset_map)
  qed
  have resolved: "resolved_attribute vs a =
     (if binding a \<noteq> 1 \<and> isAvailable vs (location a)
      then \<lparr>location = location a, binding = binding a,
            format = GetElementFormat (getElementComponentCount vs (location a))
                       (getElementComponentDataType vs (location a)),
            offset = offsetOf vs (location a)\<rparr>
      else a)"
    by (simp add: resolved_attribute_def populated_def)
  from inputs variant resolved GetElementFormat_table(1-4)
    GetElementFormat_table(5) [of componentCount k]
    GetElementFormat_table(6) [of componentCount dataType]
  show ?thesis
    by (intro conjI impI) (assumption | blast)+
qed


theorem vertex_input_layout_witness:
  "m_Pipelines instanced_pipeline (generateHash position_color) = None \<and>
   fst (getPipeline device_ok position_color instanced_pipeline) = Inr instanced_variant \<and>
   fst (getPipeline device_other_ties position_color instanced_pipeline) = Inr reordered_variant \<and>
   mset (m_InputAttributeDescriptions instanced_variant) =
     mset (m_InputAttributeDescriptions reordered_variant) \<and>
   m_InputAttributeDescriptions instanced_variant \<noteq> m_InputAttributeDescriptions reordered_variant \<and>
   sorted (map offset (m_InputAttributeDescriptions instanced_variant)) \<and>
   sorted (map offset (m_InputAttributeDescriptions reordered_variant)) \<and>
   CreateGraphicsPipelines 1
     [\<lparr>input_binding = 1, stride = 40, inputRate = VK_VERTEX_INPUT_RATE_INSTANCE\<rparr>,
      \<lparr>input_binding = 0, stride = 16, inputRate = VK_VERTEX_INPUT_RATE_VERTEX\<rparr>]
     [\<lparr>location = 28, binding = 1, format = VK_FORMAT_R32G32B32_SFLOAT, offset = 0\<rparr>,
      \<lparr>location = 0, binding = 0, format = VK_FORMAT_R32G32B32_SFLOAT, offset = 0\<rparr>,
      \<lparr>location = 1, binding = 0, format = VK_FORMAT_R8G8B8A8_UNORM, offset = 12\<rparr>]
     \<in> set (events (snd (getPipeline device_ok position_color instanced_pipeline))) \<and>
   CreateGraphicsPipelines 1
     [\<lparr>input_binding = 1, stride = 40, inputRate = VK_VERTEX_INPUT_RATE_INSTANCE\<rparr>,
      \<lparr>input_binding = 0, stride = 16, inputRate = VK_VERTEX_INPUT_RATE_VERTEX\<rparr>]
     [\<lparr>location = 0, binding = 0, format = VK_FORMAT_R32G32B32_SFLOAT, offset = 0\<rparr>,
      \<lparr>location = 28, binding = 1, format = VK_FORMAT_R32G32B32_SFLOAT, offset = 0\<rparr>,
      \<lparr>location = 1, binding = 0, format = VK_FORMAT_R8G8B8A8_UNORM, offset = 12\<rparr>]
     \<in> set (events (snd (getPipeline device_other_ties position_color instanced_pipeline))) \<and>
   resolved_attribute position_color
     \<lparr>location = 1, binding = 0, format = VK_FORMAT_UNDEFINED, offset = 0\<rparr> =
     \<lparr>location = 1, binding = 0, format = VK_FORMAT_R8G8B8A8_UNORM, offset = 12\<rparr> \<and>
   resolved_attribute position_color
     \<lparr>location = 28, binding = 1, format = VK_FORMAT_R32G32B32_SFLOAT, offset = 0\<rparr> =
     \<lparr>location = 28, binding = 1, format = VK_FORMAT_R32G32B32_SFLOAT, offset = 0\<rparr> \<and>
   GetElementFormat 5 Float = VK_FORMAT_UNDEFINED \<and>
   GetElementFormat 4 (OtherComponentDataType 9) = VK_FORMAT_UNDEFINED \<and>
   snd (reflect_shaders sample_conventions scene_vertex_shader scene_fragment_shader) =
     ([\<lparr>input_binding = 1, stride = 40, inputRate = VK_VERTEX_INPUT_RATE_INSTANCE\<rparr>],
      [\<lparr>location = 0, binding = 0, format = VK_FORMAT_UNDEFINED, offset = 0\<rparr>,
       \<lparr>location = 28, binding = 1, format = VK_FORMAT_R32G32B32_SFLOAT, offset = 0\<rparr>])"
proof -
  let ?s1 = "snd (getPipeline device_ok position_color instanced_pipeline)"
  let ?s2 = "snd (getPipeline device_other_ties position_color instanced_pipeline)"
  let ?color = "\<lparr>location = 1, binding = 0, format = VK_FORMAT_UNDEFINED, offset = 0\<rparr>"
  let ?instance = "\<lparr>location = 28, binding = 1, format = VK_FORMAT_R32G32B32_SFLOAT, offset = 0\<rparr>"
  note run_simps = getPipeline_def loadPipelineCache_def createPipeline_def savePipelineCache_def
        vkCreatePipelineCache_def device_call_def log_event_def set_pipeline_def the_pipeline_def
        setup_inputs_def resolve_attribute_def sort_by_offset_def first_come_def last_come_def
        XENON_VK_ASSERT_def VK_SUCCESS_def
        VK_ERROR_UNKNOWN_def emptyPipelineStorage_def VK_NULL_HANDLE_def GetElementFormat_def
        Let_def device_ok_def device_other_ties_def always_success_def instanced_pipeline_def
        position_color_def
  have fresh: "m_Pipelines instanced_pipeline (generateHash position_color) = None"
    by (simp add: instanced_pipeline_def position_color_def)
  have run1: "fst (getPipeline device_ok position_color instanced_pipeline) = Inr instanced_variant"
    by (simp add: run_simps instanced_variant_def)
  have run2: "fst (getPipeline device_other_ties position_color instanced_pipeline) = Inr reordered_variant"
    by (simp add: run_simps reordered_variant_def)
  from run1 have ok1: "getPipeline device_ok position_color instanced_pipeline = (Inr instanced_variant, ?s1)"
    by (simp add: prod_eq_iff)
  from run2 have ok2: "getPipeline device_other_ties position_color instanced_pipeline = (Inr reordered_variant, ?s2)"
    by (simp add: prod_eq_iff)
  have inst: "\<exists>input \<in> set (getInputAttributes scene_vertex_shader).
      \<not> IsVertexElement sample_conventions (m_Location input)"
    by (simp add: scene_vertex_shader_def sample_conventions_def)
  have count: "(5::8 word) \<noteq> 1 \<and> (5::8 word) \<noteq> 2 \<and> (5::8 word) \<noteq> 3 \<and> (5::8 word) \<noteq> 4"
    by simp
  note first = vertex_input_layout
    [where cv = sample_conventions and vsh = scene_vertex_shader and fsh = scene_fragment_shader
       and s = instanced_pipeline and vs = position_color and dev = device_ok
       and p = instanced_variant and s' = ?s1 and a = ?color and componentCount = 5
       and k = 9 and dataType = Float]
  note other = vertex_input_layout
    [where cv = sample_conventions and vsh = scene_vertex_shader and fsh = scene_fragment_shader
       and s = instanced_pipeline and vs = position_color and dev = device_other_ties
       and p = reordered_variant and s' = ?s2 and a = ?instance and componentCount = 4
       and k = 9 and dataType = Float]
  from first fresh ok1
  have a1: "mset (m_InputAttributeDescriptions instanced_variant) =
        mset (map (resolved_attribute position_color) (m_VertexInputAttributes instanced_pipeline))"
    and b1: "sorted (map offset (m_InputAttributeDescriptions instanced_variant))"
    and c1: "CreateGraphicsPipelines (m_PipelineCache instanced_variant)
        (m_InputBindingDescriptions instanced_variant)
        (m_InputAttributeDescriptions instanced_variant) \<in> set (events ?s1)"
    by blast+
  from other fresh ok2
  have a2: "mset (m_InputAttributeDescriptions reordered_variant) =
        mset (map (resolved_attribute position_color) (m_VertexInputAttributes instanced_pipeline))"
    and b2: "sorted (map offset (m_InputAttributeDescriptions reordered_variant))"
    and c2: "CreateGraphicsPipelines (m_PipelineCache reordered_variant)
        (m_InputBindingDescriptions reordered_variant)
        (m_InputAttributeDescriptions reordered_variant) \<in> set (events ?s2)"
    by blast+
  from a1 a2 have same: "mset (m_InputAttributeDescriptions instanced_variant) =
     mset (m_InputAttributeDescriptions reordered_variant)"
    by (simp only:)
  have differ: "m_InputAttributeDescriptions instanced_variant \<noteq>
      m_InputAttributeDescriptions reordered_variant"
    by (simp add: instanced_variant_def reordered_variant_def)
  from c1 have c1': "CreateGraphicsPipelines 1
     [\<lparr>input_binding = 1, stride = 40, inputRate = VK_VERTEX_INPUT_RATE_INSTANCE\<rparr>,
      \<lparr>input_binding = 0, stride = 16, inputRate = VK_VERTEX_INPUT_RATE_VERTEX\<rparr>]
     [\<lparr>location = 28, binding = 1, format = VK_FORMAT_R32G32B32_SFLOAT, offset = 0\<rparr>,
      \<lparr>location = 0, binding = 0, format = VK_FORMAT_R32G32B32_SFLOAT, offset = 0\<rparr>,
      \<lparr>location = 1, binding = 0, format = VK_FORMAT_R8G8B8A8_UNORM, offset = 12\<rparr>]
     \<in> set (events ?s1)"
    by (simp add: instanced_variant_def)
  from c2 have c2': "CreateGraphicsPipelines 1
     [\<lparr>input_binding = 1, stride = 40, inputRate = VK_VERTEX_INPUT_RATE_INSTANCE\<rparr>,
      \<lparr>input_binding = 0, stride = 16, inputRate = VK_VERTEX_INPUT_RATE_VERTEX\<rparr>]
     [\<lparr>location = 0, binding = 0, format = VK_FORMAT_R32G32B32_SFLOAT, offset = 0\<rparr>,
      \<lparr>location = 28, binding = 1, format = VK_FORMAT_R32G32B32_SFLOAT, offset = 0\<rparr>,
      \<lparr>location = 1, binding = 0, format = VK_FORMAT_R8G8B8A8_UNORM, offset = 12\<rparr>]
     \<in> set (events ?s2)"
    by (simp add: reordered_variant_def)
  from first have "resolved_attribute position_color ?color =
     (if binding ?color \<noteq> 1 \<and> isAvailable position_color (location ?color)
      then \<lparr>location = location ?color, binding = binding ?color,
            format = GetElementFormat (getElementComponentCount position_color (location ?color))
                       (getElementComponentDataType position_color (location ?color)),
            offset = offsetOf position_color (location ?color)\<rparr>
      else ?color)"
    and table4: "map (GetElementFormat 4) [Uint8, Uint16, Uint32, Uint64, Int8, Int16, Int32, Int64, Float] =
     [VK_FORMAT_R8G8B8A8_UNORM, VK_FORMAT_R16G16B16A16_UINT, VK_FORMAT_R32G32B32A32_UINT,
      VK_FORMAT_R64G64B64A64_UINT, VK_FORMAT_R8G8B8A8_SNORM, VK_FORMAT_R16G16B16A16_SINT,
      VK_FORMAT_R32G32B32A32_SINT, VK_FORMAT_R64G64B64A64_SINT, VK_FORMAT_R32G32B32A32_SFLOAT]"
    and undefined_count: "GetElementFormat 5 Float = VK_FORMAT_UNDEFINED"
    and c: "snd (reflect_shaders sample_conventions scene_vertex_shader scene_fragment_shader) =
     (if isValid scene_vertex_shader
      then ((if \<exists>input \<in> set (getInputAttributes scene_vertex_shader).
                  \<not> IsVertexElement sample_conventions (m_Location input)
             then [\<lparr>input_binding = 1, stride = sizeof_InstanceEntry sample_conventions,
                    inputRate = VK_VERTEX_INPUT_RATE_INSTANCE\<rparr>]
             else []),
            map (input_attribute sample_conventions) (getInputAttributes scene_vertex_shader))
      else ([], []))"
    using count by blast+
  with table4 have d1: "resolved_attribute position_color ?color =
     \<lparr>location = 1, binding = 0, format = VK_FORMAT_R8G8B8A8_UNORM, offset = 12\<rparr>"
    by (simp add: position_color_def)
  from other have "resolved_attribute position_color ?instance =
     (if binding ?instance \<noteq> 1 \<and> isAvailable position_color (location ?instance)
      then \<lparr>location = location ?instance, binding = binding ?instance,
            format = GetElementFormat (getElementComponentCount position_color (location ?instance))
                       (getElementComponentDataType position_color (location ?instance)),
            offset = offsetOf position_color (location ?instance)\<rparr>
      else ?instance)"
    and undefined_type: "GetElementFormat 4 (OtherComponentDataType 9) = VK_FORMAT_UNDEFINED"
    by blast+
  then have d2: "resolved_attribute position_color ?instance = ?instance"
    by simp
  from c inst have c': "snd (reflect_shaders sample_conventions scene_vertex_shader scene_fragment_shader) =
     ([\<lparr>input_binding = 1, stride = 40, inputRate = VK_VERTEX_INPUT_RATE_INSTANCE\<rparr>],
      [\<lparr>location = 0, binding = 0, format = VK_FORMAT_UNDEFINED, offset = 0\<rparr>,
       \<lparr>location = 28, binding = 1, format = VK_FORMAT_R32G32B32_SFLOAT, offset = 0\<rparr>])"
    by (simp add: scene_vertex_shader_def sample_conventions_def input_attribute_def Let_def)
  from fresh run1 run2 same differ b1 b2 c1' c2' d1 d2 undefined_count undefined_type c'
  show ?thesis by (intro conjI) assumption+
qed

section \<open>Properties of the DX12 buffer\<close>

lemma asserted_ok:
  "succeeds env (platform_calls dev) \<Longrightarrow>
   asserted env msg continue dev = continue (dev\<lparr>platform_calls := Suc (platform_calls dev)\<rparr>)"
  by (simp add: asserted_def platform_call_def XENON_DX12_ASSERT_def)

lemma exec_lists_split:
  "exec_lists (drop k ls) (exec_lists (take k ls) mem) = exec_lists ls mem"
proof -
  have "exec_lists ls mem = exec_lists (take k ls @ drop k ls) mem" by simp
  also have "\<dots> = exec_lists (drop k ls) (exec_lists (take k ls) mem)"
    unfolding exec_lists_def by (simp only: concat_append foldl_append)
  finally show ?thesis by simp
qed

lemma exec_performCopy:
  "foldl exec_command mem (performCopy [] this src n srcOffset dstOffset) =
     exec_command mem (CopyBufferRegion (m_pAllocation this) dstOffset (m_pAllocation src) srcOffset n)"
  by (simp add: performCopy_def exec_command_def)

lemma copy_ok:
  assumes "\<forall>k. succeeds env k"
  shows "copy env this src n srcOffset dstOffset dev =
     (Inr (),
      dev\<lparr>memory := exec_lists (in_flight dev @ [performCopy [] this src n srcOffset dstOffset]) (memory dev),
          in_flight := [],
          platform_calls := platform_calls dev + 8\<rparr>)"
  using assms
  by (simp add: copy_def asserted_ok ExecuteCommandLists_def platform_call_def
      gpu_run_def exec_lists_split WaitForSingleObjectEx_def del: take_append drop_append)


lemma new_buffer_ok:
  assumes "\<forall>k. succeeds env k"
  shows "new_buffer env n heapType resourceStates dev =
     (Inr \<lparr>m_pAllocation = next_resource dev, m_Size = n, m_HeapType = heapType,
            m_CurrentState = resourceStates\<rparr>,
      dev\<lparr>memory := (memory dev)(next_resource dev := replicate n 0),
          next_resource := Suc (next_resource dev),
          platform_calls := platform_calls dev + 4\<rparr>)"
  using assms by (simp add: new_buffer_def asserted_ok)

lemma copy_idle:
  assumes "\<forall>k. succeeds env k" and "in_flight dev = []"
  shows "copy env this src n srcOffset dstOffset dev =
     (Inr (),
      dev\<lparr>memory := exec_command (memory dev)
            (CopyBufferRegion (m_pAllocation this) dstOffset (m_pAllocation src) srcOffset n),
          in_flight := [],
          platform_calls := platform_calls dev + 8\<rparr>)"
  using assms(2) by (simp add: copy_ok [OF assms(1)] exec_lists_def exec_performCopy)

lemma region_written:
  "n \<le> length pData \<Longrightarrow> offs + n \<le> length mem \<Longrightarrow>
   take n (drop offs (take offs mem @ take n pData @ drop (offs + n) mem)) = take n pData"
  by simp

lemma write_buffer_direct:
  assumes hv: "m_HeapType this = D3D12_HEAP_TYPE_UPLOAD \<and>
               m_CurrentState this = D3D12_RESOURCE_STATE_GENERIC_READ"
    and ready: "buffer_ready this dev"
    and n: "n \<le> length pData" and range: "offs + n \<le> m_Size this"
  shows "write_buffer env pData n offs None this dev =
     (Inr (this, None),
      dev\<lparr>memory := (memory dev)(m_pAllocation this :=
            take offs (memory dev (m_pAllocation this)) @ take n pData @
            drop (offs + n) (memory dev (m_pAllocation this)))\<rparr>)"
  using assms by (simp add: write_buffer_def copy_n_def buffer_ready_def)

lemma write_buffer_staged:
  assumes ok: "\<forall>k. succeeds env k"
    and staged: "\<not> (m_HeapType this = D3D12_HEAP_TYPE_UPLOAD \<and>
                     m_CurrentState this = D3D12_RESOURCE_STATE_GENERIC_READ)"
    and ready: "buffer_ready this dev"
    and n: "n \<le> length pData" and range: "offs + n \<le> m_Size this"
  shows "\<exists>this' dev'.
     write_buffer env pData n offs None this dev = (Inr (this', None), dev') \<and>
     m_pAllocation this' = m_pAllocation this \<and> m_Size this' = m_Size this \<and>
     buffer_ready this' dev' \<and>
     memory dev' (m_pAllocation this) =
       take offs (memory dev (m_pAllocation this)) @ take n pData @
       drop (offs + n) (memory dev (m_pAllocation this))"
proof (cases "m_pTemporaryWriteBuffer this")
  case None
  let ?t = "\<lparr>m_pAllocation = next_resource dev, m_Size = m_Size this,
            m_HeapType = D3D12_HEAP_TYPE_UPLOAD,
            m_CurrentState = D3D12_RESOURCE_STATE_GENERIC_READ\<rparr>"
  from ready have fresh: "next_resource dev \<noteq> m_pAllocation this"
    by (simp add: buffer_ready_def)
  show ?thesis
    using None staged ready n range fresh
    by (auto simp: write_buffer_def new_buffer_ok [OF ok] copy_n_def Let_def copy_idle [OF ok]
        buffer_ready_def temp_ready_def exec_command_def split: option.splits)
next
  case (Some t)
  show ?thesis
    using Some staged ready n range
    by (auto simp: write_buffer_def copy_n_def Let_def copy_idle [OF ok]
        buffer_ready_def temp_ready_def exec_command_def split: option.splits)
qed

lemma write_buffer_ok:
  assumes ok: "\<forall>k. succeeds env k"
    and ready: "buffer_ready this dev"
    and n: "n \<le> length pData" and range: "offs + n \<le> m_Size this"
  shows "\<exists>this' dev'.
     write_buffer env pData n offs None this dev = (Inr (this', None), dev') \<and>
     m_pAllocation this' = m_pAllocation this \<and> m_Size this' = m_Size this \<and>
     buffer_ready this' dev' \<and>
     memory dev' (m_pAllocation this) =
       take offs (memory dev (m_pAllocation this)) @ take n pData @
       drop (offs + n) (memory dev (m_pAllocation this))"
proof (cases "m_HeapType this = D3D12_HEAP_TYPE_UPLOAD \<and>
              m_CurrentState this = D3D12_RESOURCE_STATE_GENERIC_READ")
  case True
  have "buffer_ready this (dev\<lparr>memory := (memory dev)(m_pAllocation this :=
            take offs (memory dev (m_pAllocation this)) @ take n pData @
            drop (offs + n) (memory dev (m_pAllocation this)))\<rparr>)"
    using ready n range
    by (auto simp: buffer_ready_def temp_ready_def split: option.splits)
  then show ?thesis
    using write_buffer_direct [OF True ready n range, of env] by simp
next
  case False
  then show ?thesis
    by (rule write_buffer_staged [OF ok _ ready n range])
qed

lemma beginRead_ok:
  assumes ok: "\<forall>k. succeeds env k" and ready: "buffer_ready this dev"
  shows "\<exists>this' dev'.
     beginRead env this dev = (Inr (this', memory dev (m_pAllocation this)), dev') \<and>
     buffer_ready this' dev'"
proof (cases "m_pTemporaryReadBuffer this")
  case None
  from ready have fresh: "next_resource dev \<noteq> m_pAllocation this"
    by (simp add: buffer_ready_def)
  show ?thesis
    using None ready fresh
    by (auto simp: beginRead_def new_buffer_ok [OF ok] Let_def copy_idle [OF ok]
        buffer_ready_def temp_ready_def exec_command_def split: option.splits)
next
  case (Some t)
  show ?thesis
    using Some ready
    by (auto simp: beginRead_def Let_def copy_idle [OF ok]
        buffer_ready_def temp_ready_def exec_command_def split: option.splits)
qed

text \<open>
  C2. Write/read round trip. For a buffer in its state between operations, data of at
  least N bytes and an offset O with O + N within the size of the buffer: \<open>write\<close> of N
  bytes at O (with no command recorder, the default) returns, the \<open>beginRead\<close> that follows
  returns as many bytes as the buffer has, and the N bytes at O of what it returns are
  the N bytes written. This holds for every heap type and resource state of the buffer,
  so for the host-visible path and for the staged path alike, whether or not the
  temporary buffers exist already, for every platform whose calls succeed and however
  far the GPU has run ahead when \<open>ExecuteCommandLists\<close> returns.
\<close>

theorem write_read_round_trip:
  assumes "\<forall>k. succeeds env k" and "buffer_ready this dev"
    and "n \<le> length pData" and "offs + n \<le> m_Size this"
  shows "\<exists>this' dev' this'' bytes dev''.
     write_buffer env pData n offs None this dev = (Inr (this', None), dev') \<and>
     beginRead env this' dev' = (Inr (this'', bytes), dev'') \<and>
     endRead this'' dev'' = dev'' \<and>
     length bytes = m_Size this \<and>
     take n (drop offs bytes) = take n pData"
proof -
  from write_buffer_ok [OF assms] obtain this' dev' where
    w: "write_buffer env pData n offs None this dev = (Inr (this', None), dev')"
    and same: "m_pAllocation this' = m_pAllocation this"
    and ready': "buffer_ready this' dev'"
    and mem: "memory dev' (m_pAllocation this) =
       take offs (memory dev (m_pAllocation this)) @ take n pData @
       drop (offs + n) (memory dev (m_pAllocation this))"
    by blast
  from beginRead_ok [OF assms(1) ready'] obtain this'' dev'' where
    r: "beginRead env this' dev' = (Inr (this'', memory dev' (m_pAllocation this')), dev'')"
    by blast
  from assms(2) have len: "length (memory dev (m_pAllocation this)) = m_Size this"
    by (simp add: buffer_ready_def)
  let ?bytes = "memory dev' (m_pAllocation this')"
  have "length ?bytes = m_Size this"
    using assms(3,4) len by (simp add: same mem)
  moreover have "take n (drop offs ?bytes) = take n pData"
    unfolding same mem using assms(3,4) len by (intro region_written) simp_all
  ultimately show ?thesis
    using w r by (auto simp: endRead_def)
qed


lemmas buffer_eval =
  write_buffer_def beginRead_def copy_def new_buffer_def copy_n_def asserted_def
  platform_call_def XENON_DX12_ASSERT_def ExecuteCommandLists_def WaitForSingleObjectEx_def
  gpu_run_def exec_lists_def exec_command_def performCopy_def needs_transition_def log_error_def
  reliable_platform_def no_event_platform_def staged_buffer_def upload_buffer_def
  idle_device_def sample_memory_def buffer_ready_def temp_ready_def Let_def
  D3D12_RESOURCE_STATE_COMMON_def D3D12_RESOURCE_STATE_GENERIC_READ_def
  D3D12_RESOURCE_STATE_COPY_DEST_def D3D12_RESOURCE_STATE_COPY_SOURCE_def

theorem write_read_round_trip_witness:
  "buffer_ready staged_buffer idle_device \<and> buffer_ready upload_buffer idle_device \<and>
   memory (snd (write_buffer reliable_platform [1, 2] 2 1 None staged_buffer idle_device)) 0 =
     [0, 1, 2, 0] \<and>
   (\<exists>this' dev' this'' bytes dev''.
      write_buffer reliable_platform [1, 2] 2 1 None staged_buffer idle_device =
        (Inr (this', None), dev') \<and>
      beginRead reliable_platform this' dev' = (Inr (this'', bytes), dev'') \<and>
      take 2 (drop 1 bytes) = [1, 2]) \<and>
   (\<exists>this' dev' this'' bytes dev''.
      write_buffer reliable_platform [1, 2] 2 1 None upload_buffer idle_device =
        (Inr (this', None), dev') \<and>
      beginRead reliable_platform this' dev' = (Inr (this'', bytes), dev'') \<and>
      take 2 (drop 1 bytes) = [1, 2])"
proof -
  have ok: "\<forall>k. succeeds reliable_platform k"
    by (simp add: reliable_platform_def)
  have r1: "buffer_ready staged_buffer idle_device"
    and r2: "buffer_ready upload_buffer idle_device"
    by (simp_all add: buffer_ready_def temp_ready_def staged_buffer_def upload_buffer_def
        idle_device_def sample_memory_def)
  have n: "2 \<le> length [1, 2 :: byte]" by simp
  have range1: "1 + 2 \<le> m_Size staged_buffer" by (simp add: staged_buffer_def)
  have range2: "1 + 2 \<le> m_Size upload_buffer" by (simp add: upload_buffer_def)
  have m: "memory (snd (write_buffer reliable_platform [1, 2] 2 1 None staged_buffer idle_device)) 0 =
     [0, 1, 2, 0]"
    by (simp add: buffer_eval)
  from write_read_round_trip [OF ok r1 n range1]
  have a: "\<exists>this' dev' this'' bytes dev''.
      write_buffer reliable_platform [1, 2] 2 1 None staged_buffer idle_device =
        (Inr (this', None), dev') \<and>
      beginRead reliable_platform this' dev' = (Inr (this'', bytes), dev'') \<and>
      take 2 (drop 1 bytes) = [1, 2]"
    by auto
  from write_read_round_trip [OF ok r2 n range2]
  have b: "\<exists>this' dev' this'' bytes dev''.
      write_buffer reliable_platform [1, 2] 2 1 None upload_buffer idle_device =
        (Inr (this', None), dev') \<and>
      beginRead reliable_platform this' dev' = (Inr (this'', bytes), dev'') \<and>
      take 2 (drop 1 bytes) = [1, 2]"
    by auto
  from r1 r2 m a b show ?thesis by blast
qed

lemma write_buffer_recorded:
  assumes "\<not> (m_HeapType this = D3D12_HEAP_TYPE_UPLOAD \<and>
               m_CurrentState this = D3D12_RESOURCE_STATE_GENERIC_READ)"
    and "m_pTemporaryWriteBuffer this = Some temp"
    and "n \<le> length pData" and "offs + n \<le> length (memory dev (m_pAllocation temp))"
    and "m_pAllocation temp \<noteq> m_pAllocation this"
  shows "fst (write_buffer env pData n offs (Some commandList) this dev) =
           Inr (this, Some (performCopy commandList this temp n offs offs))"
    and "memory (snd (write_buffer env pData n offs (Some commandList) this dev)) (m_pAllocation this) =
           memory dev (m_pAllocation this)"
    and "in_flight (snd (write_buffer env pData n offs (Some commandList) this dev)) = in_flight dev"
proof -
  from assms(2) have same: "this\<lparr>m_pTemporaryWriteBuffer := Some temp\<rparr> = this"
    by simp
  from assms(1) have staged: "(m_HeapType this = D3D12_HEAP_TYPE_UPLOAD \<and>
               m_CurrentState this = D3D12_RESOURCE_STATE_GENERIC_READ) = False"
    by simp
  have w: "write_buffer env pData n offs (Some commandList) this dev =
      (Inr (this, Some (performCopy commandList this temp n offs offs)),
       dev\<lparr>memory := (memory dev)(m_pAllocation temp :=
             take offs (memory dev (m_pAllocation temp)) @ take n pData @
             drop (offs + n) (memory dev (m_pAllocation temp)))\<rparr>)"
    unfolding write_buffer_def staged using assms(2-4)
    by (simp add: copy_n_def Let_def same)
  show "fst (write_buffer env pData n offs (Some commandList) this dev) =
           Inr (this, Some (performCopy commandList this temp n offs offs))"
    by (simp add: w)
  show "memory (snd (write_buffer env pData n offs (Some commandList) this dev)) (m_pAllocation this) =
           memory dev (m_pAllocation this)"
    using assms(5) by (simp add: w)
  show "in_flight (snd (write_buffer env pData n offs (Some commandList) this dev)) = in_flight dev"
    by (simp add: w)
qed

lemma copy_completes:
  assumes "\<forall>k. succeeds env k" and "in_flight dev = []"
    and "srcOffset + n \<le> length (memory dev (m_pAllocation src))"
    and "dstOffset + n \<le> length (memory dev (m_pAllocation this))"
  shows "fst (copy env this src n srcOffset dstOffset dev) = Inr ()"
    and "in_flight (snd (copy env this src n srcOffset dstOffset dev)) = []"
    and "take n (drop dstOffset (memory (snd (copy env this src n srcOffset dstOffset dev)) (m_pAllocation this))) =
         take n (drop srcOffset (memory dev (m_pAllocation src)))"
  using assms(3,4) by (simp_all add: copy_idle [OF assms(1,2)] exec_command_def)

text \<open>
  C9. \<open>copy\<close> on a platform whose event creation fails (the seventh platform call of
  \<open>copy\<close>) while the GPU has not started the work: \<open>copy\<close> logs an error and returns
  normally, with its command list still in flight and the destination unchanged, so it
  has returned without blocking until the copy was done.
\<close>

theorem copy_returns_without_waiting:
  "fst (copy no_event_platform staged_buffer upload_buffer 4 0 0 idle_device) = Inr () \<and>
   in_flight (snd (copy no_event_platform staged_buffer upload_buffer 4 0 0 idle_device)) =
     [ [ResourceBarrier 0 0 0x400, CopyBufferRegion 0 0 1 0 4, ResourceBarrier 0 0x400 0]] \<and>
   memory (snd (copy no_event_platform staged_buffer upload_buffer 4 0 0 idle_device)) 0 = [0, 0, 0, 0] \<and>
   memory (snd (copy no_event_platform staged_buffer upload_buffer 4 0 0 idle_device)) 1 = [5, 6, 7, 8] \<and>
   error_log (snd (copy no_event_platform staged_buffer upload_buffer 4 0 0 idle_device)) =
     [''Failed to wait till the command list execution!'']"
  by (simp add: copy_def asserted_def platform_call_def XENON_DX12_ASSERT_def
      ExecuteCommandLists_def gpu_run_def exec_lists_def performCopy_def needs_transition_def
      log_error_def no_event_platform_def staged_buffer_def upload_buffer_def idle_device_def
      sample_memory_def D3D12_RESOURCE_STATE_COMMON_def D3D12_RESOURCE_STATE_GENERIC_READ_def
      D3D12_RESOURCE_STATE_COPY_DEST_def D3D12_RESOURCE_STATE_COPY_SOURCE_def)

end
